theory Spec2Isabelle
  imports Main
begin

section \<open>Time values\<close>

text \<open>
  The handlers read the clock with \<^verbatim>\<open>new Date()\<close> and move dates with
  \<^verbatim>\<open>setDate\<close>, \<^verbatim>\<open>setMonth\<close> and \<^verbatim>\<open>setFullYear\<close>. A date is its time value:
  milliseconds since 1970-01-01T00:00:00Z, an \<^typ>\<open>int\<close>. The functions below are the
  abstract operations of the language standard that these methods are defined by
  (Day, TimeWithinDay, DaysInYear, DayFromYear, YearFromTime, MonthFromTime,
  DateFromTime, MakeDay, MakeDate, LocalTZA, LocalTime, UTC). The clipping of time
  values beyond 8.64e15 ms is left out: clock readings are far inside that range.
\<close>

definition msPerDay :: int where
  "msPerDay = 86400000"

definition Day :: "int \<Rightarrow> int" where
  "Day t = t div msPerDay"

definition TimeWithinDay :: "int \<Rightarrow> int" where
  "TimeWithinDay t = t mod msPerDay"

definition DaysInYear :: "int \<Rightarrow> int" where
  "DaysInYear y =
     (if y mod 4 \<noteq> 0 then 365
      else if y mod 100 \<noteq> 0 then 366
      else if y mod 400 \<noteq> 0 then 365
      else 366)"

definition DayFromYear :: "int \<Rightarrow> int" where
  "DayFromYear y =
     365 * (y - 1970) + (y - 1969) div 4 - (y - 1901) div 100 + (y - 1601) div 400"

lemma div_succ:
  fixes a n :: int
  assumes "0 < n"
  shows "(a + 1) div n = a div n + (if (a + 1) mod n = 0 then 1 else 0)"
proof (cases "a mod n + 1 = n")
  case True
  have "a + 1 = n * (a div n) + (a mod n + 1)"
    using mult_div_mod_eq[of n a] by simp
  also have "\<dots> = n * (a div n) + n" using True by simp
  finally have "a + 1 = n * (a div n + 1) + 0"
    by (simp add: algebra_simps)
  then have "(a + 1) div n = a div n + 1" "(a + 1) mod n = 0"
    using assms int_div_pos_eq[of "a + 1" n "a div n + 1" 0]
      int_mod_pos_eq[of "a + 1" n "a div n + 1" 0]
    by auto
  then show ?thesis by simp
next
  case False
  have "a mod n < n" "0 \<le> a mod n"
    using assms by simp_all
  then have r: "0 \<le> a mod n + 1" "a mod n + 1 < n"
    using False by linarith+
  have "a + 1 = n * (a div n) + (a mod n + 1)"
    using mult_div_mod_eq[of n a] by simp
  then have "(a + 1) div n = a div n" "(a + 1) mod n = a mod n + 1"
    using r int_div_pos_eq[of "a + 1" n "a div n" "a mod n + 1"]
      int_mod_pos_eq[of "a + 1" n "a div n" "a mod n + 1"] by auto
  moreover have "a mod n + 1 \<noteq> 0" using \<open>0 \<le> a mod n\<close> by linarith
  ultimately show ?thesis by simp
qed

lemma leap_step4:
  "(y + 1 - 1969) div 4 = (y - 1969) div 4 + (if y mod 4 = 0 then 1 else 0)" for y :: int
proof -
  have "(y - 1969 + 1) mod 4 = y mod 4" by algebra
  then show ?thesis using div_succ[of 4 "y - 1969"] by (simp add: algebra_simps)
qed

lemma leap_step100:
  "(y + 1 - 1901) div 100 = (y - 1901) div 100 + (if y mod 100 = 0 then 1 else 0)" for y :: int
proof -
  have "(y - 1901 + 1) mod 100 = y mod 100" by algebra
  then show ?thesis using div_succ[of 100 "y - 1901"] by (simp add: algebra_simps)
qed

lemma leap_step400:
  "(y + 1 - 1601) div 400 = (y - 1601) div 400 + (if y mod 400 = 0 then 1 else 0)" for y :: int
proof -
  have "(y - 1601 + 1) mod 400 = y mod 400" by algebra
  then show ?thesis using div_succ[of 400 "y - 1601"] by (simp add: algebra_simps)
qed

lemma mod100_mod4: "y mod 100 = 0 \<Longrightarrow> y mod 4 = 0" for y :: int
  using mod_mod_cancel[of 4 100 y] by simp

lemma mod400_mod100: "y mod 400 = 0 \<Longrightarrow> y mod 100 = 0" for y :: int
  using mod_mod_cancel[of 100 400 y] by simp

lemma DayFromYear_Suc: "DayFromYear (y + 1) = DayFromYear y + DaysInYear y"
  unfolding DayFromYear_def DaysInYear_def leap_step4 leap_step100 leap_step400
  using mod100_mod4[of y] mod400_mod100[of y] by auto

lemma DaysInYear_cases: "DaysInYear y = 365 \<or> DaysInYear y = 366"
  by (simp add: DaysInYear_def)

lemma DayFromYear_pred: "DayFromYear (y - 1) = DayFromYear y - DaysInYear (y - 1)"
  using DayFromYear_Suc[of "y - 1"] by simp

text \<open>
  YearFromTime is the largest year whose first day is not after the given day. The
  search walks from a starting year down while the year starts too late and up while
  the next year has already begun.
\<close>

function year_from :: "int \<Rightarrow> int \<Rightarrow> int" where
  "year_from d y =
     (if d < DayFromYear y then year_from d (y - 1)
      else if DayFromYear (y + 1) \<le> d then year_from d (y + 1)
      else y)"
  by pat_completeness auto
termination
proof (relation "measure (\<lambda>(d, y). if d < DayFromYear y
          then nat (DayFromYear y - d) + 366 else nat (d - DayFromYear y))")
  show "wf (measure (\<lambda>(d, y). if d < DayFromYear y
          then nat (DayFromYear y - d) + 366 else nat (d - DayFromYear y)))"
    by simp
next
  fix d y :: int
  assume "d < DayFromYear y"
  then show "((d, y - 1), (d, y)) \<in> measure (\<lambda>(d, y). if d < DayFromYear y
          then nat (DayFromYear y - d) + 366 else nat (d - DayFromYear y))"
    using DayFromYear_pred[of y] DaysInYear_cases[of "y - 1"] by auto
next
  fix d y :: int
  assume "\<not> d < DayFromYear y" "DayFromYear (y + 1) \<le> d"
  then show "((d, y + 1), (d, y)) \<in> measure (\<lambda>(d, y). if d < DayFromYear y
          then nat (DayFromYear y - d) + 366 else nat (d - DayFromYear y))"
    using DayFromYear_Suc[of y] DaysInYear_cases[of y] by auto
qed

declare year_from.simps [simp del]

definition YearFromTime :: "int \<Rightarrow> int" where
  "YearFromTime t = year_from (Day t) (1970 + Day t div 366)"

definition InLeapYear :: "int \<Rightarrow> int" where
  "InLeapYear t = (if DaysInYear (YearFromTime t) = 366 then 1 else 0)"

definition DayWithinYear :: "int \<Rightarrow> int" where
  "DayWithinYear t = Day t - DayFromYear (YearFromTime t)"

text \<open>The day number, within its year, of the first day of month \<open>m\<close> (0 to 11).\<close>

definition MonthStart :: "int \<Rightarrow> int \<Rightarrow> int" where
  "MonthStart m leap =
     (if m = 0 then 0 else if m = 1 then 31
      else if m = 2 then 59 + leap else if m = 3 then 90 + leap
      else if m = 4 then 120 + leap else if m = 5 then 151 + leap
      else if m = 6 then 181 + leap else if m = 7 then 212 + leap
      else if m = 8 then 243 + leap else if m = 9 then 273 + leap
      else if m = 10 then 304 + leap else if m = 11 then 334 + leap
      else 365 + leap)"

definition MonthFromTime :: "int \<Rightarrow> int" where
  "MonthFromTime t =
     (let d = DayWithinYear t; leap = InLeapYear t in
      if d < 31 then 0 else if d < 59 + leap then 1
      else if d < 90 + leap then 2 else if d < 120 + leap then 3
      else if d < 151 + leap then 4 else if d < 181 + leap then 5
      else if d < 212 + leap then 6 else if d < 243 + leap then 7
      else if d < 273 + leap then 8 else if d < 304 + leap then 9
      else if d < 334 + leap then 10 else 11)"

definition DateFromTime :: "int \<Rightarrow> int" where
  "DateFromTime t = DayWithinYear t - MonthStart (MonthFromTime t) (InLeapYear t) + 1"

definition MakeDay :: "int \<Rightarrow> int \<Rightarrow> int \<Rightarrow> int" where
  "MakeDay year month date =
     (let ym = year + month div 12; mn = month mod 12 in
      DayFromYear ym + MonthStart mn (if DaysInYear ym = 366 then 1 else 0) + date - 1)"

definition MakeDate :: "int \<Rightarrow> int \<Rightarrow> int" where
  "MakeDate day time = day * msPerDay + time"

text \<open>
  The time zone of the host is the standard's \<open>LocalTZA(t, isUTC)\<close>: the offset of
  local time from UTC, in milliseconds, in force at \<open>t\<close>. With \<open>isUTC\<close> true, \<open>t\<close> is a
  time value; with \<open>isUTC\<close> false, \<open>t\<close> is a local time, as read on the wall clock. The
  offset may change from one instant to another (daylight saving), and how a local
  time that the wall clock skips or shows twice is resolved is the host's choice, so
  the zone is a parameter: any function of this type.
\<close>

type_synonym zone = "int \<Rightarrow> bool \<Rightarrow> int"

definition LocalTime :: "zone \<Rightarrow> int \<Rightarrow> int" where
  "LocalTime z t = t + z t True"

definition UTC :: "zone \<Rightarrow> int \<Rightarrow> int" where
  "UTC z t = t - z t False"

subsection \<open>The Date methods the handlers call\<close>

definition getDate :: "zone \<Rightarrow> int \<Rightarrow> int" where
  "getDate z t = DateFromTime (LocalTime z t)"

definition getMonth :: "zone \<Rightarrow> int \<Rightarrow> int" where
  "getMonth z t = MonthFromTime (LocalTime z t)"

definition getFullYear :: "zone \<Rightarrow> int \<Rightarrow> int" where
  "getFullYear z t = YearFromTime (LocalTime z t)"

definition setDate :: "zone \<Rightarrow> int \<Rightarrow> int \<Rightarrow> int" where
  "setDate z t dt =
     (let t' = LocalTime z t;
          newDate = MakeDate (MakeDay (YearFromTime t') (MonthFromTime t') dt) (TimeWithinDay t')
      in UTC z newDate)"

definition setMonth :: "zone \<Rightarrow> int \<Rightarrow> int \<Rightarrow> int" where
  "setMonth z t m =
     (let t' = LocalTime z t;
          newDate = MakeDate (MakeDay (YearFromTime t') m (DateFromTime t')) (TimeWithinDay t')
      in UTC z newDate)"

definition setFullYear :: "zone \<Rightarrow> int \<Rightarrow> int \<Rightarrow> int" where
  "setFullYear z t y =
     (let t' = LocalTime z t;
          newDate = MakeDate (MakeDay y (MonthFromTime t') (DateFromTime t')) (TimeWithinDay t')
      in UTC z newDate)"

subsection \<open>calculateEndDate\<close>

text \<open>
  The helper of the webhook and status routes. \<open>now\<close> is the reading of
  \<^verbatim>\<open>new Date()\<close> inside the helper; \<open>endDate\<close> starts as a copy of it.
\<close>

definition calculateEndDate :: "zone \<Rightarrow> int \<Rightarrow> string \<Rightarrow> int" where
  "calculateEndDate z now planType =
     (let endDate = now in
      if planType = ''week'' then setDate z endDate (getDate z now + 7)
      else if planType = ''month'' then setMonth z endDate (getMonth z now + 1)
      else if planType = ''year'' then setFullYear z endDate (getFullYear z now + 1)
      else setMonth z endDate (getMonth z now + 1))"

text \<open>
  The helper of the verification route takes a plan type that may be absent and
  reads it as \<^verbatim>\<open>planType?.toString() || "month"\<close> first.
\<close>

definition calculateEndDate_verify :: "zone \<Rightarrow> int \<Rightarrow> string option \<Rightarrow> int" where
  "calculateEndDate_verify z now planType =
     (let endDate = now;
          planTypeStr = (case planType of None \<Rightarrow> ''month''
                         | Some s \<Rightarrow> if s = [] then ''month'' else s)
      in
      if planTypeStr = ''week'' then setDate z endDate (getDate z now + 7)
      else if planTypeStr = ''month'' then setMonth z endDate (getMonth z now + 1)
      else if planTypeStr = ''year'' then setFullYear z endDate (getFullYear z now + 1)
      else setMonth z endDate (getMonth z now + 1))"


subsection \<open>Calendar vocabulary of the specification\<close>

text \<open>
  The length of month \<open>m\<close> (0 to 11) in a year whose leap flag is \<open>leap\<close>, the leap
  flag of a year, and the length of the month that field arithmetic \<open>(year, month)\<close>
  names once \<open>month\<close> is carried into the year.
\<close>

definition DaysInMonth :: "int \<Rightarrow> int \<Rightarrow> int" where
  "DaysInMonth leap m = MonthStart (m + 1) leap - MonthStart m leap"

definition leap_flag :: "int \<Rightarrow> int" where
  "leap_flag y = (if DaysInYear y = 366 then 1 else 0)"

definition DaysInMonthOf :: "int \<Rightarrow> int \<Rightarrow> int" where
  "DaysInMonthOf year month = DaysInMonth (leap_flag (year + month div 12)) (month mod 12)"

text \<open>
  ``\<open>e\<close> is \<open>s\<close> plus \<open>k\<close> calendar months'': \<open>k\<close> months further in the calendar, on
  the same day of the month, at the same time of day. One calendar year is twelve
  calendar months.
\<close>

definition calendar_months_later :: "int \<Rightarrow> int \<Rightarrow> int \<Rightarrow> bool" where
  "calendar_months_later k s e \<longleftrightarrow>
     YearFromTime e * 12 + MonthFromTime e = YearFromTime s * 12 + MonthFromTime s + k \<and>
     DateFromTime e = DateFromTime s \<and>
     TimeWithinDay e = TimeWithinDay s"

section \<open>Values of the host language\<close>

text \<open>
  A field of a JSON body, a header, a query parameter or an environment variable is a
  string that may be absent: \<^typ>\<open>string option\<close>. An absent value and the empty
  string are both falsy. A thrown error is a value carrying its message.
\<close>

datatype error = Error (message: string)

definition truthy :: "string option \<Rightarrow> bool" where
  "truthy v = (case v of None \<Rightarrow> False | Some s \<Rightarrow> s \<noteq> [])"

text \<open>\<^verbatim>\<open>a || b\<close> on strings that may be absent, and \<^verbatim>\<open>a || "literal"\<close>.\<close>

definition or_else :: "string option \<Rightarrow> string option \<Rightarrow> string option" where
  "or_else a b = (if truthy a then a else b)"

definition or_default :: "string option \<Rightarrow> string \<Rightarrow> string" where
  "or_default a d = (case a of None \<Rightarrow> d | Some s \<Rightarrow> if s = [] then d else s)"

text \<open>\<^verbatim>\<open>String(v)\<close> and \<^verbatim>\<open>`${v}`\<close>: an absent value prints as \<open>undefined\<close>.\<close>

definition String_of :: "string option \<Rightarrow> string" where
  "String_of v = (case v of None \<Rightarrow> ''undefined'' | Some s \<Rightarrow> s)"

fun starts_with :: "string \<Rightarrow> string \<Rightarrow> bool" where
  "starts_with s [] = True"
| "starts_with [] (c # cs) = False"
| "starts_with (x # xs) (c # cs) = (x = c \<and> starts_with xs cs)"

text \<open>\<^verbatim>\<open>s.includes(sub)\<close>.\<close>

fun string_includes :: "string \<Rightarrow> string \<Rightarrow> bool" where
  "string_includes [] sub = (sub = [])"
| "string_includes (x # xs) sub = (starts_with (x # xs) sub \<or> string_includes xs sub)"

section \<open>Persisted records\<close>

text \<open>
  The two tables of the schema. Generated keys (\<open>uuid()\<close>, \<open>cuid()\<close>) are drawn
  from a counter of the store. \<open>createdAt\<close> defaults to the time of creation and
  \<open>updatedAt\<close> is set on every write of the row.
\<close>

record profile =
  profile_id :: nat
  profile_userId :: string
  email :: string
  subscriptionTier :: "string option"
  subscriptionActive :: bool
  stripeSubscriptionId :: "string option"
  profile_createdAt :: int
  profile_updatedAt :: int

record subscription =
  sub_id :: nat
  userId :: string
  planId :: string
  razorpaySubscriptionId :: "string option"
  razorpayPaymentId :: "string option"
  status :: string
  planType :: string
  startDate :: "int option"
  endDate :: "int option"
  isRecurring :: bool
  createdAt :: int
  updatedAt :: int

record store =
  profiles :: "profile list"
  subscriptions :: "subscription list"
  next_id :: nat

definition RecordNotFound :: error where
  "RecordNotFound = Error ''Record to update not found.''"

definition UniqueConstraintFailed :: error where
  "UniqueConstraintFailed = Error ''Unique constraint failed''"

definition ForeignKeyConstraintFailed :: error where
  "ForeignKeyConstraintFailed = Error ''Foreign key constraint failed''"

definition ValidationError :: error where
  "ValidationError = Error ''Argument is missing''"

text \<open>The error of reading property \<open>prop\<close> of a value that is \<^verbatim>\<open>undefined\<close>.\<close>

definition TypeError :: "string \<Rightarrow> error" where
  "TypeError prop =
     Error (''Cannot read properties of undefined (reading '' @ [CHR 0x27] @ prop @ [CHR 0x27] @ '')'')"

subsection \<open>Operations on the Profile table\<close>

definition profile_findUnique :: "store \<Rightarrow> string \<Rightarrow> profile option" where
  "profile_findUnique db uid = find (\<lambda>p. profile_userId p = uid) (profiles db)"

text \<open>
  \<^verbatim>\<open>prisma.profile.create\<close> with the data of the only call site of the repository.
  \<open>userId\<close> is unique.
\<close>

definition profile_create :: "int \<Rightarrow> string \<Rightarrow> string \<Rightarrow> store \<Rightarrow> error + store" where
  "profile_create now uid mail db =
     (if list_ex (\<lambda>p. profile_userId p = uid) (profiles db) then Inl UniqueConstraintFailed
      else Inr (db\<lparr>profiles := profiles db @
                  [\<lparr>profile_id = next_id db, profile_userId = uid, email = mail,
                    subscriptionTier = None, subscriptionActive = False,
                    stripeSubscriptionId = None,
                    profile_createdAt = now, profile_updatedAt = now\<rparr>],
                next_id := Suc (next_id db)\<rparr>))"

text \<open>
  \<^verbatim>\<open>prisma.profile.update({where: {userId}, data})\<close>: \<open>f\<close> writes the fields of
  \<open>data\<close>. It throws when no row has the key, and when it changes
  \<open>stripeSubscriptionId\<close> to a value held by another row (the column is unique).
\<close>

definition profile_update :: "int \<Rightarrow> string \<Rightarrow> (profile \<Rightarrow> profile) \<Rightarrow> store \<Rightarrow> error + store" where
  "profile_update now uid f db =
     (case profile_findUnique db uid of
        None \<Rightarrow> Inl RecordNotFound
      | Some p \<Rightarrow>
          let p' = (f p)\<lparr>profile_updatedAt := now\<rparr> in
          if stripeSubscriptionId p' \<noteq> None \<and>
             stripeSubscriptionId p' \<noteq> stripeSubscriptionId p \<and>
             list_ex (\<lambda>q. profile_userId q \<noteq> uid \<and>
                           stripeSubscriptionId q = stripeSubscriptionId p') (profiles db)
          then Inl UniqueConstraintFailed
          else Inr (db\<lparr>profiles :=
                       map (\<lambda>q. if profile_userId q = uid then p' else q) (profiles db)\<rparr>))"

subsection \<open>Operations on the Subscription table\<close>

text \<open>\<^verbatim>\<open>findFirst\<close> without an order: the first matching row in storage order.\<close>

definition subscription_findFirst :: "(subscription \<Rightarrow> bool) \<Rightarrow> store \<Rightarrow> subscription option" where
  "subscription_findFirst P db = find P (subscriptions db)"

text \<open>
  The row created last among \<open>xs\<close>; of several rows created at the same
  millisecond, the first in storage order.
\<close>

fun latest :: "subscription list \<Rightarrow> subscription option" where
  "latest [] = None"
| "latest (x # xs) =
     (case latest xs of
        None \<Rightarrow> Some x
      | Some y \<Rightarrow> if createdAt x < createdAt y then Some y else Some x)"

text \<open>\<^verbatim>\<open>findFirst\<close> with \<^verbatim>\<open>orderBy: {createdAt: 'desc'}\<close>.\<close>

definition subscription_findFirst_desc :: "(subscription \<Rightarrow> bool) \<Rightarrow> store \<Rightarrow> subscription option" where
  "subscription_findFirst_desc P db = latest (filter P (subscriptions db))"

definition subscription_findUnique :: "string \<Rightarrow> store \<Rightarrow> subscription option" where
  "subscription_findUnique rid db =
     find (\<lambda>s. razorpaySubscriptionId s = Some rid) (subscriptions db)"

text \<open>
  \<^verbatim>\<open>update({where: {id}, data})\<close> and \<^verbatim>\<open>update({where: {razorpaySubscriptionId}, data})\<close>
  throw when no row has the key; \<^verbatim>\<open>updateMany\<close> never does. No call site writes a
  constrained column.
\<close>

definition subscription_update :: "int \<Rightarrow> nat \<Rightarrow> (subscription \<Rightarrow> subscription) \<Rightarrow> store \<Rightarrow> error + store" where
  "subscription_update now i f db =
     (if list_ex (\<lambda>s. sub_id s = i) (subscriptions db)
      then Inr (db\<lparr>subscriptions :=
                   map (\<lambda>s. if sub_id s = i then (f s)\<lparr>updatedAt := now\<rparr> else s)
                       (subscriptions db)\<rparr>)
      else Inl RecordNotFound)"

definition subscription_updateMany :: "int \<Rightarrow> string \<Rightarrow> (subscription \<Rightarrow> subscription) \<Rightarrow> store \<Rightarrow> store" where
  "subscription_updateMany now rid f db =
     db\<lparr>subscriptions :=
          map (\<lambda>s. if razorpaySubscriptionId s = Some rid then (f s)\<lparr>updatedAt := now\<rparr> else s)
              (subscriptions db)\<rparr>"

definition subscription_update_unique :: "int \<Rightarrow> string \<Rightarrow> (subscription \<Rightarrow> subscription) \<Rightarrow> store \<Rightarrow> error + store" where
  "subscription_update_unique now rid f db =
     (if subscription_findUnique rid db = None then Inl RecordNotFound
      else Inr (subscription_updateMany now rid f db))"

text \<open>The data of \<^verbatim>\<open>prisma.subscription.create\<close>; the fields left out by a call are null.\<close>

record subscription_data =
  d_userId :: string
  d_planId :: string
  d_razorpaySubscriptionId :: string
  d_razorpayPaymentId :: "string option"
  d_status :: string
  d_planType :: string
  d_startDate :: "int option"
  d_endDate :: "int option"
  d_isRecurring :: bool

text \<open>
  \<open>userId\<close> is a foreign key into Profile and \<open>razorpaySubscriptionId\<close> is unique: a
  create that breaks either throws and stores nothing.
\<close>

definition subscription_create :: "int \<Rightarrow> subscription_data \<Rightarrow> store \<Rightarrow> error + store" where
  "subscription_create now d db =
     (if profile_findUnique db (d_userId d) = None then Inl ForeignKeyConstraintFailed
      else if subscription_findUnique (d_razorpaySubscriptionId d) db \<noteq> None
        then Inl UniqueConstraintFailed
      else Inr (db\<lparr>subscriptions := subscriptions db @
                  [\<lparr>sub_id = next_id db, userId = d_userId d, planId = d_planId d,
                    razorpaySubscriptionId = Some (d_razorpaySubscriptionId d),
                    razorpayPaymentId = d_razorpayPaymentId d,
                    status = d_status d, planType = d_planType d,
                    startDate = d_startDate d, endDate = d_endDate d,
                    isRecurring = d_isRecurring d,
                    createdAt = now, updatedAt = now\<rparr>],
                next_id := Suc (next_id db)\<rparr>))"

definition subscription_upsert ::
  "int \<Rightarrow> string \<Rightarrow> (subscription \<Rightarrow> subscription) \<Rightarrow> subscription_data \<Rightarrow> store \<Rightarrow> error + store" where
  "subscription_upsert now rid f d db =
     (case subscription_findUnique rid db of
        Some _ \<Rightarrow> subscription_update_unique now rid f db
      | None \<Rightarrow> subscription_create now d db)"


section \<open>External collaborators\<close>

text \<open>
  The payment provider is reached through the three calls of its client that the
  handlers make. Each returns a provider subscription or throws; \<open>fetch\<close> may also
  hand back nothing, which two handlers test for. A handler run records the calls
  it made, in order.
\<close>

record rzp_notes =
  n_userId :: "string option"
  n_planType :: "string option"
  n_email :: "string option"

record rzp_subscription =
  rzp_id :: string
  plan_id :: string
  rzp_status :: string
  short_url :: "string option"
  total_count :: int
  sub_notes :: "rzp_notes option"

record rzp_create_params =
  cp_plan_id :: string
  cp_total_count :: int
  cp_customer_notify :: int
  cp_notes :: rzp_notes

record razorpay =
  subscriptions_fetch :: "string \<Rightarrow> error + rzp_subscription option"
  subscriptions_create :: "rzp_create_params \<Rightarrow> error + rzp_subscription"
  subscriptions_cancel :: "string \<Rightarrow> error + rzp_subscription"

datatype rzp_call = Fetch string | Create rzp_create_params | Cancel string

text \<open>
  The process environment: the time zone of the host, the secrets, the public
  origin, the plan-to-price variables, and the keyed digest of the crypto library
  (\<open>createHmac key message\<close> is the hex digest of HMAC-SHA256).
\<close>

record env =
  LocalTZA :: zone
  RAZORPAY_WEBHOOK_SECRET :: "string option"
  RAZORPAY_KEY_SECRET :: "string option"
  NEXT_PUBLIC_APP_URL :: "string option"
  RAZORPAY_PRICE_WEEKLY :: "string option"
  RAZORPAY_PRICE_MONTHLY :: "string option"
  RAZORPAY_PRICE_YEARLY :: "string option"
  createHmac :: "string \<Rightarrow> string \<Rightarrow> string"

text \<open>A JSON response: the HTTP status (200 when the handler gives none) and the body.\<close>

record 'b response =
  http_status :: nat
  body :: 'b

definition json :: "'b \<Rightarrow> nat \<Rightarrow> 'b response" where
  "json b st = \<lparr>http_status = st, body = b\<rparr>"

text \<open>What a handler run leaves behind: the response, the store, the provider calls.\<close>

record 'b outcome =
  resp :: "'b response"
  db_after :: store
  calls :: "rzp_call list"

definition outcome :: "'b response \<Rightarrow> store \<Rightarrow> rzp_call list \<Rightarrow> 'b outcome" where
  "outcome r db cs = \<lparr>resp = r, db_after = db, calls = cs\<rparr>"

text \<open>\<^verbatim>\<open>request.headers.get('origin') || process.env.NEXT_PUBLIC_APP_URL || 'http://localhost:3000'\<close>\<close>

definition request_origin :: "env \<Rightarrow> string option \<Rightarrow> string" where
  "request_origin e origin_header =
     or_default (or_else origin_header (NEXT_PUBLIC_APP_URL e)) ''http://localhost:3000''"

definition callback_url :: "string \<Rightarrow> string \<Rightarrow> string" where
  "callback_url origin sid = origin @ ''/subscribe?sessionId='' @ sid"

section \<open>Profile provisioning: POST /api/create-profile\<close>

text \<open>
  Source: \<^verbatim>\<open>src/app/api/create-profile/route.ts\<close>. Here and in every handler below,
  \<open>now\<close> is the reading of the clock during the request: all the \<^verbatim>\<open>new Date()\<close> of
  one request read the same millisecond.
\<close>

record clerk_user =
  clerk_id :: string
  emailAddresses :: "string list"

datatype profile_body = ProfileError string | ProfileMessage string

definition create_profile_POST :: "int \<Rightarrow> clerk_user option \<Rightarrow> store \<Rightarrow> profile_body response \<times> store" where
  "create_profile_POST now clerkUser db =
     (case clerkUser of
        None \<Rightarrow> (json (ProfileError ''User not found in Clerk.'') 404, db)
      | Some u \<Rightarrow>
          let mail = (case emailAddresses u of [] \<Rightarrow> [] | a # _ \<Rightarrow> a) in
          if mail = [] then (json (ProfileError ''User does not have an email address.'') 400, db)
          else
            (case profile_findUnique db (clerk_id u) of
               Some existingProfile \<Rightarrow> (json (ProfileMessage ''Profile already exists.'') 200, db)
             | None \<Rightarrow>
                 (case profile_create now (clerk_id u) mail db of
                    Inl err \<Rightarrow> (json (ProfileError (message err)) 500, db)
                  | Inr db' \<Rightarrow> (json (ProfileMessage ''Profile created successfully.'') 201, db'))))"

section \<open>Subscription creation: POST of the checkout route\<close>

text \<open>
  Source: \<^verbatim>\<open>src/unnamed/part_001\<close>, with \<^verbatim>\<open>getPriceIdFromType\<close> from the plans
  module (second document of \<^verbatim>\<open>src/app/layout.tsx\<close>).
\<close>

definition getPriceIdFromType :: "env \<Rightarrow> string \<Rightarrow> string option" where
  "getPriceIdFromType e plan =
     (if plan = ''week'' then RAZORPAY_PRICE_WEEKLY e
      else if plan = ''month'' then RAZORPAY_PRICE_MONTHLY e
      else if plan = ''year'' then RAZORPAY_PRICE_YEARLY e
      else None)"

record checkout_request =
  co_planType :: "string option"
  co_userId :: "string option"
  co_email :: "string option"
  co_origin :: "string option"

datatype checkout_body =
    CheckoutError string
  | CheckoutAlreadyActive string string "int option"
  | CheckoutCreated string string string "string option" string

text \<open>
  \<open>CheckoutAlreadyActive error currentPlan endDate\<close> and
  \<open>CheckoutCreated subscriptionId planId status url callbackUrl\<close> are the two
  structured bodies of the route.
\<close>

definition end_not_before :: "int \<Rightarrow> subscription \<Rightarrow> bool" where
  "end_not_before now s = (case endDate s of None \<Rightarrow> False | Some e \<Rightarrow> now \<le> e)"

definition already_active_message :: string where
  "already_active_message =
     ''You already have an active subscription. You cannot subscribe to a different plan. Please wait until your current subscription expires.''"

definition checkout_POST :: "env \<Rightarrow> razorpay \<Rightarrow> int \<Rightarrow> checkout_request \<Rightarrow> store \<Rightarrow> checkout_body outcome" where
  "checkout_POST e rzp now req db =
     (if \<not> truthy (co_planType req) \<or> \<not> truthy (co_userId req) \<or> \<not> truthy (co_email req)
      then outcome (json (CheckoutError ''Plan Type, userId and email are required'') 400) db []
      else
        let plan = the (co_planType req); uid = the (co_userId req);
            mail = the (co_email req) in
        if plan \<notin> set [''week'', ''month'', ''year'']
        then outcome (json (CheckoutError ''Invalid plan type'') 400) db []
        else if \<not> truthy (getPriceIdFromType e plan)
        then outcome (json (CheckoutError ''Invalid price id'') 400) db []
        else
          let priceId = the (getPriceIdFromType e plan) in
          (case subscription_findFirst
                  (\<lambda>s. userId s = uid \<and> status s = ''active'' \<and> end_not_before now s) db of
             Some activeSubscription \<Rightarrow>
               outcome (json (CheckoutAlreadyActive already_active_message
                                (planType activeSubscription) (endDate activeSubscription)) 400) db []
           | None \<Rightarrow>
               let params = \<lparr>cp_plan_id = priceId, cp_total_count = 1, cp_customer_notify = 1,
                             cp_notes = \<lparr>n_userId = Some uid, n_planType = Some plan,
                                         n_email = Some mail\<rparr>\<rparr> in
               (case subscriptions_create rzp params of
                  Inl err \<Rightarrow>
                    outcome (json (CheckoutError ''Failed to create subscription session'') 500)
                      db [Create params]
                | Inr sub \<Rightarrow>
                    let callbackUrl = callback_url (request_origin e (co_origin req)) (rzp_id sub) in
                    (case subscription_create now
                            \<lparr>d_userId = uid, d_planId = plan_id sub,
                             d_razorpaySubscriptionId = rzp_id sub, d_razorpayPaymentId = None,
                             d_status = rzp_status sub, d_planType = plan,
                             d_startDate = None, d_endDate = None, d_isRecurring = False\<rparr> db of
                       Inl err \<Rightarrow>
                         outcome (json (CheckoutError ''Failed to create subscription session'') 500)
                           db [Create params]
                     | Inr db' \<Rightarrow>
                         outcome (json (CheckoutCreated (rzp_id sub) (plan_id sub) (rzp_status sub)
                                          (short_url sub) callbackUrl) 200)
                           db' [Create params]))))"

section \<open>Subscription status query: GET of the check-subscription route\<close>

text \<open>Source: \<^verbatim>\<open>src/unnamed/part_002\<close>.\<close>

datatype status_body =
    StatusError string
  | StatusActive string "string option" "int option" bool
  | StatusPending "string option" string
  | StatusInactive

text \<open>
  \<open>StatusActive subscriptionTier subscriptionId endDate isRecurring\<close> has
  \<open>isActive: true, isPending: false\<close>; the promoted branch sends no \<open>endDate\<close>.
  \<open>StatusPending pendingSubscriptionId pendingPlanType\<close> has
  \<open>isActive: false, isPending: true\<close>, and \<open>StatusInactive\<close> is
  \<open>{isActive: false, isPending: false}\<close>.
\<close>

definition pending_family :: "string list" where
  "pending_family = [''created'', ''authenticated'', ''pending'']"

definition is_active_row :: "string \<Rightarrow> int \<Rightarrow> subscription \<Rightarrow> bool" where
  "is_active_row uid now s \<longleftrightarrow>
     userId s = uid \<and> status s \<in> set [''active'', ''completed''] \<and> end_not_before now s"

definition is_pending_row :: "string \<Rightarrow> subscription \<Rightarrow> bool" where
  "is_pending_row uid s \<longleftrightarrow> userId s = uid \<and> status s \<in> set pending_family"

text \<open>
  The body of the inner \<^verbatim>\<open>try\<close>: \<open>Inl\<close> is a thrown error, with the store and the
  calls as they stood when it was thrown; \<open>Inr (Some r)\<close> is a \<^verbatim>\<open>return\<close> from the
  handler; \<open>Inr None\<close> falls out of the block.
\<close>

definition check_pending ::
  "env \<Rightarrow> razorpay \<Rightarrow> int \<Rightarrow> string \<Rightarrow> subscription \<Rightarrow> store
     \<Rightarrow> (store \<times> rzp_call list) + (status_body response option \<times> store \<times> rzp_call list)" where
  "check_pending e rzp now uid pendingSubscription db =
     (let rid = or_default (razorpaySubscriptionId pendingSubscription) [];
          cs = [Fetch rid] in
      case subscriptions_fetch rzp rid of
        Inl err \<Rightarrow> Inl (db, cs)
      | Inr None \<Rightarrow> Inl (db, cs)
      | Inr (Some razorpaySubscription) \<Rightarrow>
          if rzp_status razorpaySubscription = ''active''
             \<or> rzp_status razorpaySubscription = ''completed''
          then
            (case subscription_update now (sub_id pendingSubscription)
                    (\<lambda>s. s\<lparr>status := ''active'', startDate := Some now,
                            endDate := Some (calculateEndDate (LocalTZA e) now
                                               (planType pendingSubscription))\<rparr>) db of
               Inl err \<Rightarrow> Inl (db, cs)
             | Inr db1 \<Rightarrow>
                 (case profile_update now uid
                         (\<lambda>p. p\<lparr>subscriptionActive := True,
                                 subscriptionTier := Some (planType pendingSubscription)\<rparr>) db1 of
                    Inl err \<Rightarrow> Inl (db1, cs)
                  | Inr db2 \<Rightarrow>
                      Inr (Some (json (StatusActive (planType pendingSubscription)
                                          (razorpaySubscriptionId pendingSubscription) None
                                          (isRecurring pendingSubscription)) 200), db2, cs)))
          else if rzp_status razorpaySubscription \<in> set pending_family
          then Inr (Some (json (StatusPending (razorpaySubscriptionId pendingSubscription)
                                   (planType pendingSubscription)) 200), db, cs)
          else
            (case subscription_update now (sub_id pendingSubscription)
                    (\<lambda>s. s\<lparr>status := rzp_status razorpaySubscription\<rparr>) db of
               Inl err \<Rightarrow> Inl (db, cs)
             | Inr db1 \<Rightarrow> Inr (None, db1, cs)))"

definition check_subscription_GET ::
  "env \<Rightarrow> razorpay \<Rightarrow> int \<Rightarrow> string option \<Rightarrow> store \<Rightarrow> status_body outcome" where
  "check_subscription_GET e rzp now userId_param db =
     (if \<not> truthy userId_param
      then outcome (json (StatusError ''User ID is required'') 400) db []
      else
        let uid = the userId_param in
        case subscription_findFirst_desc (is_active_row uid now) db of
          Some activeSubscription \<Rightarrow>
            outcome (json (StatusActive (planType activeSubscription)
                             (razorpaySubscriptionId activeSubscription)
                             (endDate activeSubscription) False) 200) db []
        | None \<Rightarrow>
            (case subscription_findFirst_desc (is_pending_row uid) db of
               None \<Rightarrow> outcome (json StatusInactive 200) db []
             | Some pendingSubscription \<Rightarrow>
                 (case check_pending e rzp now uid pendingSubscription db of
                    Inl (db', cs) \<Rightarrow> outcome (json StatusInactive 200) db' cs
                  | Inr (Some r, db', cs) \<Rightarrow> outcome r db' cs
                  | Inr (None, db', cs) \<Rightarrow> outcome (json StatusInactive 200) db' cs)))"


section \<open>Payment verification: POST /api/verify-payment\<close>

text \<open>Source: \<^verbatim>\<open>src/app/api/verify-payment/route.ts\<close>.\<close>

record verify_request =
  vr_sessionId :: "string option"
  vr_subscriptionId :: "string option"
  razorpay_payment_id :: "string option"
  razorpay_subscription_id :: "string option"
  razorpay_signature :: "string option"
  vr_userId :: "string option"

datatype verify_body =
    VerifyError string
  | VerifyPending string string
  | VerifyNotCompleted string string
  | VerifySuccess string
  | VerifyStatus string string

text \<open>\<^verbatim>\<open>subscription.notes?.userId\<close> and its siblings.\<close>

definition notes_userId :: "rzp_subscription \<Rightarrow> string option" where
  "notes_userId sub = (case sub_notes sub of None \<Rightarrow> None | Some n \<Rightarrow> n_userId n)"

definition notes_planType :: "rzp_subscription \<Rightarrow> string option" where
  "notes_planType sub = (case sub_notes sub of None \<Rightarrow> None | Some n \<Rightarrow> n_planType n)"


text \<open>The branch taken when the body carries \<open>sessionId\<close> or \<open>subscriptionId\<close>.\<close>

definition verify_redirect ::
  "env \<Rightarrow> razorpay \<Rightarrow> int \<Rightarrow> string \<Rightarrow> store \<Rightarrow> verify_body outcome" where
  "verify_redirect e rzp now sessionId db =
     (let cs = [Fetch sessionId] in
      case subscriptions_fetch rzp sessionId of
        Inl err \<Rightarrow>
          outcome (json (VerifyError (or_default (Some (message err)) ''Failed to verify payment'')) 500)
            db cs
      | Inr fetched \<Rightarrow>
          let dbsubscritpion =
                subscription_findFirst (\<lambda>s. razorpaySubscriptionId s = Some sessionId) db in
          (case fetched of
             None \<Rightarrow> outcome (json (VerifyError ''Subscription not found'') 404) db cs
           | Some sub \<Rightarrow>
               let uid_opt = notes_userId sub;
                   plan = or_default (notes_planType sub) ''month'' in
               if \<not> truthy uid_opt
               then outcome (json (VerifyError ''User ID not found in subscription'') 400) db cs
               else if rzp_status sub = ''created'' \<or> rzp_status sub = ''authenticated''
               then outcome (json (VerifyPending ''Subscription payment is pending'' (rzp_id sub)) 200)
                      db cs
               else if rzp_status sub = ''cancelled''
               then outcome (json (VerifyNotCompleted ''Payment was not completed'' (rzp_id sub)) 200)
                      db cs
               else if (rzp_status sub = ''active'' \<or> rzp_status sub = ''completed'')
                       \<and> map_option status dbsubscritpion \<noteq> Some ''cancelled''
               then
                 (case subscription_upsert now sessionId
                         (\<lambda>s. s\<lparr>status := ''active'', startDate := Some now,
                                 endDate := Some (calculateEndDate_verify (LocalTZA e) now (Some plan))\<rparr>)
                         \<lparr>d_userId = the uid_opt, d_planId = plan_id sub,
                          d_razorpaySubscriptionId = rzp_id sub, d_razorpayPaymentId = None,
                          d_status = ''active'', d_planType = plan,
                          d_startDate = Some now,
                          d_endDate = Some (calculateEndDate_verify (LocalTZA e) now (Some plan)),
                          d_isRecurring = False\<rparr> db of
                    Inl err \<Rightarrow>
                      outcome (json (VerifyError
                                 (or_default (Some (message err)) ''Failed to verify payment'')) 500)
                        db cs
                  | Inr db1 \<Rightarrow>
                      (case profile_update now (the uid_opt)
                              (\<lambda>p. p\<lparr>subscriptionActive := True,
                                      subscriptionTier := Some (or_default (Some plan) ''month''),
                                      stripeSubscriptionId := Some (rzp_id sub)\<rparr>) db1 of
                         Inl err \<Rightarrow>
                           outcome (json (VerifyError
                                      (or_default (Some (message err)) ''Failed to verify payment'')) 500)
                             db1 cs
                       | Inr db2 \<Rightarrow>
                           outcome (json (VerifySuccess ''Subscription verified and activated'') 200)
                             db2 cs))
               else outcome (json (VerifyStatus (''Subscription status: '' @ rzp_status sub)
                                     (rzp_status sub)) 200) db cs))"

text \<open>
  The branch taken otherwise, which the source calls the original webhook
  verification flow. The provider client rejects a call without an identifier, so
  an absent \<open>razorpay_subscription_id\<close> is fetched as the empty identifier; an
  upsert on an absent key is refused by the persistence client.
\<close>

definition verify_signature ::
  "env \<Rightarrow> razorpay \<Rightarrow> int \<Rightarrow> verify_request \<Rightarrow> store \<Rightarrow> verify_body outcome" where
  "verify_signature e rzp now req db =
     (let generatedSignature =
            createHmac e (or_default (RAZORPAY_KEY_SECRET e) [])
              (String_of (razorpay_payment_id req) @ ''|'' @ String_of (razorpay_subscription_id req)) in
      if Some generatedSignature \<noteq> razorpay_signature req
      then outcome (json (VerifyError ''Invalid signature'') 400) db []
      else
        let rid = or_default (razorpay_subscription_id req) []; cs = [Fetch rid] in
        case subscriptions_fetch rzp rid of
          Inl err \<Rightarrow>
            outcome (json (VerifyError (or_default (Some (message err)) ''Failed to verify payment'')) 500)
              db cs
        | Inr None \<Rightarrow>
            outcome (json (VerifyError (or_default (Some (message (TypeError ''notes''))) ''Failed to verify payment'')) 500)
              db cs
        | Inr (Some sub) \<Rightarrow>
            let plan = or_default (notes_planType sub) ''month'' in
            (case (case razorpay_subscription_id req of
                     None \<Rightarrow> Inl ValidationError
                   | Some key \<Rightarrow>
                       subscription_upsert now key
                         (\<lambda>s. (case razorpay_payment_id req of
                                  None \<Rightarrow> s
                                | Some pid \<Rightarrow> s\<lparr>razorpayPaymentId := Some pid\<rparr>)
                               \<lparr>status := ''active'', startDate := Some now,
                                endDate := Some (calculateEndDate_verify (LocalTZA e) now (Some plan))\<rparr>)
                         \<lparr>d_userId = String_of (vr_userId req), d_planId = plan_id sub,
                          d_razorpaySubscriptionId = rzp_id sub,
                          d_razorpayPaymentId = razorpay_payment_id req,
                          d_status = ''active'', d_planType = plan,
                          d_startDate = Some now,
                          d_endDate = Some (calculateEndDate_verify (LocalTZA e) now (Some plan)),
                          d_isRecurring = False\<rparr> db) of
               Inl err \<Rightarrow>
                 outcome (json (VerifyError
                            (or_default (Some (message err)) ''Failed to verify payment'')) 500)
                   db cs
             | Inr db1 \<Rightarrow>
                 (case profile_update now (String_of (vr_userId req))
                         (\<lambda>p. p\<lparr>subscriptionActive := True,
                                 subscriptionTier := Some (or_default (Some plan) ''month''),
                                 stripeSubscriptionId := razorpay_subscription_id req\<rparr>) db1 of
                    Inl err \<Rightarrow>
                      outcome (json (VerifyError
                                 (or_default (Some (message err)) ''Failed to verify payment'')) 500)
                        db1 cs
                  | Inr db2 \<Rightarrow>
                      outcome (json (VerifySuccess ''Payment verified and subscription activated'') 200)
                        db2 cs)))"

definition verify_payment_POST ::
  "env \<Rightarrow> razorpay \<Rightarrow> int \<Rightarrow> verify_request \<Rightarrow> store \<Rightarrow> verify_body outcome" where
  "verify_payment_POST e rzp now req db =
     (if truthy (vr_sessionId req) \<or> truthy (vr_subscriptionId req)
      then verify_redirect e rzp now (the (or_else (vr_sessionId req) (vr_subscriptionId req))) db
      else verify_signature e rzp now req db)"

section \<open>Cancellation: POST /api/cancel-subscription\<close>

text \<open>Source: \<^verbatim>\<open>src/app/api/cancel-subscription/route.ts\<close>, first document.\<close>

record cancel_request =
  cr_subscriptionId :: "string option"
  cr_userId :: "string option"

datatype cancel_body = CancelError string | CancelFailure string | CancelSuccess string

text \<open>
  \<open>CancelError\<close> is \<open>{error}\<close>, \<open>CancelFailure\<close> is \<open>{success: false, error}\<close> and
  \<open>CancelSuccess\<close> is \<open>{success: true, message}\<close>.
\<close>

definition completed_message :: string where
  "completed_message = ''Subscription is completed. Your access will remain until the end date.''"

definition deactivate :: "profile \<Rightarrow> profile" where
  "deactivate p = p\<lparr>subscriptionActive := False, stripeSubscriptionId := None,
                    subscriptionTier := None\<rparr>"

text \<open>
  The first \<^verbatim>\<open>try\<close>: \<open>Inr\<close> is the early return of the completed branch, \<open>Inl\<close>
  is the store with which the handler goes on, whether the block ended or threw.
\<close>

definition cancel_check_completed ::
  "razorpay \<Rightarrow> int \<Rightarrow> string \<Rightarrow> string \<Rightarrow> subscription \<Rightarrow> store \<Rightarrow> store + (cancel_body response \<times> store)" where
  "cancel_check_completed rzp now sid uid sub db =
     (case subscriptions_fetch rzp sid of
        Inl err \<Rightarrow> Inl db
      | Inr None \<Rightarrow> Inl db
      | Inr (Some razorpaySubscription) \<Rightarrow>
          if rzp_status razorpaySubscription = ''completed''
          then
            (case subscription_update now (sub_id sub) (\<lambda>s. s\<lparr>status := ''cancelled''\<rparr>) db of
               Inl err \<Rightarrow> Inl db
             | Inr db1 \<Rightarrow>
                 (case profile_update now uid deactivate db1 of
                    Inl err \<Rightarrow> Inl db1
                  | Inr db2 \<Rightarrow> Inr (json (CancelSuccess completed_message) 200, db2)))
          else Inl db)"

text \<open>The \<^verbatim>\<open>catch\<close> of the second \<^verbatim>\<open>try\<close>, entered with the error and the store so far.\<close>

definition cancel_catch ::
  "int \<Rightarrow> subscription \<Rightarrow> error \<Rightarrow> store \<Rightarrow> cancel_body response \<times> store" where
  "cancel_catch now sub err db =
     (if string_includes (message err) ''completed''
         \<or> string_includes (message err) ''already been processed''
      then
        (case subscription_update now (sub_id sub) (\<lambda>s. s\<lparr>status := ''cancelled''\<rparr>) db of
           Inl err2 \<Rightarrow>
             (json (CancelFailure (or_default (Some (message err2)) ''Failed to cancel subscription'')) 500, db)
         | Inr db1 \<Rightarrow> (json (CancelSuccess completed_message) 200, db1))
      else (json (CancelFailure (or_default (Some (message err)) ''Failed to cancel subscription'')) 500, db))"

definition cancel_at_provider ::
  "razorpay \<Rightarrow> int \<Rightarrow> string \<Rightarrow> string \<Rightarrow> subscription \<Rightarrow> store \<Rightarrow> cancel_body response \<times> store" where
  "cancel_at_provider rzp now sid uid sub db =
     (case subscriptions_cancel rzp sid of
        Inl err \<Rightarrow> cancel_catch now sub err db
      | Inr result \<Rightarrow>
          (case subscription_update now (sub_id sub) (\<lambda>s. s\<lparr>status := ''cancelled''\<rparr>) db of
             Inl err \<Rightarrow> cancel_catch now sub err db
           | Inr db1 \<Rightarrow>
               (case profile_update now uid deactivate db1 of
                  Inl err \<Rightarrow> cancel_catch now sub err db1
                | Inr db2 \<Rightarrow> (json (CancelSuccess ''Subscription cancelled successfully'') 200, db2))))"

definition cancel_subscription_POST ::
  "razorpay \<Rightarrow> int \<Rightarrow> cancel_request \<Rightarrow> store \<Rightarrow> cancel_body outcome" where
  "cancel_subscription_POST rzp now req db =
     (if \<not> truthy (cr_subscriptionId req) \<or> \<not> truthy (cr_userId req)
      then outcome (json (CancelError ''Subscription ID and user ID are required'') 400) db []
      else
        let sid = the (cr_subscriptionId req); uid = the (cr_userId req) in
        case subscription_findFirst
               (\<lambda>s. razorpaySubscriptionId s = Some sid \<and> userId s = uid) db of
          None \<Rightarrow>
            outcome (json (CancelError ''Subscription not found or does not belong to this user'') 404)
              db []
        | Some sub \<Rightarrow>
            (case cancel_check_completed rzp now sid uid sub db of
               Inr (r, db') \<Rightarrow> outcome r db' [Fetch sid]
             | Inl db0 \<Rightarrow>
                 (case cancel_at_provider rzp now sid uid sub db0 of
                    (r, db') \<Rightarrow> outcome r db' [Fetch sid, Cancel sid])))"


section \<open>Resumption: POST of the resume-payment route\<close>





section \<open>Webhook receiver: POST /api/razorpay-webhook\<close>

text \<open>Source: \<^verbatim>\<open>src/app/api/razorpay-webhook/route.ts\<close>, first document.\<close>

text \<open>
  The parsed event: its name, and the entity of \<^verbatim>\<open>payload.subscription || payload.payment\<close>
  (absent when the body has neither, in which case reading its \<^verbatim>\<open>entity\<close> throws).
\<close>

record rzp_entity =
  entity_id :: string
  entity_plan_id :: string
  entity_notes :: "rzp_notes option"
  subscription_id :: "string option"

record webhook_data =
  event :: string
  payload :: "rzp_entity option"

datatype webhook_body = WebhookError string | WebhookReceived

definition entity_userId :: "rzp_entity \<Rightarrow> string option" where
  "entity_userId ent = (case entity_notes ent of None \<Rightarrow> None | Some n \<Rightarrow> n_userId n)"

definition entity_planType :: "rzp_entity \<Rightarrow> string option" where
  "entity_planType ent = (case entity_notes ent of None \<Rightarrow> None | Some n \<Rightarrow> n_planType n)"

text \<open>
  Each event handler returns the store it leaves. Errors thrown inside its
  \<^verbatim>\<open>try\<close> are swallowed there, keeping the writes already made; reading an absent
  payload throws before the \<^verbatim>\<open>try\<close> and is the only \<open>Inl\<close>.
\<close>

definition handleSubscriptionActivated :: "env \<Rightarrow> int \<Rightarrow> rzp_entity option \<Rightarrow> store \<Rightarrow> error + store" where
  "handleSubscriptionActivated e now pl db =
     (case pl of
        None \<Rightarrow> Inl (TypeError ''entity'')
      | Some ent \<Rightarrow>
          let subscriptionId = entity_id ent; uid = entity_userId ent;
              plan = entity_planType ent; pid = entity_plan_id ent in
          if \<not> truthy uid \<or> \<not> truthy plan \<or> pid = [] then Inr db
          else
            (case subscription_upsert now subscriptionId
                    (\<lambda>s. s\<lparr>status := ''active'', startDate := Some now,
                            endDate := Some (calculateEndDate (LocalTZA e) now (the plan))\<rparr>)
                    \<lparr>d_userId = the uid, d_planId = pid,
                     d_razorpaySubscriptionId = subscriptionId, d_razorpayPaymentId = None,
                     d_status = ''active'', d_planType = the plan,
                     d_startDate = Some now,
                     d_endDate = Some (calculateEndDate (LocalTZA e) now (the plan)),
                     d_isRecurring = False\<rparr> db of
               Inl err \<Rightarrow> Inr db
             | Inr db1 \<Rightarrow>
                 (case profile_update now (the uid)
                         (\<lambda>p. p\<lparr>subscriptionActive := True, subscriptionTier := plan,
                                 stripeSubscriptionId := Some subscriptionId\<rparr>) db1 of
                    Inl err \<Rightarrow> Inr db1
                  | Inr db2 \<Rightarrow> Inr db2)))"

definition handleSubscriptionPending :: "int \<Rightarrow> rzp_entity option \<Rightarrow> store \<Rightarrow> error + store" where
  "handleSubscriptionPending now pl db =
     (case pl of
        None \<Rightarrow> Inl (TypeError ''entity'')
      | Some ent \<Rightarrow>
          let subscriptionId = entity_id ent; uid = entity_userId ent;
              plan = entity_planType ent; pid = entity_plan_id ent in
          if \<not> truthy uid \<or> \<not> truthy plan \<or> pid = [] then Inr db
          else
            (case subscription_upsert now subscriptionId
                    (\<lambda>s. s\<lparr>status := ''pending''\<rparr>)
                    \<lparr>d_userId = the uid, d_planId = pid,
                     d_razorpaySubscriptionId = subscriptionId, d_razorpayPaymentId = None,
                     d_status = ''pending'', d_planType = the plan,
                     d_startDate = None, d_endDate = None, d_isRecurring = False\<rparr> db of
               Inl err \<Rightarrow> Inr db
             | Inr db1 \<Rightarrow> Inr db1))"

text \<open>\<open>subscription.halted\<close> and \<open>subscription.cancelled\<close> differ in the status written.\<close>

definition handleSubscriptionStopped :: "string \<Rightarrow> int \<Rightarrow> rzp_entity option \<Rightarrow> store \<Rightarrow> error + store" where
  "handleSubscriptionStopped st now pl db =
     (case pl of
        None \<Rightarrow> Inl (TypeError ''entity'')
      | Some ent \<Rightarrow>
          let subscriptionId = entity_id ent in
          (case subscription_findUnique subscriptionId db of
             None \<Rightarrow> Inr db
           | Some sub \<Rightarrow>
               (case subscription_update_unique now subscriptionId (\<lambda>s. s\<lparr>status := st\<rparr>) db of
                  Inl err \<Rightarrow> Inr db
                | Inr db1 \<Rightarrow>
                    (case profile_update now (userId sub) (\<lambda>p. p\<lparr>subscriptionActive := False\<rparr>) db1 of
                       Inl err \<Rightarrow> Inr db1
                     | Inr db2 \<Rightarrow> Inr db2))))"

definition handleSubscriptionHalted :: "int \<Rightarrow> rzp_entity option \<Rightarrow> store \<Rightarrow> error + store" where
  "handleSubscriptionHalted = handleSubscriptionStopped ''halted''"

definition handleSubscriptionCancelled :: "int \<Rightarrow> rzp_entity option \<Rightarrow> store \<Rightarrow> error + store" where
  "handleSubscriptionCancelled = handleSubscriptionStopped ''cancelled''"

definition handlePaymentCaptured :: "int \<Rightarrow> rzp_entity option \<Rightarrow> store \<Rightarrow> error + store" where
  "handlePaymentCaptured now pl db =
     (case pl of
        None \<Rightarrow> Inl (TypeError ''entity'')
      | Some ent \<Rightarrow>
          let paymentId = entity_id ent; subscriptionId = subscription_id ent in
          if \<not> truthy subscriptionId then Inr db
          else Inr (subscription_updateMany now (the subscriptionId)
                      (\<lambda>s. s\<lparr>razorpayPaymentId := Some paymentId, status := ''active''\<rparr>) db))"

definition handlePaymentFailed :: "int \<Rightarrow> rzp_entity option \<Rightarrow> store \<Rightarrow> error + store" where
  "handlePaymentFailed now pl db =
     (case pl of
        None \<Rightarrow> Inl (TypeError ''entity'')
      | Some ent \<Rightarrow>
          let subscriptionId = subscription_id ent in
          if \<not> truthy subscriptionId then Inr db
          else
            let db1 = subscription_updateMany now (the subscriptionId)
                        (\<lambda>s. s\<lparr>status := ''halted''\<rparr>) db in
            (case subscription_findFirst
                    (\<lambda>s. razorpaySubscriptionId s = subscriptionId) db1 of
               None \<Rightarrow> Inr db1
             | Some sub \<Rightarrow>
                 (case profile_update now (userId sub) (\<lambda>p. p\<lparr>subscriptionActive := False\<rparr>) db1 of
                    Inl err \<Rightarrow> Inr db1
                  | Inr db2 \<Rightarrow> Inr db2)))"

definition dispatch_event :: "env \<Rightarrow> int \<Rightarrow> webhook_data \<Rightarrow> store \<Rightarrow> error + store" where
  "dispatch_event e now w db =
     (if event w = ''subscription.activated'' then handleSubscriptionActivated e now (payload w) db
      else if event w = ''subscription.pending'' then handleSubscriptionPending now (payload w) db
      else if event w = ''subscription.halted'' then handleSubscriptionHalted now (payload w) db
      else if event w = ''subscription.cancelled'' then handleSubscriptionCancelled now (payload w) db
      else if event w = ''payment.captured'' then handlePaymentCaptured now (payload w) db
      else if event w = ''payment.failed'' then handlePaymentFailed now (payload w) db
      else Inr db)"

text \<open>
  The request is its raw body and the \<open>x-razorpay-signature\<close> header. \<open>parse\<close> is
  \<^verbatim>\<open>JSON.parse\<close> followed by the reading of event and payload; it is applied only
  after the signature check.
\<close>

definition razorpay_webhook_POST ::
  "env \<Rightarrow> (string \<Rightarrow> error + webhook_data) \<Rightarrow> int \<Rightarrow> string \<Rightarrow> string option \<Rightarrow> store
     \<Rightarrow> webhook_body response \<times> store" where
  "razorpay_webhook_POST e parse now raw signature_header db =
     (let signature = or_default signature_header [];
          expectedSignature = createHmac e (or_default (RAZORPAY_WEBHOOK_SECRET e) []) raw in
      if expectedSignature \<noteq> signature
      then (json (WebhookError ''Invalid signature'') 401, db)
      else
        (case parse raw of
           Inl err \<Rightarrow> (json (WebhookError (message err)) 500, db)
         | Inr webhookData \<Rightarrow>
             (case dispatch_event e now webhookData db of
                Inl err \<Rightarrow> (json (WebhookError (message err)) 500, db)
              | Inr db' \<Rightarrow> (json WebhookReceived 200, db'))))"

subsection \<open>The second copy of the receiver\<close>

text \<open>
  The same file holds a second receiver. Its signature check and four of its event
  handlers are those above; its handlers for \<open>subscription.activated\<close> and
  \<open>subscription.pending\<close> ask only for the user, and its error body falls back to
  a fixed message. The persistence client refuses an upsert whose create data lacks
  the plan type, before anything is written.
\<close>

definition handleSubscriptionActivated_2 :: "env \<Rightarrow> int \<Rightarrow> rzp_entity option \<Rightarrow> store \<Rightarrow> error + store" where
  "handleSubscriptionActivated_2 e now pl db =
     (case pl of
        None \<Rightarrow> Inl (TypeError ''entity'')
      | Some ent \<Rightarrow>
          let subscriptionId = entity_id ent; uid = entity_userId ent;
              plan = entity_planType ent in
          if \<not> truthy uid then Inr db
          else
            (case (case plan of
                     None \<Rightarrow> Inl ValidationError
                   | Some pt \<Rightarrow>
                       subscription_upsert now subscriptionId
                         (\<lambda>s. s\<lparr>status := ''active'', startDate := Some now,
                                 endDate := Some (calculateEndDate (LocalTZA e) now pt)\<rparr>)
                         \<lparr>d_userId = the uid, d_planId = entity_plan_id ent,
                          d_razorpaySubscriptionId = subscriptionId, d_razorpayPaymentId = None,
                          d_status = ''active'', d_planType = pt,
                          d_startDate = Some now,
                          d_endDate = Some (calculateEndDate (LocalTZA e) now pt),
                          d_isRecurring = False\<rparr> db) of
               Inl err \<Rightarrow> Inr db
             | Inr db1 \<Rightarrow>
                 (case profile_update now (the uid)
                         (\<lambda>p. p\<lparr>subscriptionActive := True, subscriptionTier := plan,
                                 stripeSubscriptionId := Some subscriptionId\<rparr>) db1 of
                    Inl err \<Rightarrow> Inr db1
                  | Inr db2 \<Rightarrow> Inr db2)))"

definition handleSubscriptionPending_2 :: "int \<Rightarrow> rzp_entity option \<Rightarrow> store \<Rightarrow> error + store" where
  "handleSubscriptionPending_2 now pl db =
     (case pl of
        None \<Rightarrow> Inl (TypeError ''entity'')
      | Some ent \<Rightarrow>
          let subscriptionId = entity_id ent; uid = entity_userId ent;
              plan = entity_planType ent in
          if \<not> truthy uid then Inr db
          else
            (case (case plan of
                     None \<Rightarrow> Inl ValidationError
                   | Some pt \<Rightarrow>
                       subscription_upsert now subscriptionId
                         (\<lambda>s. s\<lparr>status := ''pending''\<rparr>)
                         \<lparr>d_userId = the uid, d_planId = entity_plan_id ent,
                          d_razorpaySubscriptionId = subscriptionId, d_razorpayPaymentId = None,
                          d_status = ''pending'', d_planType = pt,
                          d_startDate = None, d_endDate = None, d_isRecurring = False\<rparr> db) of
               Inl err \<Rightarrow> Inr db
             | Inr db1 \<Rightarrow> Inr db1))"

definition dispatch_event_2 :: "env \<Rightarrow> int \<Rightarrow> webhook_data \<Rightarrow> store \<Rightarrow> error + store" where
  "dispatch_event_2 e now w db =
     (if event w = ''subscription.activated'' then handleSubscriptionActivated_2 e now (payload w) db
      else if event w = ''subscription.pending'' then handleSubscriptionPending_2 now (payload w) db
      else if event w = ''subscription.halted'' then handleSubscriptionHalted now (payload w) db
      else if event w = ''subscription.cancelled'' then handleSubscriptionCancelled now (payload w) db
      else if event w = ''payment.captured'' then handlePaymentCaptured now (payload w) db
      else if event w = ''payment.failed'' then handlePaymentFailed now (payload w) db
      else Inr db)"

definition razorpay_webhook_POST_2 ::
  "env \<Rightarrow> (string \<Rightarrow> error + webhook_data) \<Rightarrow> int \<Rightarrow> string \<Rightarrow> string option \<Rightarrow> store
     \<Rightarrow> webhook_body response \<times> store" where
  "razorpay_webhook_POST_2 e parse now raw signature_header db =
     (let signature = or_default signature_header [];
          expectedSignature = createHmac e (or_default (RAZORPAY_WEBHOOK_SECRET e) []) raw in
      if expectedSignature \<noteq> signature
      then (json (WebhookError ''Invalid signature'') 401, db)
      else
        (case parse raw of
           Inl err \<Rightarrow>
             (json (WebhookError (or_default (Some (message err)) ''Failed to process webhook'')) 500, db)
         | Inr webhookData \<Rightarrow>
             (case dispatch_event_2 e now webhookData db of
                Inl err \<Rightarrow>
                  (json (WebhookError (or_default (Some (message err)) ''Failed to process webhook'')) 500,
                   db)
              | Inr db' \<Rightarrow> (json WebhookReceived 200, db'))))"

section \<open>Vocabulary of the specification for the handlers\<close>

text \<open>The store after the status query has promoted row \<open>p\<close> for user \<open>uid\<close>.\<close>

definition promoted :: "env \<Rightarrow> int \<Rightarrow> string \<Rightarrow> subscription \<Rightarrow> profile \<Rightarrow> store \<Rightarrow> store" where
  "promoted e now uid p pr db =
     db\<lparr>subscriptions :=
          map (\<lambda>r. if sub_id r = sub_id p
                    then r\<lparr>status := ''active'', startDate := Some now,
                           endDate := Some (calculateEndDate (LocalTZA e) now (planType p)),
                           updatedAt := now\<rparr>
                    else r) (subscriptions db),
        profiles :=
          map (\<lambda>q. if profile_userId q = uid
                    then pr\<lparr>subscriptionActive := True, subscriptionTier := Some (planType p),
                            profile_updatedAt := now\<rparr>
                    else q) (profiles db)\<rparr>"



text \<open>
  The store with its time stamps forgotten: start date, end date and the time of
  the last write of every row.
\<close>

definition forget_times :: "store \<Rightarrow> store" where
  "forget_times db =
     db\<lparr>subscriptions :=
          map (\<lambda>s. s\<lparr>startDate := None, endDate := None, updatedAt := 0\<rparr>) (subscriptions db),
        profiles := map (\<lambda>p. p\<lparr>profile_updatedAt := 0\<rparr>) (profiles db)\<rparr>"

text \<open>
  The store with the time stamps of a verification at \<open>now\<close> for plan \<open>plan\<close> written
  over it: on the rows of provider subscription \<open>sid\<close> the start date, the end date
  computed from \<open>now\<close> and the time of the last write, and on the Profile of \<open>uid\<close> the
  time of the last write. Every other field and every other row is kept.
\<close>

definition restamped :: "env \<Rightarrow> int \<Rightarrow> string \<Rightarrow> string \<Rightarrow> string \<Rightarrow> store \<Rightarrow> store" where
  "restamped e now sid plan uid db =
     db\<lparr>subscriptions :=
          map (\<lambda>s. if razorpaySubscriptionId s = Some sid
                    then s\<lparr>startDate := Some now,
                           endDate := Some (calculateEndDate_verify (LocalTZA e) now (Some plan)),
                           updatedAt := now\<rparr>
                    else s) (subscriptions db),
        profiles :=
          map (\<lambda>p. if profile_userId p = uid then p\<lparr>profile_updatedAt := now\<rparr> else p)
              (profiles db)\<rparr>"

section \<open>The writes of redirect verification, named\<close>

text \<open>The writes of a successful redirect verification, as one step on the store.\<close>

definition activate_row :: "env \<Rightarrow> int \<Rightarrow> string \<Rightarrow> subscription \<Rightarrow> subscription" where
  "activate_row e now plan =
     (\<lambda>s. s\<lparr>status := ''active'', startDate := Some now,
             endDate := Some (calculateEndDate_verify (LocalTZA e) now (Some plan))\<rparr>)"

definition activate_data :: "env \<Rightarrow> int \<Rightarrow> string \<Rightarrow> rzp_subscription \<Rightarrow> subscription_data" where
  "activate_data e now plan sub =
     \<lparr>d_userId = the (notes_userId sub), d_planId = plan_id sub,
      d_razorpaySubscriptionId = rzp_id sub, d_razorpayPaymentId = None,
      d_status = ''active'', d_planType = plan,
      d_startDate = Some now,
      d_endDate = Some (calculateEndDate_verify (LocalTZA e) now (Some plan)),
      d_isRecurring = False\<rparr>"

definition activate_profile :: "string \<Rightarrow> rzp_subscription \<Rightarrow> profile \<Rightarrow> profile" where
  "activate_profile plan sub =
     (\<lambda>p. p\<lparr>subscriptionActive := True,
             subscriptionTier := Some (or_default (Some plan) ''month''),
             stripeSubscriptionId := Some (rzp_id sub)\<rparr>)"

definition try_profile_update :: "int \<Rightarrow> string \<Rightarrow> (profile \<Rightarrow> profile) \<Rightarrow> store \<Rightarrow> store" where
  "try_profile_update now uid f db =
     (case profile_update now uid f db of Inl err \<Rightarrow> db | Inr db' \<Rightarrow> db')"

definition verify_writes :: "env \<Rightarrow> int \<Rightarrow> string \<Rightarrow> rzp_subscription \<Rightarrow> store \<Rightarrow> store" where
  "verify_writes e now sid sub db =
     (let plan = or_default (notes_planType sub) ''month'' in
      if map_option status (subscription_findUnique sid db) = Some ''cancelled'' then db
      else case subscription_upsert now sid (activate_row e now plan)
                  (activate_data e now plan sub) db of
             Inl err \<Rightarrow> db
           | Inr db1 \<Rightarrow> try_profile_update now (the (notes_userId sub)) (activate_profile plan sub) db1)"

definition verify_acts :: "rzp_subscription \<Rightarrow> bool" where
  "verify_acts sub \<longleftrightarrow>
     truthy (notes_userId sub) \<and> (rzp_status sub = ''active'' \<or> rzp_status sub = ''completed'')"

text \<open>The Profile table after an attempted update, as a function of the table alone.\<close>

definition pu_list :: "int \<Rightarrow> string \<Rightarrow> (profile \<Rightarrow> profile) \<Rightarrow> profile list \<Rightarrow> profile list" where
  "pu_list now uid f ps =
     (case find (\<lambda>p. profile_userId p = uid) ps of
        None \<Rightarrow> ps
      | Some p \<Rightarrow>
          let p' = (f p)\<lparr>profile_updatedAt := now\<rparr> in
          if stripeSubscriptionId p' \<noteq> None \<and>
             stripeSubscriptionId p' \<noteq> stripeSubscriptionId p \<and>
             list_ex (\<lambda>q. profile_userId q \<noteq> uid \<and>
                           stripeSubscriptionId q = stripeSubscriptionId p') ps
          then ps
          else map (\<lambda>q. if profile_userId q = uid then p' else q) ps)"

text \<open>Whether an update of the Profile of \<open>uid\<close> with \<open>f\<close> goes through.\<close>

definition pu_ok :: "string \<Rightarrow> (profile \<Rightarrow> profile) \<Rightarrow> profile list \<Rightarrow> bool" where
  "pu_ok uid f ps \<longleftrightarrow>
     (case find (\<lambda>p. profile_userId p = uid) ps of
        None \<Rightarrow> False
      | Some p \<Rightarrow>
          \<not> (stripeSubscriptionId (f p) \<noteq> None \<and>
             stripeSubscriptionId (f p) \<noteq> stripeSubscriptionId p \<and>
             list_ex (\<lambda>q. profile_userId q \<noteq> uid \<and>
                           stripeSubscriptionId q = stripeSubscriptionId (f p)) ps))"

text \<open>Whether both writes of a redirect verification go through.\<close>

definition verify_succeeds :: "env \<Rightarrow> int \<Rightarrow> string \<Rightarrow> rzp_subscription \<Rightarrow> store \<Rightarrow> bool" where
  "verify_succeeds e now sid sub db \<longleftrightarrow>
     (let plan = or_default (notes_planType sub) ''month'' in
      map_option status (subscription_findUnique sid db) \<noteq> Some ''cancelled'' \<and>
      (case subscription_upsert now sid (activate_row e now plan)
              (activate_data e now plan sub) db of
         Inl err \<Rightarrow> False
       | Inr db1 \<Rightarrow>
           (case profile_update now (the (notes_userId sub)) (activate_profile plan sub) db1 of
              Inl err \<Rightarrow> False
            | Inr db2 \<Rightarrow> True)))"

section \<open>Example data\<close>

definition empty_store :: store where
  "empty_store = \<lparr>profiles = [], subscriptions = [], next_id = 0\<rparr>"

definition user_alice :: clerk_user where
  "user_alice = \<lparr>clerk_id = ''user_1'', emailAddresses = [''alice@example.com'']\<rparr>"

text \<open>
  Two hosts: one keeping UTC, and one keeping the civil time of New York as in
  force from November 2024 to March 2026 (five hours behind UTC, four while
  daylight saving lasts, from 2025-03-09T07:00Z to 2025-11-02T06:00Z). A local time
  that the wall clock skips or shows twice is read with the offset in force before
  the change.
\<close>

definition zone_UTC :: zone where
  "zone_UTC t isUTC = 0"

definition zone_New_York :: zone where
  "zone_New_York t isUTC =
     (if isUTC
      then (if 1741503600000 \<le> t \<and> t < 1762063200000 then - 14400000 else - 18000000)
      else (if 1741503600000 - 14400000 \<le> t \<and> t < 1762063200000 - 14400000
            then - 14400000 else - 18000000))"

definition env0 :: env where
  "env0 = \<lparr>LocalTZA = zone_UTC, RAZORPAY_WEBHOOK_SECRET = Some ''whsec'', RAZORPAY_KEY_SECRET = Some ''keysec'',
           NEXT_PUBLIC_APP_URL = Some ''https://meals.example'',
           RAZORPAY_PRICE_WEEKLY = Some ''plan_w'', RAZORPAY_PRICE_MONTHLY = Some ''plan_m'',
           RAZORPAY_PRICE_YEARLY = Some ''plan_y'',
           createHmac = (\<lambda>key msg. key @ '':'' @ msg)\<rparr>"

definition profile_alice :: profile where
  "profile_alice = \<lparr>profile_id = 0, profile_userId = ''user_1'', email = ''alice@example.com'',
                     subscriptionTier = None, subscriptionActive = False,
                     stripeSubscriptionId = None,
                     profile_createdAt = 1000, profile_updatedAt = 1000\<rparr>"

text \<open>A subscription row of Alice for provider subscription \<open>sub_1\<close>, monthly plan.\<close>

definition row_alice :: "string \<Rightarrow> int option \<Rightarrow> subscription" where
  "row_alice st e = \<lparr>sub_id = 1, userId = ''user_1'', planId = ''plan_m'',
                     razorpaySubscriptionId = Some ''sub_1'', razorpayPaymentId = None,
                     status = st, planType = ''month'', startDate = None, endDate = e,
                     isRecurring = False, createdAt = 2000, updatedAt = 2000\<rparr>"

definition store_alice :: "string \<Rightarrow> int option \<Rightarrow> store" where
  "store_alice st e = \<lparr>profiles = [profile_alice], subscriptions = [row_alice st e], next_id = 2\<rparr>"



definition notes_alice :: rzp_notes where
  "notes_alice = \<lparr>n_userId = Some ''user_1'', n_planType = Some ''month'',
                   n_email = Some ''alice@example.com''\<rparr>"

text \<open>The provider's view of a subscription of Alice.\<close>

definition rzp_sub :: "string \<Rightarrow> string \<Rightarrow> rzp_subscription" where
  "rzp_sub i st = \<lparr>rzp_id = i, plan_id = ''plan_m'', rzp_status = st,
                   short_url = Some ''https://rzp.io/i/abc'', total_count = 1,
                   sub_notes = Some notes_alice\<rparr>"

text \<open>
  A provider that reports status \<open>st\<close> for every subscription, issues \<open>sub_2\<close> in
  state created on creation, and cancels on request; and a provider that is down.
\<close>

definition rzp_reports :: "string \<Rightarrow> razorpay" where
  "rzp_reports st = \<lparr>subscriptions_fetch = (\<lambda>i. Inr (Some (rzp_sub i st))),
                     subscriptions_create = (\<lambda>ps. Inr (rzp_sub ''sub_2'' ''created'')),
                     subscriptions_cancel = (\<lambda>i. Inr (rzp_sub i ''cancelled''))\<rparr>"

definition rzp_down :: razorpay where
  "rzp_down = \<lparr>subscriptions_fetch = (\<lambda>i. Inl (Error ''ECONNRESET'')),
               subscriptions_create = (\<lambda>ps. Inl (Error ''ECONNRESET'')),
               subscriptions_cancel = (\<lambda>i. Inl (Error ''ECONNRESET''))\<rparr>"


text \<open>Alice with a paid month: the Profile is active and the row ends at \<open>9000000\<close>.\<close>

definition profile_alice_active :: profile where
  "profile_alice_active =
     profile_alice\<lparr>subscriptionActive := True, subscriptionTier := Some ''month'',
                   stripeSubscriptionId := Some ''sub_1''\<rparr>"

definition store_subscribed :: store where
  "store_subscribed = \<lparr>profiles = [profile_alice_active],
                        subscriptions = [row_alice ''active'' (Some 9000000)], next_id = 2\<rparr>"

text \<open>
  A provider that still reports the subscription as active but refuses to cancel
  it because it has been completed.
\<close>

definition rzp_finalized :: razorpay where
  "rzp_finalized = \<lparr>subscriptions_fetch = (\<lambda>i. Inr (Some (rzp_sub i ''active''))),
                    subscriptions_create = (\<lambda>ps. Inl (Error ''not used'')),
                    subscriptions_cancel =
                      (\<lambda>i. Inl (Error ''Subscription cannot be cancelled: it is completed''))\<rparr>"

definition cancel_alice :: cancel_request where
  "cancel_alice = \<lparr>cr_subscriptionId = Some ''sub_1'', cr_userId = Some ''user_1''\<rparr>"

text \<open>A verification request of the signature flow whose signature is forged.\<close>

definition forged_verify :: verify_request where
  "forged_verify = \<lparr>vr_sessionId = None, vr_subscriptionId = None,
                     razorpay_payment_id = Some ''pay_1'',
                     razorpay_subscription_id = Some ''sub_1'',
                     razorpay_signature = Some ''forged'', vr_userId = Some ''user_1''\<rparr>"

definition checkout_alice :: checkout_request where
  "checkout_alice = \<lparr>co_planType = Some ''month'', co_userId = Some ''user_1'',
                      co_email = Some ''alice@example.com'', co_origin = None\<rparr>"

definition store_profile_only :: store where
  "store_profile_only = \<lparr>profiles = [profile_alice], subscriptions = [], next_id = 1\<rparr>"


text \<open>A redirect verification request for Alice's subscription.\<close>

definition verify_alice :: verify_request where
  "verify_alice = \<lparr>vr_sessionId = Some ''sub_1'', vr_subscriptionId = Some ''sub_1'',
                    razorpay_payment_id = None, razorpay_subscription_id = None,
                    razorpay_signature = None, vr_userId = None\<rparr>"

text \<open>Alice's store after a verification at time \<open>t\<close> that ends the period at \<open>u\<close>.\<close>

definition store_verified :: "int \<Rightarrow> int \<Rightarrow> store" where
  "store_verified t u =
     \<lparr>profiles = [profile_alice_active\<lparr>profile_updatedAt := t\<rparr>],
      subscriptions = [(row_alice ''active'' (Some u))\<lparr>startDate := Some t, updatedAt := t\<rparr>],
      next_id = 2\<rparr>"

section \<open>Facts about time values\<close>

lemma year_from_bounds:
  "DayFromYear (year_from d y) \<le> d \<and> d < DayFromYear (year_from d y + 1)"
proof (induction d y rule: year_from.induct)
  case (1 d y)
  show ?case
  proof (cases "d < DayFromYear y")
    case True
    then show ?thesis using 1(1) by (subst (1 2) year_from.simps) simp
  next
    case False
    show ?thesis
    proof (cases "DayFromYear (y + 1) \<le> d")
      case True
      then show ?thesis using False 1(2) by (subst (1 2) year_from.simps) simp
    next
      case F2: False
      then show ?thesis using False by (subst (1 2) year_from.simps) simp
    qed
  qed
qed

lemma DayFromYear_mono_step: "DayFromYear y < DayFromYear (y + 1)"
  using DayFromYear_Suc[of y] DaysInYear_cases[of y] by auto

lemma DayFromYear_mono: "y \<le> z \<Longrightarrow> DayFromYear y \<le> DayFromYear z"
proof (induction z rule: int_ge_induct)
  case base
  then show ?case by simp
next
  case (step i)
  then show ?case using DayFromYear_mono_step[of i] by simp
qed

lemma year_unique:
  assumes "DayFromYear y \<le> d" "d < DayFromYear (y + 1)"
    and "DayFromYear z \<le> d" "d < DayFromYear (z + 1)"
  shows "y = z"
proof (rule ccontr)
  assume "y \<noteq> z"
  then consider "y + 1 \<le> z" | "z + 1 \<le> y" by linarith
  then show False
  proof cases
    case 1
    then show ?thesis using DayFromYear_mono[of "y + 1" z] assms by simp
  next
    case 2
    then show ?thesis using DayFromYear_mono[of "z + 1" y] assms by simp
  qed
qed

text \<open>The search meets the standard's definition of YearFromTime.\<close>

lemma YearFromTime_eq:
  assumes "DayFromYear y \<le> Day t" "Day t < DayFromYear (y + 1)"
  shows "YearFromTime t = y"
  unfolding YearFromTime_def
  using year_unique[OF _ _ assms] year_from_bounds by blast

lemma DayWithinYear_bounds:
  "0 \<le> DayWithinYear t \<and> DayWithinYear t < DaysInYear (YearFromTime t)"
  unfolding DayWithinYear_def YearFromTime_def
  using year_from_bounds[of "Day t" "1970 + Day t div 366"]
    DayFromYear_Suc[of "year_from (Day t) (1970 + Day t div 366)"] by simp

lemma InLeapYear_cases: "InLeapYear t = 0 \<or> InLeapYear t = 1"
  by (simp add: InLeapYear_def)

lemma MonthFromTime_range: "0 \<le> MonthFromTime t \<and> MonthFromTime t \<le> 11"
  by (simp add: MonthFromTime_def Let_def)

lemma MakeDay_current:
  "MakeDay (YearFromTime t) (MonthFromTime t) (DateFromTime t + k) = Day t + k"
proof -
  have m: "MonthFromTime t div 12 = 0" "MonthFromTime t mod 12 = MonthFromTime t"
    using MonthFromTime_range[of t] by simp_all
  show ?thesis
    by (simp add: MakeDay_def Let_def m DateFromTime_def DayWithinYear_def InLeapYear_def)
qed

lemma MakeDate_add_days: "MakeDate (Day t + k) (TimeWithinDay t) = t + k * msPerDay"
  by (simp add: MakeDate_def Day_def TimeWithinDay_def algebra_simps)

lemma setDate_plus:
  "setDate z t (getDate z t + k) = UTC z (LocalTime z t + k * msPerDay)"
  by (simp add: setDate_def getDate_def Let_def MakeDay_current MakeDate_add_days)

lemma month_enum:
  "0 \<le> m \<Longrightarrow> m \<le> 11 \<Longrightarrow>
   m = 0 \<or> m = 1 \<or> m = 2 \<or> m = 3 \<or> m = 4 \<or> m = 5 \<or> m = 6 \<or> m = 7 \<or> m = 8 \<or> m = 9
     \<or> m = 10 \<or> m = (11::int)"
  by arith

lemma MakeDay_next_month:
  "MakeDay (YearFromTime t) (MonthFromTime t + 1) (DateFromTime t)
     = Day t + DaysInMonth (InLeapYear t) (MonthFromTime t)"
proof (cases "MonthFromTime t = 11")
  case True
  then show ?thesis
    using DayFromYear_Suc[of "YearFromTime t"] DaysInYear_cases[of "YearFromTime t"]
    by (auto simp add: MakeDay_def Let_def DateFromTime_def DayWithinYear_def InLeapYear_def
        DaysInMonth_def MonthStart_def)
next
  case False
  then have r: "0 \<le> MonthFromTime t + 1" "MonthFromTime t + 1 < 12"
    using MonthFromTime_range[of t] by linarith+
  have m: "(MonthFromTime t + 1) div 12 = 0" "(MonthFromTime t + 1) mod 12 = MonthFromTime t + 1"
    using r by simp_all
  show ?thesis
    by (simp add: MakeDay_def Let_def m DateFromTime_def DayWithinYear_def InLeapYear_def
        DaysInMonth_def)
qed

lemma setMonth_plus:
  "setMonth z t (getMonth z t + 1)
     = UTC z (LocalTime z t
              + DaysInMonth (InLeapYear (LocalTime z t)) (MonthFromTime (LocalTime z t)) * msPerDay)"
  by (simp add: setMonth_def getMonth_def Let_def MakeDay_next_month MakeDate_add_days)

lemma MakeDay_next_year:
  "MakeDay (YearFromTime t + 1) (MonthFromTime t) (DateFromTime t)
     = Day t + (if MonthFromTime t < 2 then DaysInYear (YearFromTime t)
                else DaysInYear (YearFromTime t + 1))"
proof -
  have m: "MonthFromTime t div 12 = 0" "MonthFromTime t mod 12 = MonthFromTime t"
    using MonthFromTime_range[of t] by simp_all
  have e: "MonthFromTime t = 0 \<or> MonthFromTime t = 1 \<or> 2 \<le> MonthFromTime t"
    using MonthFromTime_range[of t] by linarith
  show ?thesis
    using e DayFromYear_Suc[of "YearFromTime t"] DaysInYear_cases[of "YearFromTime t"]
      DaysInYear_cases[of "YearFromTime t + 1"] MonthFromTime_range[of t]
    by (auto simp add: MakeDay_def Let_def m DateFromTime_def DayWithinYear_def InLeapYear_def
        MonthStart_def)
qed

lemma setFullYear_plus:
  "setFullYear z t (getFullYear z t + 1)
     = UTC z (LocalTime z t
              + (if MonthFromTime (LocalTime z t) < 2 then DaysInYear (YearFromTime (LocalTime z t))
                 else DaysInYear (YearFromTime (LocalTime z t) + 1)) * msPerDay)"
  by (simp add: setFullYear_def getFullYear_def Let_def MakeDay_next_year MakeDate_add_days)

text \<open>
  The conversion back from the wall clock lands a whole number of days after the
  start exactly when the offset read for the new local time is the one in force at
  the start.
\<close>

lemma UTC_LocalTime_plus:
  "UTC z (LocalTime z t + d) = t + d \<longleftrightarrow> z (LocalTime z t + d) False = z t True"
  by (auto simp: UTC_def LocalTime_def)

lemma Day_MakeDate: "0 \<le> tod \<Longrightarrow> tod < msPerDay \<Longrightarrow> Day (MakeDate n tod) = n"
  unfolding Day_def MakeDate_def
  using int_div_pos_eq[of "n * msPerDay + tod" msPerDay n tod] by (simp add: algebra_simps)

lemma TimeWithinDay_MakeDate:
  "0 \<le> tod \<Longrightarrow> tod < msPerDay \<Longrightarrow> TimeWithinDay (MakeDate n tod) = tod"
  unfolding TimeWithinDay_def MakeDate_def
  using int_mod_pos_eq[of "n * msPerDay + tod" msPerDay n tod] by (simp add: algebra_simps)

lemma TimeWithinDay_range: "0 \<le> TimeWithinDay t \<and> TimeWithinDay t < msPerDay"
  by (simp add: TimeWithinDay_def msPerDay_def)

lemma fields_of_day:
  assumes k: "0 \<le> k" "k < DaysInYear y" and d: "Day t = DayFromYear y + k"
  shows "YearFromTime t = y" "DayWithinYear t = k" "InLeapYear t = leap_flag y"
proof -
  show y: "YearFromTime t = y"
    using k d DayFromYear_Suc[of y] by (intro YearFromTime_eq) simp_all
  show "DayWithinYear t = k" by (simp add: DayWithinYear_def y d)
  show "InLeapYear t = leap_flag y" by (simp add: InLeapYear_def leap_flag_def y)
qed

lemma leap_flag_cases:
  "leap_flag y = 0 \<and> DaysInYear y = 365 \<or> leap_flag y = 1 \<and> DaysInYear y = 366"
  using DaysInYear_cases[of y] by (auto simp: leap_flag_def)

lemma MonthStart_simps:
  "MonthStart 0 l = 0" "MonthStart 1 l = 31" "MonthStart 2 l = 59 + l" "MonthStart 3 l = 90 + l"
  "MonthStart 4 l = 120 + l" "MonthStart 5 l = 151 + l" "MonthStart 6 l = 181 + l"
  "MonthStart 7 l = 212 + l" "MonthStart 8 l = 243 + l" "MonthStart 9 l = 273 + l"
  "MonthStart 10 l = 304 + l" "MonthStart 11 l = 334 + l" "MonthStart 12 l = 365 + l"
  by (simp_all add: MonthStart_def)

lemma fields_of_month_day:
  assumes m: "0 \<le> m" "m \<le> 11"
    and dt: "1 \<le> dt" "dt \<le> DaysInMonth (leap_flag y) m"
    and d: "Day t = DayFromYear y + MonthStart m (leap_flag y) + dt - 1"
  shows "YearFromTime t = y \<and> MonthFromTime t = m \<and> DateFromTime t = dt"
proof -
  define k where "k = MonthStart m (leap_flag y) + dt - 1"
  have kr: "0 \<le> k \<and> k < DaysInYear y"
    using month_enum[OF m] dt leap_flag_cases[of y] unfolding k_def DaysInMonth_def
    by (elim disjE conjE; simp add: MonthStart_simps)
  have d': "Day t = DayFromYear y + k" using d by (simp add: k_def)
  note f = fields_of_day[OF _ _ d']
  have y: "YearFromTime t = y" and w: "DayWithinYear t = k" and l: "InLeapYear t = leap_flag y"
    using f kr by simp_all
  have mm: "MonthFromTime t = m"
    using month_enum[OF m] dt leap_flag_cases[of y]
    unfolding MonthFromTime_def Let_def w l k_def DaysInMonth_def
    by (elim disjE conjE; simp add: MonthStart_simps)
  show ?thesis by (simp add: y mm DateFromTime_def w l k_def)
qed

lemma DateFromTime_range:
  "1 \<le> DateFromTime t \<and> DateFromTime t \<le> DaysInMonth (InLeapYear t) (MonthFromTime t)"
proof -
  have b: "0 \<le> DayWithinYear t" "DayWithinYear t < 365 + InLeapYear t"
    using DayWithinYear_bounds[of t] DaysInYear_cases[of "YearFromTime t"]
    by (auto simp: InLeapYear_def)
  show ?thesis
    using b InLeapYear_cases[of t]
    unfolding DateFromTime_def MonthFromTime_def Let_def DaysInMonth_def
    by (elim disjE; simp add: MonthStart_simps)
qed

lemma DaysInMonth_bounds:
  assumes "0 \<le> m" "m \<le> 11" "l = 0 \<or> l = 1"
  shows "28 \<le> DaysInMonth l m \<and> DaysInMonth l m \<le> 31"
  using month_enum[OF assms(1,2)] assms(3) unfolding DaysInMonth_def
  apply -
  by (elim disjE; simp add: MonthStart_simps)

lemma fields_of_MakeDay:
  assumes m: "0 \<le> m" "m \<le> 11"
    and dt: "1 \<le> dt" "dt \<le> DaysInMonth (leap_flag y) m"
    and tod: "0 \<le> tod" "tod < msPerDay"
  shows "YearFromTime (MakeDate (MakeDay y m dt) tod) = y \<and>
         MonthFromTime (MakeDate (MakeDay y m dt) tod) = m \<and>
         DateFromTime (MakeDate (MakeDay y m dt) tod) = dt \<and>
         TimeWithinDay (MakeDate (MakeDay y m dt) tod) = tod"
proof -
  have mm: "m div 12 = 0" "m mod 12 = m" using m by simp_all
  have "Day (MakeDate (MakeDay y m dt) tod) = DayFromYear y + MonthStart m (leap_flag y) + dt - 1"
    by (simp add: Day_MakeDate tod MakeDay_def Let_def mm leap_flag_def)
  from fields_of_month_day[OF m dt this] show ?thesis
    by (simp add: TimeWithinDay_MakeDate tod)
qed

lemma MakeDay_overflow:
  assumes m: "0 \<le> m" "m \<le> 10"
  shows "MakeDay y m dt = MakeDay y (m + 1) (dt - DaysInMonth (leap_flag y) m)"
proof -
  have "m div 12 = 0" "m mod 12 = m" "(m + 1) div 12 = 0" "(m + 1) mod 12 = m + 1"
    using m by simp_all
  then show ?thesis
    by (simp add: MakeDay_def Let_def DaysInMonth_def leap_flag_def)
qed

lemma MakeDay_normal: "MakeDay y m dt = MakeDay (y + m div 12) (m mod 12) dt"
  by (simp add: MakeDay_def Let_def)

lemma DaysInMonth_Dec: "DaysInMonth l 11 = 31"
  by (simp add: DaysInMonth_def MonthStart_simps)

lemma leap_flag_01: "leap_flag y = 0 \<or> leap_flag y = 1"
  by (simp add: leap_flag_def)

text \<open>Where MakeDay lands: in the month asked for, or past its end in the one after it.\<close>

lemma MakeDay_fields:
  fixes y m dt tod :: int
  assumes m: "0 \<le> m" "m \<le> 11" and dt: "1 \<le> dt" "dt \<le> 31"
    and tod: "0 \<le> tod" "tod < msPerDay"
  defines "e \<equiv> MakeDate (MakeDay y m dt) tod"
  shows "(YearFromTime e * 12 + MonthFromTime e = y * 12 + m \<and> DateFromTime e = dt)
           \<longleftrightarrow> dt \<le> DaysInMonth (leap_flag y) m"
proof (cases "dt \<le> DaysInMonth (leap_flag y) m")
  case True
  then show ?thesis
    using fields_of_MakeDay[OF m dt(1) True tod] by (simp add: e_def)
next
  case False
  have b: "28 \<le> DaysInMonth (leap_flag y) m"
    using DaysInMonth_bounds[OF m leap_flag_01] by simp
  have m10: "m \<le> 10"
    using False dt m DaysInMonth_Dec[of "leap_flag y"] by (cases "m = 11") auto
  define dt' where "dt' = dt - DaysInMonth (leap_flag y) m"
  have r: "1 \<le> dt'" "dt' \<le> DaysInMonth (leap_flag y) (m + 1)"
    using False b dt DaysInMonth_bounds[of "m + 1" "leap_flag y"] m m10 leap_flag_01[of y]
    by (auto simp: dt'_def)
  have m1: "0 \<le> m + 1" "m + 1 \<le> 11" using m m10 by simp_all
  have "e = MakeDate (MakeDay y (m + 1) dt') tod"
    by (simp add: e_def dt'_def MakeDay_overflow[OF m(1) m10])
  then have "YearFromTime e = y \<and> MonthFromTime e = m + 1"
    using fields_of_MakeDay[OF m1 r tod] by simp
  then show ?thesis using False by simp
qed

lemma DateFromTime_le_31: "1 \<le> DateFromTime t \<and> DateFromTime t \<le> 31"
  using DateFromTime_range[of t] DaysInMonth_bounds[of "MonthFromTime t" "InLeapYear t"]
    MonthFromTime_range[of t] InLeapYear_cases[of t] by auto

lemma next_month_calendar:
  fixes s :: int
  defines "e \<equiv> s + DaysInMonth (InLeapYear s) (MonthFromTime s) * msPerDay"
  shows "calendar_months_later 1 s e \<longleftrightarrow>
           DateFromTime s \<le> DaysInMonthOf (YearFromTime s) (MonthFromTime s + 1)"
proof -
  define ym mn where "ym = YearFromTime s + (MonthFromTime s + 1) div 12"
    and "mn = (MonthFromTime s + 1) mod 12"
  have "e = MakeDate (MakeDay (YearFromTime s) (MonthFromTime s + 1) (DateFromTime s))
              (TimeWithinDay s)"
    unfolding e_def by (simp add: MakeDay_next_month MakeDate_add_days)
  then have e: "e = MakeDate (MakeDay ym mn (DateFromTime s)) (TimeWithinDay s)"
    unfolding ym_def mn_def by (simp add: MakeDay_normal[symmetric])
  have mn: "0 \<le> mn" "mn \<le> 11" by (simp_all add: mn_def)
  have sum: "ym * 12 + mn = YearFromTime s * 12 + MonthFromTime s + 1"
    unfolding ym_def mn_def by (simp add: algebra_simps)
  have tw: "TimeWithinDay e = TimeWithinDay s"
    unfolding e using TimeWithinDay_range[of s] by (simp add: TimeWithinDay_MakeDate)
  have F: "(YearFromTime e * 12 + MonthFromTime e = ym * 12 + mn \<and> DateFromTime e = DateFromTime s)
             \<longleftrightarrow> DateFromTime s \<le> DaysInMonth (leap_flag ym) mn"
    unfolding e using DateFromTime_le_31[of s] TimeWithinDay_range[of s]
    by (intro MakeDay_fields[OF mn]) simp_all
  have D: "DaysInMonthOf (YearFromTime s) (MonthFromTime s + 1) = DaysInMonth (leap_flag ym) mn"
    by (simp add: DaysInMonthOf_def ym_def mn_def)
  show ?thesis
    unfolding calendar_months_later_def D F[symmetric] sum[symmetric] using tw by simp
qed

lemma next_year_calendar:
  fixes s :: int
  defines "e \<equiv> s + (if MonthFromTime s < 2 then DaysInYear (YearFromTime s)
                      else DaysInYear (YearFromTime s + 1)) * msPerDay"
  shows "calendar_months_later 12 s e \<longleftrightarrow>
           DateFromTime s \<le> DaysInMonthOf (YearFromTime s + 1) (MonthFromTime s)"
proof -
  have e: "e = MakeDate (MakeDay (YearFromTime s + 1) (MonthFromTime s) (DateFromTime s))
                 (TimeWithinDay s)"
    unfolding e_def by (simp only: MakeDay_next_year MakeDate_add_days)
  have mn: "0 \<le> MonthFromTime s" "MonthFromTime s \<le> 11"
    using MonthFromTime_range[of s] by simp_all
  have dm: "MonthFromTime s div 12 = 0" "MonthFromTime s mod 12 = MonthFromTime s"
    using mn by simp_all
  have tw: "TimeWithinDay e = TimeWithinDay s"
    unfolding e using TimeWithinDay_range[of s] by (simp add: TimeWithinDay_MakeDate)
  have F: "(YearFromTime e * 12 + MonthFromTime e = (YearFromTime s + 1) * 12 + MonthFromTime s
              \<and> DateFromTime e = DateFromTime s)
             \<longleftrightarrow> DateFromTime s \<le> DaysInMonth (leap_flag (YearFromTime s + 1)) (MonthFromTime s)"
    unfolding e using DateFromTime_le_31[of s] TimeWithinDay_range[of s]
    by (intro MakeDay_fields[OF mn]) simp_all
  have D: "DaysInMonthOf (YearFromTime s + 1) (MonthFromTime s)
             = DaysInMonth (leap_flag (YearFromTime s + 1)) (MonthFromTime s)"
    by (simp add: DaysInMonthOf_def dm)
  have S: "YearFromTime s * 12 + MonthFromTime s + 12 = (YearFromTime s + 1) * 12 + MonthFromTime s"
    by simp
  show ?thesis
    unfolding calendar_months_later_def D F[symmetric] S using tw by simp
qed

lemma DaysInMonthOf_ge_28: "28 \<le> DaysInMonthOf y m"
proof -
  have "0 \<le> m mod 12" "m mod 12 \<le> 11" by simp_all
  from DaysInMonth_bounds[OF this leap_flag_01] show ?thesis
    by (simp add: DaysInMonthOf_def)
qed

lemma calculateEndDate_default:
  "pt \<noteq> ''week'' \<Longrightarrow> pt \<noteq> ''year'' \<Longrightarrow>
   calculateEndDate z now pt = setMonth z now (getMonth z now + 1)"
  by (simp add: calculateEndDate_def)

lemma calc_month_example: "calculateEndDate zone_UTC 1736942400000 ''month'' = 1739620800000"
  by code_simp

section \<open>Facts about the store\<close>

lemma profile_findUnique_None_iff:
  "profile_findUnique db uid = None \<longleftrightarrow> \<not> list_ex (\<lambda>p. profile_userId p = uid) (profiles db)"
  by (auto simp add: profile_findUnique_def find_None_iff list_ex_iff)

lemma find_append_cases:
  "find P (xs @ ys) = (case find P xs of None \<Rightarrow> find P ys | Some x \<Rightarrow> Some x)"
  by (induction xs) auto

lemma filter_unique_key:
  "distinct (map f xs) \<Longrightarrow> find (\<lambda>q. f q = k) xs = Some p \<Longrightarrow> filter (\<lambda>q. f q = k) xs = [p]"
proof (induction xs)
  case Nil
  then show ?case by simp
next
  case (Cons a xs)
  show ?case
  proof (cases "f a = k")
    case True
    then have "p = a" using Cons.prems(2) by simp
    moreover have "f a \<notin> f ` set xs" using Cons.prems(1) by simp
    then have "\<forall>x\<in>set xs. f x \<noteq> k" using True by blast
    then have "filter (\<lambda>q. f q = k) xs = []"
      by (simp add: filter_empty_conv)
    ultimately show ?thesis using True by simp
  next
    case False
    then show ?thesis using Cons by simp
  qed
qed

lemma profile_create_absent:
  "profile_findUnique db uid = None \<Longrightarrow>
   profile_create now uid mail db =
     Inr (db\<lparr>profiles := profiles db @
                  [\<lparr>profile_id = next_id db, profile_userId = uid, email = mail,
                    subscriptionTier = None, subscriptionActive = False,
                    stripeSubscriptionId = None,
                    profile_createdAt = now, profile_updatedAt = now\<rparr>],
                next_id := Suc (next_id db)\<rparr>)"
  by (simp add: profile_create_def profile_findUnique_None_iff)

lemma count_user_absent:
  "profile_findUnique db uid = None \<Longrightarrow> filter (\<lambda>p. profile_userId p = uid) (profiles db) = []"
  by (simp add: profile_findUnique_def find_None_iff filter_empty_conv)

lemma count_user_present:
  assumes "distinct (map profile_userId (profiles db))" "profile_findUnique db uid = Some p"
  shows "length (filter (\<lambda>q. profile_userId q = uid) (profiles db)) = 1"
  using filter_unique_key[OF assms(1), of uid p] assms(2)
  by (simp add: profile_findUnique_def)

lemma latest_None_iff: "latest xs = None \<longleftrightarrow> xs = []"
  by (induction xs) (auto split: option.splits)

lemma latest_in: "latest xs = Some x \<Longrightarrow> x \<in> set xs"
  by (induction xs arbitrary: x) (auto split: option.splits if_splits)

lemma latest_newest: "latest xs = Some x \<Longrightarrow> y \<in> set xs \<Longrightarrow> createdAt y \<le> createdAt x"
proof (induction xs arbitrary: x)
  case Nil
  then show ?case by simp
next
  case (Cons a xs)
  show ?case
  proof (cases "latest xs")
    case None
    then show ?thesis using Cons.prems by (auto simp: latest_None_iff)
  next
    case (Some z)
    then show ?thesis using Cons.prems Cons.IH[OF Some]
      by (fastforce split: if_splits)
  qed
qed

lemma findFirst_desc_Some:
  "subscription_findFirst_desc P db = Some s \<Longrightarrow>
     s \<in> set (subscriptions db) \<and> P s \<and>
     (\<forall>r\<in>set (subscriptions db). P r \<longrightarrow> createdAt r \<le> createdAt s)"
  unfolding subscription_findFirst_desc_def
  using latest_in[of "filter P (subscriptions db)" s]
    latest_newest[of "filter P (subscriptions db)" s] by auto

lemma findFirst_desc_None:
  "subscription_findFirst_desc P db = None \<longleftrightarrow> (\<forall>s\<in>set (subscriptions db). \<not> P s)"
  by (simp add: subscription_findFirst_desc_def latest_None_iff filter_empty_conv)

lemma subscription_update_found:
  "s \<in> set (subscriptions db) \<Longrightarrow>
   subscription_update now (sub_id s) f db =
     Inr (db\<lparr>subscriptions :=
              map (\<lambda>r. if sub_id r = sub_id s then (f r)\<lparr>updatedAt := now\<rparr> else r)
                  (subscriptions db)\<rparr>)"
  by (auto simp: subscription_update_def list_ex_iff)

lemma profile_update_plain:
  assumes "profile_findUnique db uid = Some p" "stripeSubscriptionId (f p) = stripeSubscriptionId p"
  shows "profile_update now uid f db =
     Inr (db\<lparr>profiles :=
              map (\<lambda>q. if profile_userId q = uid then (f p)\<lparr>profile_updatedAt := now\<rparr> else q)
                  (profiles db)\<rparr>)"
  using assms by (simp add: profile_update_def Let_def)

lemma profile_findUnique_subscriptions_update [simp]:
  "profile_findUnique (db\<lparr>subscriptions := xs\<rparr>) uid = profile_findUnique db uid"
  by (simp add: profile_findUnique_def)

lemma updateMany_rows:
  "subscriptions (subscription_updateMany now rid f db)
     = map (\<lambda>s. if razorpaySubscriptionId s = Some rid then (f s)\<lparr>updatedAt := now\<rparr> else s)
           (subscriptions db)"
  by (simp add: subscription_updateMany_def)

lemma subscription_create_ok:
  assumes "profile_findUnique db (d_userId d) = Some pr"
    and "subscription_findUnique (d_razorpaySubscriptionId d) db = None"
  shows "subscription_create now d db =
     Inr (db\<lparr>subscriptions := subscriptions db @
                  [\<lparr>sub_id = next_id db, userId = d_userId d, planId = d_planId d,
                    razorpaySubscriptionId = Some (d_razorpaySubscriptionId d),
                    razorpayPaymentId = d_razorpayPaymentId d,
                    status = d_status d, planType = d_planType d,
                    startDate = d_startDate d, endDate = d_endDate d,
                    isRecurring = d_isRecurring d,
                    createdAt = now, updatedAt = now\<rparr>],
                next_id := Suc (next_id db)\<rparr>)"
  using assms by (simp add: subscription_create_def)

lemma findFirst_in:
  "subscription_findFirst P db = Some s \<Longrightarrow> s \<in> set (subscriptions db) \<and> P s"
  by (auto simp: subscription_findFirst_def find_Some_iff)

section \<open>The branches of the status query\<close>

lemma check_pending_promote:
  assumes p: "p \<in> set (subscriptions db)"
    and f: "subscriptions_fetch rzp (or_default (razorpaySubscriptionId p) []) = Inr (Some r)"
    and st: "rzp_status r = ''active'' \<or> rzp_status r = ''completed''"
    and pr: "profile_findUnique db uid = Some pr"
  shows "check_pending e rzp now uid p db =
           Inr (Some (json (StatusActive (planType p) (razorpaySubscriptionId p) None (isRecurring p)) 200),
                promoted e now uid p pr db,
                [Fetch (or_default (razorpaySubscriptionId p) [])])"
  using f st pr
  by (auto simp: check_pending_def Let_def subscription_update_found[OF p]
      profile_update_plain[where p = pr] promoted_def)

lemma check_pending_pending:
  assumes f: "subscriptions_fetch rzp (or_default (razorpaySubscriptionId p) []) = Inr (Some r)"
    and st: "rzp_status r \<in> set pending_family"
  shows "check_pending e rzp now uid p db =
           Inr (Some (json (StatusPending (razorpaySubscriptionId p) (planType p)) 200), db,
                [Fetch (or_default (razorpaySubscriptionId p) [])])"
  using f st by (auto simp: check_pending_def Let_def pending_family_def)

lemma check_pending_other:
  assumes p: "p \<in> set (subscriptions db)"
    and f: "subscriptions_fetch rzp (or_default (razorpaySubscriptionId p) []) = Inr (Some r)"
    and st: "rzp_status r \<noteq> ''active''" "rzp_status r \<noteq> ''completed''"
            "rzp_status r \<notin> set pending_family"
  shows "check_pending e rzp now uid p db =
           Inr (None,
                db\<lparr>subscriptions :=
                     map (\<lambda>s. if sub_id s = sub_id p
                               then s\<lparr>status := rzp_status r, updatedAt := now\<rparr> else s)
                         (subscriptions db)\<rparr>,
                [Fetch (or_default (razorpaySubscriptionId p) [])])"
  using f st by (simp add: check_pending_def Let_def subscription_update_found[OF p])

lemma check_pending_throws:
  assumes f: "subscriptions_fetch rzp (or_default (razorpaySubscriptionId p) []) = Inl err"
  shows "check_pending e rzp now uid p db =
           Inl (db, [Fetch (or_default (razorpaySubscriptionId p) [])])"
  using f by (simp add: check_pending_def Let_def)

lemma check_subscription_active:
  assumes "uid \<noteq> []" "subscription_findFirst_desc (is_active_row uid now) db = Some a"
  shows "check_subscription_GET e rzp now (Some uid) db =
           outcome (json (StatusActive (planType a) (razorpaySubscriptionId a) (endDate a) False) 200) db []"
  using assms by (simp add: check_subscription_GET_def truthy_def)

lemma check_subscription_none:
  assumes "uid \<noteq> []" "subscription_findFirst_desc (is_active_row uid now) db = None"
    "subscription_findFirst_desc (is_pending_row uid) db = None"
  shows "check_subscription_GET e rzp now (Some uid) db = outcome (json StatusInactive 200) db []"
  using assms by (simp add: check_subscription_GET_def truthy_def)

lemma check_subscription_pending_row:
  assumes "uid \<noteq> []" "subscription_findFirst_desc (is_active_row uid now) db = None"
    "subscription_findFirst_desc (is_pending_row uid) db = Some p"
  shows "check_subscription_GET e rzp now (Some uid) db =
           (case check_pending e rzp now uid p db of
              Inl (db', cs) \<Rightarrow> outcome (json StatusInactive 200) db' cs
            | Inr (Some r, db', cs) \<Rightarrow> outcome r db' cs
            | Inr (None, db', cs) \<Rightarrow> outcome (json StatusInactive 200) db' cs)"
  using assms by (simp add: check_subscription_GET_def truthy_def)

lemma check_pending_shapes:
  "check_pending e rzp now uid p db = Inr (Some r, db', cs) \<Longrightarrow>
     http_status r = 200 \<and> body r \<noteq> StatusError m"
  by (auto simp: check_pending_def Let_def json_def split: sum.splits option.splits if_splits)

lemma check_subscription_shapes:
  assumes "uid \<noteq> []"
  shows "http_status (resp (check_subscription_GET e rzp now (Some uid) db)) = 200 \<and>
         body (resp (check_subscription_GET e rzp now (Some uid) db)) \<noteq> StatusError m"
proof (cases "subscription_findFirst_desc (is_active_row uid now) db")
  case (Some a)
  then show ?thesis by (simp add: check_subscription_active[OF assms] outcome_def json_def)
next
  case None
  show ?thesis
  proof (cases "subscription_findFirst_desc (is_pending_row uid) db")
    case N2: None
    then show ?thesis using None
      by (simp add: check_subscription_none[OF assms] outcome_def json_def)
  next
    case (Some p)
    show ?thesis
      using check_pending_shapes[of e rzp now uid p db]
      by (auto simp: check_subscription_pending_row[OF assms None Some] outcome_def json_def
          split: sum.splits option.splits prod.splits)
  qed
qed

section \<open>The branches of cancellation\<close>

text \<open>
  The completed branch in general: whenever the caller's row is found, the provider
  reports completed and the caller's Profile exists, the Profile is deactivated.
\<close>

lemma cancel_completed_branch:
  assumes req: "cr_subscriptionId req = Some sid" "sid \<noteq> []" "cr_userId req = Some uid" "uid \<noteq> []"
    and row: "subscription_findFirst
                (\<lambda>s. razorpaySubscriptionId s = Some sid \<and> userId s = uid) db = Some sub"
    and fetched: "subscriptions_fetch rzp sid = Inr (Some r)" "rzp_status r = ''completed''"
    and prof: "profile_findUnique db uid = Some pr"
  shows "cancel_subscription_POST rzp now req db =
           outcome (json (CancelSuccess completed_message) 200)
             (db\<lparr>subscriptions :=
                   map (\<lambda>s. if sub_id s = sub_id sub
                             then s\<lparr>status := ''cancelled'', updatedAt := now\<rparr> else s)
                       (subscriptions db),
                 profiles :=
                   map (\<lambda>q. if profile_userId q = uid
                             then (deactivate pr)\<lparr>profile_updatedAt := now\<rparr> else q)
                       (profiles db)\<rparr>)
             [Fetch sid]"
proof -
  have mem: "sub \<in> set (subscriptions db)" using findFirst_in[OF row] by simp
  have first: "cancel_check_completed rzp now sid uid sub db =
      Inr (json (CancelSuccess completed_message) 200,
           db\<lparr>subscriptions :=
                   map (\<lambda>s. if sub_id s = sub_id sub
                             then s\<lparr>status := ''cancelled'', updatedAt := now\<rparr> else s)
                       (subscriptions db),
                 profiles :=
                   map (\<lambda>q. if profile_userId q = uid
                             then (deactivate pr)\<lparr>profile_updatedAt := now\<rparr> else q)
                       (profiles db)\<rparr>)"
    using fetched prof
    by (simp add: cancel_check_completed_def subscription_update_found[OF mem]
        profile_update_def deactivate_def Let_def)
  show ?thesis
    using req row by (simp add: cancel_subscription_POST_def truthy_def Let_def first)
qed

text \<open>
  The sibling branch in general: when the provider does not report completed and
  its cancel call throws with a message containing ``completed'', the row is
  marked cancelled and the Profile table is not touched.
\<close>

lemma cancel_finalized_branch:
  assumes req: "cr_subscriptionId req = Some sid" "sid \<noteq> []" "cr_userId req = Some uid" "uid \<noteq> []"
    and row: "subscription_findFirst
                (\<lambda>s. razorpaySubscriptionId s = Some sid \<and> userId s = uid) db = Some sub"
    and fetched: "subscriptions_fetch rzp sid = Inr (Some r)" "rzp_status r \<noteq> ''completed''"
    and thrown: "subscriptions_cancel rzp sid = Inl err" "string_includes (message err) ''completed''"
  shows "cancel_subscription_POST rzp now req db =
           outcome (json (CancelSuccess completed_message) 200)
             (db\<lparr>subscriptions :=
                   map (\<lambda>s. if sub_id s = sub_id sub
                             then s\<lparr>status := ''cancelled'', updatedAt := now\<rparr> else s)
                       (subscriptions db)\<rparr>)
             [Fetch sid, Cancel sid]"
proof -
  have mem: "sub \<in> set (subscriptions db)" using findFirst_in[OF row] by simp
  have first: "cancel_check_completed rzp now sid uid sub db = Inl db"
    using fetched by (simp add: cancel_check_completed_def)
  have second: "cancel_at_provider rzp now sid uid sub db =
      (json (CancelSuccess completed_message) 200,
       db\<lparr>subscriptions :=
                   map (\<lambda>s. if sub_id s = sub_id sub
                             then s\<lparr>status := ''cancelled'', updatedAt := now\<rparr> else s)
                       (subscriptions db)\<rparr>)"
    using thrown
    by (simp add: cancel_at_provider_def cancel_catch_def subscription_update_found[OF mem])
  show ?thesis
    using req row by (simp add: cancel_subscription_POST_def truthy_def Let_def first second)
qed

text \<open>A normal cancellation: the provider cancels, the row is marked, the Profile deactivated.\<close>

lemma cancel_normal_branch:
  assumes req: "cr_subscriptionId req = Some sid" "sid \<noteq> []" "cr_userId req = Some uid" "uid \<noteq> []"
    and row: "subscription_findFirst
                (\<lambda>s. razorpaySubscriptionId s = Some sid \<and> userId s = uid) db = Some sub"
    and fetched: "subscriptions_fetch rzp sid = Inr (Some r)" "rzp_status r \<noteq> ''completed''"
    and cancelled: "subscriptions_cancel rzp sid = Inr result"
    and prof: "profile_findUnique db uid = Some pr"
  shows "cancel_subscription_POST rzp now req db =
           outcome (json (CancelSuccess ''Subscription cancelled successfully'') 200)
             (db\<lparr>subscriptions :=
                   map (\<lambda>s. if sub_id s = sub_id sub
                             then s\<lparr>status := ''cancelled'', updatedAt := now\<rparr> else s)
                       (subscriptions db),
                 profiles :=
                   map (\<lambda>q. if profile_userId q = uid
                             then (deactivate pr)\<lparr>profile_updatedAt := now\<rparr> else q)
                       (profiles db)\<rparr>)
             [Fetch sid, Cancel sid]"
proof -
  have mem: "sub \<in> set (subscriptions db)" using findFirst_in[OF row] by simp
  have first: "cancel_check_completed rzp now sid uid sub db = Inl db"
    using fetched by (simp add: cancel_check_completed_def)
  have second: "cancel_at_provider rzp now sid uid sub db =
      (json (CancelSuccess ''Subscription cancelled successfully'') 200,
       db\<lparr>subscriptions :=
                   map (\<lambda>s. if sub_id s = sub_id sub
                             then s\<lparr>status := ''cancelled'', updatedAt := now\<rparr> else s)
                       (subscriptions db),
                 profiles :=
                   map (\<lambda>q. if profile_userId q = uid
                             then (deactivate pr)\<lparr>profile_updatedAt := now\<rparr> else q)
                       (profiles db)\<rparr>)"
    using cancelled prof
    by (simp add: cancel_at_provider_def subscription_update_found[OF mem]
        profile_update_def deactivate_def Let_def)
  show ?thesis
    using req row by (simp add: cancel_subscription_POST_def truthy_def Let_def first second)
qed

section \<open>Facts about the example data\<close>

lemma found_alice:
  "subscription_findFirst (\<lambda>s. razorpaySubscriptionId s = Some ''sub_1'' \<and> userId s = ''user_1'')
     store_subscribed = Some (row_alice ''active'' (Some 9000000))"
  by (simp add: subscription_findFirst_def store_subscribed_def row_alice_def)

section \<open>The branches of subscription creation\<close>

lemma checkout_rejects_active:
  assumes "co_userId req = Some uid"
    and "subscription_findFirst
           (\<lambda>s. userId s = uid \<and> status s = ''active'' \<and> end_not_before now s) db = Some a"
  shows "http_status (resp (checkout_POST e rzp now req db)) = 400 \<and>
         db_after (checkout_POST e rzp now req db) = db \<and>
         calls (checkout_POST e rzp now req db) = []"
  using assms by (simp add: checkout_POST_def Let_def outcome_def json_def)

lemma checkout_rejects_active_body:
  assumes "co_userId req = Some uid" "uid \<noteq> []" "co_planType req = Some pt"
    "pt \<in> {''week'', ''month'', ''year''}" "truthy (getPriceIdFromType e pt)"
    "truthy (co_email req)"
    and "subscription_findFirst
           (\<lambda>s. userId s = uid \<and> status s = ''active'' \<and> end_not_before now s) db = Some a"
  shows "checkout_POST e rzp now req db =
           outcome (json (CheckoutAlreadyActive already_active_message (planType a) (endDate a)) 400) db []"
  using assms by (auto simp add: checkout_POST_def Let_def truthy_def)

lemma checkout_creates:
  assumes "co_userId req = Some uid" "uid \<noteq> []" "co_planType req = Some pt"
    "pt \<in> {''week'', ''month'', ''year''}" "getPriceIdFromType e pt = Some priceId" "priceId \<noteq> []"
    "co_email req = Some mail" "mail \<noteq> []"
    and none: "subscription_findFirst
           (\<lambda>s. userId s = uid \<and> status s = ''active'' \<and> end_not_before now s) db = None"
    and created: "subscriptions_create rzp
           \<lparr>cp_plan_id = priceId, cp_total_count = 1, cp_customer_notify = 1,
            cp_notes = \<lparr>n_userId = Some uid, n_planType = Some pt, n_email = Some mail\<rparr>\<rparr> = Inr sub"
    and prof: "profile_findUnique db uid = Some pr"
    and fresh: "subscription_findUnique (rzp_id sub) db = None"
  shows "checkout_POST e rzp now req db =
           outcome (json (CheckoutCreated (rzp_id sub) (plan_id sub) (rzp_status sub) (short_url sub)
                            (callback_url (request_origin e (co_origin req)) (rzp_id sub))) 200)
             (db\<lparr>subscriptions := subscriptions db @
                  [\<lparr>sub_id = next_id db, userId = uid, planId = plan_id sub,
                    razorpaySubscriptionId = Some (rzp_id sub), razorpayPaymentId = None,
                    status = rzp_status sub, planType = pt,
                    startDate = None, endDate = None, isRecurring = False,
                    createdAt = now, updatedAt = now\<rparr>],
                next_id := Suc (next_id db)\<rparr>)
             [Create \<lparr>cp_plan_id = priceId, cp_total_count = 1, cp_customer_notify = 1,
                      cp_notes = \<lparr>n_userId = Some uid, n_planType = Some pt, n_email = Some mail\<rparr>\<rparr>]"
proof -
  have v: "truthy (co_planType req)" "truthy (co_userId req)" "truthy (co_email req)"
    "truthy (getPriceIdFromType e pt)" "pt \<noteq> []"
    using assms(1-8) by (auto simp: truthy_def)
  have c: "subscription_create now
             \<lparr>d_userId = uid, d_planId = plan_id sub,
              d_razorpaySubscriptionId = rzp_id sub, d_razorpayPaymentId = None,
              d_status = rzp_status sub, d_planType = pt,
              d_startDate = None, d_endDate = None, d_isRecurring = False\<rparr> db
        = Inr (db\<lparr>subscriptions := subscriptions db @
                  [\<lparr>sub_id = next_id db, userId = uid, planId = plan_id sub,
                    razorpaySubscriptionId = Some (rzp_id sub), razorpayPaymentId = None,
                    status = rzp_status sub, planType = pt,
                    startDate = None, endDate = None, isRecurring = False,
                    createdAt = now, updatedAt = now\<rparr>],
                next_id := Suc (next_id db)\<rparr>)"
    using subscription_create_ok[where d = "\<lparr>d_userId = uid, d_planId = plan_id sub,
              d_razorpaySubscriptionId = rzp_id sub, d_razorpayPaymentId = None,
              d_status = rzp_status sub, d_planType = pt,
              d_startDate = None, d_endDate = None, d_isRecurring = False\<rparr>" and db = db
              and pr = pr and now = now] prof fresh
    by simp
  show ?thesis
    using assms(1,3,4,5,7) none created v
    by (auto simp add: checkout_POST_def Let_def c)
qed

lemma checkout_invalid:
  assumes "\<not> truthy (co_planType req) \<or> \<not> truthy (co_userId req) \<or> \<not> truthy (co_email req)
           \<or> the (co_planType req) \<notin> {''week'', ''month'', ''year''}
           \<or> \<not> truthy (getPriceIdFromType e (the (co_planType req)))"
  shows "http_status (resp (checkout_POST e rzp now req db)) = 400 \<and>
         db_after (checkout_POST e rzp now req db) = db \<and>
         calls (checkout_POST e rzp now req db) = []"
  using assms
  by (auto simp add: checkout_POST_def Let_def outcome_def json_def split: option.splits)

lemma checkout_provider_throws:
  assumes "co_userId req = Some uid" "uid \<noteq> []" "co_planType req = Some pt"
    "pt \<in> {''week'', ''month'', ''year''}" "getPriceIdFromType e pt = Some priceId" "priceId \<noteq> []"
    "co_email req = Some mail" "mail \<noteq> []"
    and none: "subscription_findFirst
           (\<lambda>s. userId s = uid \<and> status s = ''active'' \<and> end_not_before now s) db = None"
    and thrown: "subscriptions_create rzp
           \<lparr>cp_plan_id = priceId, cp_total_count = 1, cp_customer_notify = 1,
            cp_notes = \<lparr>n_userId = Some uid, n_planType = Some pt, n_email = Some mail\<rparr>\<rparr> = Inl err"
  shows "checkout_POST e rzp now req db =
           outcome (json (CheckoutError ''Failed to create subscription session'') 500) db
             [Create \<lparr>cp_plan_id = priceId, cp_total_count = 1, cp_customer_notify = 1,
                      cp_notes = \<lparr>n_userId = Some uid, n_planType = Some pt, n_email = Some mail\<rparr>\<rparr>]"
proof -
  have v: "truthy (co_planType req)" "truthy (co_userId req)" "truthy (co_email req)"
    "truthy (getPriceIdFromType e pt)" "pt \<noteq> []"
    using assms(1-8) by (auto simp: truthy_def)
  show ?thesis
    using assms(1,3,4,5,7) none thrown v
    by (auto simp add: checkout_POST_def Let_def)
qed

lemma checkout_insert_refused:
  assumes "co_userId req = Some uid" "uid \<noteq> []" "co_planType req = Some pt"
    "pt \<in> {''week'', ''month'', ''year''}" "getPriceIdFromType e pt = Some priceId" "priceId \<noteq> []"
    "co_email req = Some mail" "mail \<noteq> []"
    and none: "subscription_findFirst
           (\<lambda>s. userId s = uid \<and> status s = ''active'' \<and> end_not_before now s) db = None"
    and created: "subscriptions_create rzp
           \<lparr>cp_plan_id = priceId, cp_total_count = 1, cp_customer_notify = 1,
            cp_notes = \<lparr>n_userId = Some uid, n_planType = Some pt, n_email = Some mail\<rparr>\<rparr> = Inr sub"
    and refused: "profile_findUnique db uid = None \<or> subscription_findUnique (rzp_id sub) db \<noteq> None"
  shows "checkout_POST e rzp now req db =
           outcome (json (CheckoutError ''Failed to create subscription session'') 500) db
             [Create \<lparr>cp_plan_id = priceId, cp_total_count = 1, cp_customer_notify = 1,
                      cp_notes = \<lparr>n_userId = Some uid, n_planType = Some pt, n_email = Some mail\<rparr>\<rparr>]"
proof -
  have v: "truthy (co_planType req)" "truthy (co_userId req)" "truthy (co_email req)"
    "truthy (getPriceIdFromType e pt)" "pt \<noteq> []"
    using assms(1-8) by (auto simp: truthy_def)
  have c: "\<exists>err. subscription_create now
             \<lparr>d_userId = uid, d_planId = plan_id sub,
              d_razorpaySubscriptionId = rzp_id sub, d_razorpayPaymentId = None,
              d_status = rzp_status sub, d_planType = pt,
              d_startDate = None, d_endDate = None, d_isRecurring = False\<rparr> db = Inl err"
    using refused by (auto simp: subscription_create_def)
  then obtain err where c': "subscription_create now
             \<lparr>d_userId = uid, d_planId = plan_id sub,
              d_razorpaySubscriptionId = rzp_id sub, d_razorpayPaymentId = None,
              d_status = rzp_status sub, d_planType = pt,
              d_startDate = None, d_endDate = None, d_isRecurring = False\<rparr> db = Inl err"
    by blast
  show ?thesis
    using assms(1,3,4,5,7) none created v
    by (auto simp add: checkout_POST_def Let_def c')
qed

section \<open>The branches of resumption\<close>


section \<open>Redirect verification applied twice\<close>

lemma verify_redirect_db:
  "db_after (verify_redirect e rzp now sid db) =
     (case subscriptions_fetch rzp sid of
        Inr (Some sub) \<Rightarrow> if verify_acts sub then verify_writes e now sid sub db else db
      | _ \<Rightarrow> db)"
  by (auto simp: verify_redirect_def Let_def outcome_def verify_acts_def verify_writes_def
      activate_row_def activate_data_def activate_profile_def try_profile_update_def
      subscription_findFirst_def subscription_findUnique_def
      split: sum.splits option.splits)

lemma try_profile_update_parts:
  "profiles (try_profile_update now uid f db) = pu_list now uid f (profiles db)"
  "subscriptions (try_profile_update now uid f db) = subscriptions db"
  "next_id (try_profile_update now uid f db) = next_id db"
  by (auto simp: try_profile_update_def profile_update_def profile_findUnique_def pu_list_def Let_def
      split: option.splits)

lemma find_replace:
  assumes "find P xs = Some p" "P p'"
  shows "find P (map (\<lambda>q. if P q then p' else q) xs) = Some p'"
  using assms by (induction xs) (auto split: if_splits)

lemma map_replace_twice:
  assumes "P p'"
  shows "map (\<lambda>q. if P q then p'' else q) (map (\<lambda>q. if P q then p' else q) xs)
           = map (\<lambda>q. if P q then p'' else q) xs"
  using assms by (induction xs) auto

lemma pu_list_twice:
  "map (\<lambda>p. p\<lparr>profile_updatedAt := 0\<rparr>)
       (pu_list now2 uid (activate_profile plan sub) (pu_list now1 uid (activate_profile plan sub) ps))
   = map (\<lambda>p. p\<lparr>profile_updatedAt := 0\<rparr>) (pu_list now1 uid (activate_profile plan sub) ps)"
proof (cases "find (\<lambda>p. profile_userId p = uid) ps")
  case None
  then show ?thesis by (simp add: pu_list_def)
next
  case (Some p)
  define p' where "p' = (activate_profile plan sub p)\<lparr>profile_updatedAt := now1\<rparr>"
  have pu: "profile_userId p = uid" using Some by (auto simp: find_Some_iff)
  have pu': "profile_userId p' = uid" by (simp add: p'_def activate_profile_def pu)
  show ?thesis
  proof (cases "stripeSubscriptionId p' \<noteq> None \<and>
             stripeSubscriptionId p' \<noteq> stripeSubscriptionId p \<and>
             list_ex (\<lambda>q. profile_userId q \<noteq> uid \<and>
                           stripeSubscriptionId q = stripeSubscriptionId p') ps")
    case True
    have same: "stripeSubscriptionId ((activate_profile plan sub p)\<lparr>profile_updatedAt := t\<rparr>)
                  = stripeSubscriptionId p'" for t
      by (simp add: p'_def activate_profile_def)
    have 1: "pu_list t uid (activate_profile plan sub) ps = ps" for t
      using True Some by (simp add: pu_list_def Let_def same)
    show ?thesis by (simp add: 1)
  next
    case False
    have 1: "pu_list now1 uid (activate_profile plan sub) ps
               = map (\<lambda>q. if profile_userId q = uid then p' else q) ps"
      using False Some unfolding p'_def by (auto simp: pu_list_def Let_def)
    have f: "find (\<lambda>p. profile_userId p = uid) (map (\<lambda>q. if profile_userId q = uid then p' else q) ps)
               = Some p'"
      using find_replace[of "\<lambda>p. profile_userId p = uid" ps p p'] Some pu' by simp
    define p'' where "p'' = (activate_profile plan sub p')\<lparr>profile_updatedAt := now2\<rparr>"
    have st: "stripeSubscriptionId p'' = stripeSubscriptionId p'"
      by (simp add: p''_def p'_def activate_profile_def)
    have 2: "pu_list now2 uid (activate_profile plan sub)
               (map (\<lambda>q. if profile_userId q = uid then p' else q) ps)
             = map (\<lambda>q. if profile_userId q = uid then p'' else q) ps"
      using f st map_replace_twice[of "\<lambda>p. profile_userId p = uid" p' p'' ps] pu'
      by (simp add: pu_list_def Let_def p''_def[symmetric])
    have e: "p''\<lparr>profile_updatedAt := 0\<rparr> = p'\<lparr>profile_updatedAt := 0\<rparr>"
      by (simp add: p''_def p'_def activate_profile_def)
    show ?thesis
      unfolding 1 2 by (simp add: e if_distrib[of "\<lambda>p. p\<lparr>profile_updatedAt := 0\<rparr>"] cong: if_cong)
  qed
qed

lemma find_key_None: "find (\<lambda>p. f p = k) xs = None \<longleftrightarrow> k \<notin> set (map f xs)"
  by (auto simp: find_None_iff image_iff)

lemma pu_list_keeps_keys:
  "find (\<lambda>p. profile_userId p = k) (pu_list now uid (activate_profile plan sub) ps) = None
     \<longleftrightarrow> find (\<lambda>p. profile_userId p = k) ps = None"
proof -
  have "map profile_userId (pu_list now uid (activate_profile plan sub) ps) = map profile_userId ps"
    by (auto simp: pu_list_def Let_def activate_profile_def find_Some_iff split: option.splits)
  then show ?thesis unfolding find_key_None by simp
qed


lemma updateMany_parts:
  "profiles (subscription_updateMany now rid f db) = profiles db"
  "next_id (subscription_updateMany now rid f db) = next_id db"
  by (simp_all add: subscription_updateMany_def)

lemma find_map_update:
  assumes "find P xs = Some r" "\<And>x. P x \<Longrightarrow> P (h x)"
  shows "find P (map (\<lambda>s. if P s then h s else s) xs) = Some (h r)"
  using assms by (induction xs) (auto split: if_splits)

lemma map_update_none:
  "find P xs = None \<Longrightarrow> map (\<lambda>s. if P s then h s else s) xs = xs"
  by (induction xs) (auto split: if_splits)

lemma forget_times_eqI:
  assumes "map (\<lambda>p. p\<lparr>profile_updatedAt := 0\<rparr>) (profiles X)
             = map (\<lambda>p. p\<lparr>profile_updatedAt := 0\<rparr>) (profiles Y)"
    and "map (\<lambda>s. s\<lparr>startDate := None, endDate := None, updatedAt := 0\<rparr>) (subscriptions X)
           = map (\<lambda>s. s\<lparr>startDate := None, endDate := None, updatedAt := 0\<rparr>) (subscriptions Y)"
    and "next_id X = next_id Y"
  shows "forget_times X = forget_times Y"
  using assms by (cases X, cases Y) (simp add: forget_times_def)

lemma verify_writes_cancelled:
  "subscription_findUnique sid db = Some r \<Longrightarrow> status r = ''cancelled'' \<Longrightarrow>
   verify_writes e now sid sub db = db"
  by (simp add: verify_writes_def)

lemma verify_writes_update:
  "subscription_findUnique sid db = Some r \<Longrightarrow> status r \<noteq> ''cancelled'' \<Longrightarrow>
   verify_writes e now sid sub db =
     try_profile_update now (the (notes_userId sub))
       (activate_profile (or_default (notes_planType sub) ''month'') sub)
       (subscription_updateMany now sid
          (activate_row e now (or_default (notes_planType sub) ''month'')) db)"
  by (simp add: verify_writes_def Let_def subscription_upsert_def subscription_update_unique_def)

lemma verify_writes_create:
  "subscription_findUnique sid db = None \<Longrightarrow>
   verify_writes e now sid sub db =
     (case subscription_create now
             (activate_data e now (or_default (notes_planType sub) ''month'') sub) db of
        Inl err \<Rightarrow> db
      | Inr db1 \<Rightarrow>
          try_profile_update now (the (notes_userId sub))
            (activate_profile (or_default (notes_planType sub) ''month'') sub) db1)"
  by (simp add: verify_writes_def Let_def subscription_upsert_def)

lemma verify_writes_update_twice:
  assumes f: "subscription_findUnique sid db = Some r" and nc: "status r \<noteq> ''cancelled''"
  shows "forget_times (verify_writes e now2 sid sub (verify_writes e now1 sid sub db))
           = forget_times (verify_writes e now1 sid sub db)"
proof -
  define plan where "plan = or_default (notes_planType sub) ''month''"
  define uid where "uid = the (notes_userId sub)"
  define W1 where "W1 = verify_writes e now1 sid sub db"
  have W1: "W1 = try_profile_update now1 uid (activate_profile plan sub)
                   (subscription_updateMany now1 sid (activate_row e now1 plan) db)"
    unfolding W1_def plan_def uid_def by (rule verify_writes_update[OF f nc])
  have subs1: "subscriptions W1
      = map (\<lambda>s. if razorpaySubscriptionId s = Some sid
                  then (activate_row e now1 plan s)\<lparr>updatedAt := now1\<rparr> else s) (subscriptions db)"
    by (simp add: W1 try_profile_update_parts updateMany_rows)
  have f1: "subscription_findUnique sid W1 = Some ((activate_row e now1 plan r)\<lparr>updatedAt := now1\<rparr>)"
    unfolding subscription_findUnique_def subs1
    using f[unfolded subscription_findUnique_def]
    by (intro find_map_update[where P = "\<lambda>s. razorpaySubscriptionId s = Some sid"])
       (simp_all add: activate_row_def)
  have nc1: "status ((activate_row e now1 plan r)\<lparr>updatedAt := now1\<rparr>) \<noteq> ''cancelled''"
    by (simp add: activate_row_def)
  have W2: "verify_writes e now2 sid sub W1
      = try_profile_update now2 uid (activate_profile plan sub)
          (subscription_updateMany now2 sid (activate_row e now2 plan) W1)"
    unfolding plan_def uid_def by (rule verify_writes_update[OF f1[unfolded plan_def] nc1[unfolded plan_def]])
  have P: "map (\<lambda>p. p\<lparr>profile_updatedAt := 0\<rparr>) (profiles (verify_writes e now2 sid sub W1))
             = map (\<lambda>p. p\<lparr>profile_updatedAt := 0\<rparr>) (profiles W1)"
    by (simp add: W2 try_profile_update_parts updateMany_parts)
       (simp add: W1 try_profile_update_parts updateMany_parts pu_list_twice)
  have S: "map (\<lambda>s. s\<lparr>startDate := None, endDate := None, updatedAt := 0\<rparr>)
               (subscriptions (verify_writes e now2 sid sub W1))
           = map (\<lambda>s. s\<lparr>startDate := None, endDate := None, updatedAt := 0\<rparr>) (subscriptions W1)"
    by (simp add: W2 try_profile_update_parts updateMany_rows subs1 activate_row_def comp_def)
  have N: "next_id (verify_writes e now2 sid sub W1) = next_id W1"
    by (simp add: W2 try_profile_update_parts updateMany_parts)
  show ?thesis unfolding W1_def[symmetric] by (rule forget_times_eqI[OF P S N])
qed


lemma subscription_create_cases:
  "subscription_create now d db =
     (if profile_findUnique db (d_userId d) = None then Inl ForeignKeyConstraintFailed
      else if subscription_findUnique (d_razorpaySubscriptionId d) db \<noteq> None
        then Inl UniqueConstraintFailed
      else Inr (db\<lparr>subscriptions := subscriptions db @
                  [\<lparr>sub_id = next_id db, userId = d_userId d, planId = d_planId d,
                    razorpaySubscriptionId = Some (d_razorpaySubscriptionId d),
                    razorpayPaymentId = d_razorpayPaymentId d,
                    status = d_status d, planType = d_planType d,
                    startDate = d_startDate d, endDate = d_endDate d,
                    isRecurring = d_isRecurring d,
                    createdAt = now, updatedAt = now\<rparr>],
                next_id := Suc (next_id db)\<rparr>))"
  by (simp add: subscription_create_def)

lemma activate_data_keys:
  "d_userId (activate_data e now plan sub) = the (notes_userId sub)"
  "d_razorpaySubscriptionId (activate_data e now plan sub) = rzp_id sub"
  "d_status (activate_data e now plan sub) = ''active''"
  by (simp_all add: activate_data_def)

lemma verify_writes_create_twice:
  assumes f: "subscription_findUnique sid db = None"
  shows "forget_times (verify_writes e now2 sid sub (verify_writes e now1 sid sub db))
           = forget_times (verify_writes e now1 sid sub db)"
proof -
  define plan where "plan = or_default (notes_planType sub) ''month''"
  define uid where "uid = the (notes_userId sub)"
  define W1 where "W1 = verify_writes e now1 sid sub db"
  note vc = verify_writes_create[of sid _ e _ sub, folded plan_def uid_def]
  show ?thesis
  proof (cases "profile_findUnique db uid = None \<or> subscription_findUnique (rzp_id sub) db \<noteq> None")
    case True
    have fail: "\<exists>err. subscription_create t (activate_data e t plan sub) db = Inl err" for t
      using True by (auto simp: subscription_create_cases activate_data_keys uid_def)
    have "verify_writes e t sid sub db = db" for t
      using fail[of t] by (auto simp: vc[OF f])
    then show ?thesis by simp
  next
    case False
    define new1 where "new1 = \<lparr>sub_id = next_id db, userId = uid, planId = plan_id sub,
                    razorpaySubscriptionId = Some (rzp_id sub),
                    razorpayPaymentId = None,
                    status = ''active'', planType = plan,
                    startDate = Some now1,
                    endDate = Some (calculateEndDate_verify (LocalTZA e) now1 (Some plan)),
                    isRecurring = False,
                    createdAt = now1, updatedAt = now1\<rparr>"
    define db1 where "db1 = db\<lparr>subscriptions := subscriptions db @ [new1], next_id := Suc (next_id db)\<rparr>"
    have c1: "subscription_create now1 (activate_data e now1 plan sub) db = Inr db1"
      using False
      by (simp add: subscription_create_cases activate_data_keys uid_def[symmetric])
         (simp add: activate_data_def db1_def new1_def uid_def)
    have W1: "W1 = try_profile_update now1 uid (activate_profile plan sub) db1"
      unfolding W1_def by (simp add: vc[OF f] c1)
    have subs1: "subscriptions W1 = subscriptions db @ [new1]"
      by (simp add: W1 try_profile_update_parts db1_def)
    have nid1: "next_id W1 = Suc (next_id db)"
      by (simp add: W1 try_profile_update_parts db1_def)
    have prof1: "profiles W1 = pu_list now1 uid (activate_profile plan sub) (profiles db)"
      by (simp add: W1 try_profile_update_parts db1_def)
    have fdb: "find (\<lambda>s. razorpaySubscriptionId s = Some sid) (subscriptions db) = None"
      using f by (simp add: subscription_findUnique_def)
    show ?thesis
    proof (cases "rzp_id sub = sid")
      case True
      have f1: "subscription_findUnique sid W1 = Some new1"
        by (simp add: subscription_findUnique_def subs1 find_append_cases fdb new1_def True)
      have nc1: "status new1 \<noteq> ''cancelled''" by (simp add: new1_def)
      have W2: "verify_writes e now2 sid sub W1
          = try_profile_update now2 uid (activate_profile plan sub)
              (subscription_updateMany now2 sid (activate_row e now2 plan) W1)"
        unfolding plan_def uid_def by (rule verify_writes_update[OF f1 nc1])
      have P: "map (\<lambda>p. p\<lparr>profile_updatedAt := 0\<rparr>) (profiles (verify_writes e now2 sid sub W1))
                 = map (\<lambda>p. p\<lparr>profile_updatedAt := 0\<rparr>) (profiles W1)"
        by (simp add: W2 try_profile_update_parts updateMany_parts prof1 pu_list_twice)
      have S: "map (\<lambda>s. s\<lparr>startDate := None, endDate := None, updatedAt := 0\<rparr>)
                   (subscriptions (verify_writes e now2 sid sub W1))
               = map (\<lambda>s. s\<lparr>startDate := None, endDate := None, updatedAt := 0\<rparr>) (subscriptions W1)"
        using map_update_none[OF fdb]
        by (simp add: W2 try_profile_update_parts updateMany_rows subs1)
           (simp add: new1_def activate_row_def)
      have N: "next_id (verify_writes e now2 sid sub W1) = next_id W1"
        by (simp add: W2 try_profile_update_parts updateMany_parts)
      show ?thesis unfolding W1_def[symmetric] by (rule forget_times_eqI[OF P S N])
    next
      case False
      have f1: "subscription_findUnique sid W1 = None"
        using False by (simp add: subscription_findUnique_def subs1 find_append_cases fdb new1_def)
      have taken: "subscription_findUnique (rzp_id sub) W1 \<noteq> None"
        by (auto simp: subscription_findUnique_def subs1 find_append_cases new1_def
            split: option.splits)
      have fail: "\<exists>err. subscription_create now2 (activate_data e now2 plan sub) W1 = Inl err"
        using taken by (auto simp: subscription_create_cases activate_data_keys)
      have "verify_writes e now2 sid sub W1 = W1"
        using fail by (auto simp: vc[OF f1])
      then show ?thesis unfolding W1_def[symmetric] by simp
    qed
  qed
qed

lemma verify_writes_twice:
  "forget_times (verify_writes e now2 sid sub (verify_writes e now1 sid sub db))
     = forget_times (verify_writes e now1 sid sub db)"
proof (cases "subscription_findUnique sid db")
  case None
  then show ?thesis by (rule verify_writes_create_twice)
next
  case (Some r)
  show ?thesis
  proof (cases "status r = ''cancelled''")
    case True
    then show ?thesis by (simp add: verify_writes_cancelled[OF Some])
  next
    case False
    then show ?thesis by (rule verify_writes_update_twice[OF Some])
  qed
qed

lemma verify_redirect_twice:
  "forget_times (db_after (verify_redirect e rzp now2 sid
                             (db_after (verify_redirect e rzp now1 sid db))))
     = forget_times (db_after (verify_redirect e rzp now1 sid db))"
  by (simp add: verify_redirect_db verify_writes_twice split: sum.splits option.splits)

lemma calc_verify_examples:
  "calculateEndDate_verify zone_UTC 1736942400000 (Some ''month'') = 1739620800000"
  "calculateEndDate_verify zone_UTC 1737028800000 (Some ''month'') = 1739707200000"
  by code_simp+

lemma verify_alice_first:
  "verify_payment_POST env0 (rzp_reports ''active'') 1736942400000 verify_alice
     (store_alice ''created'' None)
   = outcome (json (VerifySuccess ''Subscription verified and activated'') 200)
       (store_verified 1736942400000 1739620800000) [Fetch ''sub_1'']"
  by (simp add: verify_payment_POST_def verify_redirect_def verify_alice_def truthy_def or_else_def
      rzp_reports_def rzp_sub_def notes_alice_def notes_userId_def notes_planType_def or_default_def
      subscription_findFirst_def subscription_upsert_def subscription_findUnique_def
      subscription_update_unique_def subscription_updateMany_def
      profile_update_def profile_findUnique_def
      store_alice_def row_alice_def profile_alice_def profile_alice_active_def store_verified_def
      env0_def calc_verify_examples Let_def)

lemma verify_alice_second:
  "verify_payment_POST env0 (rzp_reports ''active'') 1737028800000 verify_alice
     (store_verified 1736942400000 1739620800000)
   = outcome (json (VerifySuccess ''Subscription verified and activated'') 200)
       (store_verified 1737028800000 1739707200000) [Fetch ''sub_1'']"
  by (simp add: verify_payment_POST_def verify_redirect_def verify_alice_def truthy_def or_else_def
      rzp_reports_def rzp_sub_def notes_alice_def notes_userId_def notes_planType_def or_default_def
      subscription_findFirst_def subscription_upsert_def subscription_findUnique_def
      subscription_update_unique_def subscription_updateMany_def
      profile_update_def profile_findUnique_def
      row_alice_def profile_alice_def profile_alice_active_def store_verified_def
      env0_def calc_verify_examples Let_def)

subsection \<open>What the second application writes\<close>

lemma store_eqI:
  fixes X Y :: store
  assumes "profiles X = profiles Y" "subscriptions X = subscriptions Y" "next_id X = next_id Y"
  shows "X = Y"
  using assms by (cases X, cases Y) simp

lemma verify_redirect_success:
  "resp (verify_redirect e rzp now sid db)
     = json (VerifySuccess ''Subscription verified and activated'') 200
   \<longleftrightarrow> (case subscriptions_fetch rzp sid of
          Inr (Some sub) \<Rightarrow> verify_acts sub \<and> verify_succeeds e now sid sub db
        | _ \<Rightarrow> False)"
  by (auto simp: verify_redirect_def Let_def outcome_def json_def verify_acts_def
      verify_succeeds_def activate_row_def activate_data_def activate_profile_def
      subscription_findFirst_def subscription_findUnique_def
      split: sum.splits option.splits)

lemma profile_update_ok_iff:
  "(case profile_update now uid f db of Inl err \<Rightarrow> False | Inr db' \<Rightarrow> True)
     \<longleftrightarrow> pu_ok uid f (profiles db)"
  by (auto simp: profile_update_def profile_findUnique_def pu_ok_def Let_def split: option.splits)

lemma pu_list_not_ok: "\<not> pu_ok uid f ps \<Longrightarrow> pu_list now uid f ps = ps"
  by (auto simp: pu_ok_def pu_list_def Let_def split: option.splits)

lemma pu_list_second:
  assumes ok: "pu_ok uid (activate_profile plan sub) ps"
  shows "pu_list now2 uid (activate_profile plan sub) (pu_list now1 uid (activate_profile plan sub) ps)
           = map (\<lambda>q. if profile_userId q = uid then q\<lparr>profile_updatedAt := now2\<rparr> else q)
                 (pu_list now1 uid (activate_profile plan sub) ps)"
    and "pu_ok uid (activate_profile plan sub) (pu_list now1 uid (activate_profile plan sub) ps)"
proof -
  from ok obtain p where Some: "find (\<lambda>p. profile_userId p = uid) ps = Some p"
    by (auto simp: pu_ok_def split: option.splits)
  define p' where "p' = (activate_profile plan sub p)\<lparr>profile_updatedAt := now1\<rparr>"
  have pu: "profile_userId p = uid" using Some by (auto simp: find_Some_iff)
  have pu': "profile_userId p' = uid" by (simp add: p'_def activate_profile_def pu)
  have nv: "\<not> (stripeSubscriptionId p' \<noteq> None \<and>
             stripeSubscriptionId p' \<noteq> stripeSubscriptionId p \<and>
             list_ex (\<lambda>q. profile_userId q \<noteq> uid \<and>
                           stripeSubscriptionId q = stripeSubscriptionId p') ps)"
    using ok Some by (simp add: pu_ok_def p'_def activate_profile_def)
  have 1: "pu_list now1 uid (activate_profile plan sub) ps
             = map (\<lambda>q. if profile_userId q = uid then p' else q) ps"
    using nv Some unfolding p'_def by (auto simp: pu_list_def Let_def)
  have f: "find (\<lambda>p. profile_userId p = uid) (map (\<lambda>q. if profile_userId q = uid then p' else q) ps)
             = Some p'"
    using find_replace[of "\<lambda>p. profile_userId p = uid" ps p p'] Some pu' by simp
  define p'' where "p'' = (activate_profile plan sub p')\<lparr>profile_updatedAt := now2\<rparr>"
  have st: "stripeSubscriptionId p'' = stripeSubscriptionId p'"
    by (simp add: p''_def p'_def activate_profile_def)
  have st': "stripeSubscriptionId (activate_profile plan sub p') = stripeSubscriptionId p'"
    by (simp add: p'_def activate_profile_def)
  have 2: "pu_list now2 uid (activate_profile plan sub)
             (map (\<lambda>q. if profile_userId q = uid then p' else q) ps)
           = map (\<lambda>q. if profile_userId q = uid then p'' else q) ps"
    using f st map_replace_twice[of "\<lambda>p. profile_userId p = uid" p' p'' ps] pu'
    by (simp add: pu_list_def Let_def p''_def[symmetric])
  have e: "p'' = p'\<lparr>profile_updatedAt := now2\<rparr>"
    by (simp add: p''_def p'_def activate_profile_def)
  have 3: "map (\<lambda>q. if profile_userId q = uid then q\<lparr>profile_updatedAt := now2\<rparr> else q)
             (map (\<lambda>q. if profile_userId q = uid then p' else q) ps)
           = map (\<lambda>q. if profile_userId q = uid then p'' else q) ps"
    by (induction ps) (simp_all add: e pu')
  show "pu_list now2 uid (activate_profile plan sub) (pu_list now1 uid (activate_profile plan sub) ps)
           = map (\<lambda>q. if profile_userId q = uid then q\<lparr>profile_updatedAt := now2\<rparr> else q)
                 (pu_list now1 uid (activate_profile plan sub) ps)"
    unfolding 1 2 3 ..
  show "pu_ok uid (activate_profile plan sub) (pu_list now1 uid (activate_profile plan sub) ps)"
    unfolding 1 by (simp add: pu_ok_def f st')
qed

lemma pu_ok_pu_list:
  "pu_ok uid (activate_profile plan sub) (pu_list now uid (activate_profile plan sub) ps)
     \<longleftrightarrow> pu_ok uid (activate_profile plan sub) ps"
proof (cases "pu_ok uid (activate_profile plan sub) ps")
  case True
  then show ?thesis using pu_list_second(2)[OF True, of now] by simp
next
  case False
  then show ?thesis by (simp add: pu_list_not_ok)
qed

lemma pu_list_same:
  "pu_list now uid (activate_profile plan sub) (pu_list now uid (activate_profile plan sub) ps)
     = pu_list now uid (activate_profile plan sub) ps"
proof (cases "pu_ok uid (activate_profile plan sub) ps")
  case False
  then show ?thesis by (simp add: pu_list_not_ok)
next
  case True
  from True obtain p where Some: "find (\<lambda>p. profile_userId p = uid) ps = Some p"
    by (auto simp: pu_ok_def split: option.splits)
  have "pu_list now uid (activate_profile plan sub) ps
          = map (\<lambda>q. if profile_userId q = uid
                      then (activate_profile plan sub p)\<lparr>profile_updatedAt := now\<rparr> else q) ps"
    using True Some by (auto simp: pu_ok_def pu_list_def Let_def)
  then have s: "\<forall>q\<in>set (pu_list now uid (activate_profile plan sub) ps).
             profile_userId q = uid \<longrightarrow> profile_updatedAt q = now"
    by auto
  have "map (\<lambda>q. if profile_userId q = uid then q\<lparr>profile_updatedAt := now\<rparr> else q) xs = xs"
    if "\<forall>q\<in>set xs. profile_userId q = uid \<longrightarrow> profile_updatedAt q = now" for xs
    using that by (induction xs) auto
  from this[OF s] show ?thesis
    using pu_list_second(1)[OF True, of now now] by simp
qed

lemma status_update_same: "status s = v \<Longrightarrow> s\<lparr>status := v\<rparr> = s"
  by auto

lemma rows_second:
  assumes "\<forall>s\<in>set xs. razorpaySubscriptionId s = Some sid \<longrightarrow> status s = ''active''"
  shows "map (\<lambda>s. if razorpaySubscriptionId s = Some sid
                    then (activate_row e now plan s)\<lparr>updatedAt := now\<rparr> else s) xs
       = map (\<lambda>s. if razorpaySubscriptionId s = Some sid
                    then s\<lparr>startDate := Some now,
                           endDate := Some (calculateEndDate_verify (LocalTZA e) now (Some plan)),
                           updatedAt := now\<rparr>
                    else s) xs"
  using assms by (induction xs) (auto simp: activate_row_def status_update_same)

lemma rows_same:
  assumes "\<forall>s\<in>set xs. razorpaySubscriptionId s = Some sid \<longrightarrow>
             startDate s = Some now \<and>
             endDate s = Some (calculateEndDate_verify (LocalTZA e) now (Some plan)) \<and>
             updatedAt s = now"
  shows "map (\<lambda>s. if razorpaySubscriptionId s = Some sid
                    then s\<lparr>startDate := Some now,
                           endDate := Some (calculateEndDate_verify (LocalTZA e) now (Some plan)),
                           updatedAt := now\<rparr>
                    else s) xs = xs"
  using assms by (induction xs) auto

lemma verify_succeeds_update:
  assumes "subscription_findUnique sid db = Some r" "status r \<noteq> ''cancelled''"
  shows "verify_succeeds e now sid sub db
           \<longleftrightarrow> pu_ok (the (notes_userId sub))
                 (activate_profile (or_default (notes_planType sub) ''month'') sub) (profiles db)"
  using assms
    profile_update_ok_iff[of now "the (notes_userId sub)"
      "activate_profile (or_default (notes_planType sub) ''month'') sub"
      "subscription_updateMany now sid
         (activate_row e now (or_default (notes_planType sub) ''month'')) db"]
  by (simp add: verify_succeeds_def Let_def subscription_upsert_def subscription_update_unique_def
      updateMany_parts)

text \<open>
  The second application, on a store that holds the subscription with every one of
  its rows active.
\<close>

lemma verify_writes_second:
  assumes f1: "subscription_findUnique sid W1 = Some r1"
    and act: "\<forall>s\<in>set (subscriptions W1). razorpaySubscriptionId s = Some sid \<longrightarrow> status s = ''active''"
  shows "subscriptions (verify_writes e now sid sub W1)
           = map (\<lambda>s. if razorpaySubscriptionId s = Some sid
                    then s\<lparr>startDate := Some now,
                           endDate := Some (calculateEndDate_verify (LocalTZA e) now
                                              (Some (or_default (notes_planType sub) ''month''))),
                           updatedAt := now\<rparr>
                    else s) (subscriptions W1)"
    and "profiles (verify_writes e now sid sub W1)
           = pu_list now (the (notes_userId sub))
               (activate_profile (or_default (notes_planType sub) ''month'') sub) (profiles W1)"
    and "next_id (verify_writes e now sid sub W1) = next_id W1"
    and "verify_succeeds e now sid sub W1
           \<longleftrightarrow> pu_ok (the (notes_userId sub))
                 (activate_profile (or_default (notes_planType sub) ''month'') sub) (profiles W1)"
proof -
  have "r1 \<in> set (subscriptions W1) \<and> razorpaySubscriptionId r1 = Some sid"
    using f1 by (auto simp: subscription_findUnique_def find_Some_iff)
  then have "status r1 = ''active''" using act by blast
  then have nc: "status r1 \<noteq> ''cancelled''" by simp
  note W = verify_writes_update[OF f1 nc, of e now sub]
  show "subscriptions (verify_writes e now sid sub W1)
           = map (\<lambda>s. if razorpaySubscriptionId s = Some sid
                    then s\<lparr>startDate := Some now,
                           endDate := Some (calculateEndDate_verify (LocalTZA e) now
                                              (Some (or_default (notes_planType sub) ''month''))),
                           updatedAt := now\<rparr>
                    else s) (subscriptions W1)"
    unfolding W by (simp add: try_profile_update_parts updateMany_rows rows_second[OF act])
  show "profiles (verify_writes e now sid sub W1)
           = pu_list now (the (notes_userId sub))
               (activate_profile (or_default (notes_planType sub) ''month'') sub) (profiles W1)"
    unfolding W by (simp add: try_profile_update_parts updateMany_parts)
  show "next_id (verify_writes e now sid sub W1) = next_id W1"
    unfolding W by (simp add: try_profile_update_parts updateMany_parts)
  show "verify_succeeds e now sid sub W1
           \<longleftrightarrow> pu_ok (the (notes_userId sub))
                 (activate_profile (or_default (notes_planType sub) ''month'') sub) (profiles W1)"
    by (rule verify_succeeds_update[OF f1 nc])
qed

text \<open>
  The first application either writes nothing, now or at any other time; or stores
  a row under an identifier other than the one asked for, after which a later
  application writes nothing; or leaves the subscription stored with every one of
  its rows active and stamped.
\<close>

lemma verify_writes_first:
  fixes e :: env and now1 :: int and sid :: string and sub :: rzp_subscription and db :: store
  defines "plan \<equiv> or_default (notes_planType sub) ''month''"
    and "uid \<equiv> the (notes_userId sub)"
    and "W1 \<equiv> verify_writes e now1 sid sub db"
  obtains (idle) "\<And>t. verify_writes e t sid sub db = db" "\<And>t. \<not> verify_succeeds e t sid sub db"
  | (stray) "rzp_id sub \<noteq> sid" "\<And>t. verify_writes e t sid sub W1 = W1"
      "\<And>t. \<not> verify_succeeds e t sid sub W1" "subscription_findUnique sid W1 = None"
  | (written) r1 where "subscription_findUnique sid W1 = Some r1"
      "\<forall>s\<in>set (subscriptions W1). razorpaySubscriptionId s = Some sid \<longrightarrow>
         status s = ''active'' \<and> startDate s = Some now1 \<and>
         endDate s = Some (calculateEndDate_verify (LocalTZA e) now1 (Some plan)) \<and>
         updatedAt s = now1"
      "profiles W1 = pu_list now1 uid (activate_profile plan sub) (profiles db)"
      "verify_succeeds e now1 sid sub db \<longleftrightarrow> pu_ok uid (activate_profile plan sub) (profiles db)"
proof (cases "subscription_findUnique sid db")
  case (Some r)
  show ?thesis
  proof (cases "status r = ''cancelled''")
    case True
    have "verify_writes e t sid sub db = db" "\<not> verify_succeeds e t sid sub db" for t
      using Some True by (simp_all add: verify_writes_def verify_succeeds_def)
    then show ?thesis by (rule idle)
  next
    case False
    have W1: "W1 = try_profile_update now1 uid (activate_profile plan sub)
                   (subscription_updateMany now1 sid (activate_row e now1 plan) db)"
      unfolding W1_def plan_def uid_def by (rule verify_writes_update[OF Some False])
    have subs1: "subscriptions W1
      = map (\<lambda>s. if razorpaySubscriptionId s = Some sid
                  then (activate_row e now1 plan s)\<lparr>updatedAt := now1\<rparr> else s) (subscriptions db)"
      by (simp add: W1 try_profile_update_parts updateMany_rows)
    have f1: "subscription_findUnique sid W1 = Some ((activate_row e now1 plan r)\<lparr>updatedAt := now1\<rparr>)"
      unfolding subscription_findUnique_def subs1
      using Some[unfolded subscription_findUnique_def]
      by (intro find_map_update[where P = "\<lambda>s. razorpaySubscriptionId s = Some sid"])
         (simp_all add: activate_row_def)
    have st: "\<forall>s\<in>set (subscriptions W1). razorpaySubscriptionId s = Some sid \<longrightarrow>
         status s = ''active'' \<and> startDate s = Some now1 \<and>
         endDate s = Some (calculateEndDate_verify (LocalTZA e) now1 (Some plan)) \<and>
         updatedAt s = now1"
      unfolding subs1 by (auto simp: activate_row_def split: if_splits)
    have pr: "profiles W1 = pu_list now1 uid (activate_profile plan sub) (profiles db)"
      by (simp add: W1 try_profile_update_parts updateMany_parts)
    have ok: "verify_succeeds e now1 sid sub db \<longleftrightarrow> pu_ok uid (activate_profile plan sub) (profiles db)"
      unfolding plan_def uid_def by (rule verify_succeeds_update[OF Some False])
    show ?thesis by (rule written[OF f1 st pr ok])
  qed
next
  case None
  note vc = verify_writes_create[OF None, of e _ sub, folded plan_def uid_def]
  have up: "subscription_upsert t sid f d db = subscription_create t d db" for t f d
    using None by (simp add: subscription_upsert_def)
  show ?thesis
  proof (cases "profile_findUnique db uid = None \<or> subscription_findUnique (rzp_id sub) db \<noteq> None")
    case True
    have fail: "\<exists>err. subscription_create t (activate_data e t plan sub) db = Inl err" for t
      using True by (auto simp: subscription_create_cases activate_data_keys uid_def)
    have "verify_writes e t sid sub db = db" for t
      using fail[of t] by (auto simp: vc)
    moreover have "\<not> verify_succeeds e t sid sub db" for t
      using fail[of t] by (auto simp: verify_succeeds_def Let_def up plan_def[symmetric])
    ultimately show ?thesis by (rule idle)
  next
    case False
    define new1 where "new1 = \<lparr>sub_id = next_id db, userId = uid, planId = plan_id sub,
                    razorpaySubscriptionId = Some (rzp_id sub),
                    razorpayPaymentId = None,
                    status = ''active'', planType = plan,
                    startDate = Some now1,
                    endDate = Some (calculateEndDate_verify (LocalTZA e) now1 (Some plan)),
                    isRecurring = False,
                    createdAt = now1, updatedAt = now1\<rparr>"
    define db1 where "db1 = db\<lparr>subscriptions := subscriptions db @ [new1], next_id := Suc (next_id db)\<rparr>"
    have c1: "subscription_create now1 (activate_data e now1 plan sub) db = Inr db1"
      using False
      by (simp add: subscription_create_cases activate_data_keys uid_def[symmetric])
         (simp add: activate_data_def db1_def new1_def uid_def)
    have W1: "W1 = try_profile_update now1 uid (activate_profile plan sub) db1"
      unfolding W1_def by (simp add: vc c1)
    have subs1: "subscriptions W1 = subscriptions db @ [new1]"
      by (simp add: W1 try_profile_update_parts db1_def)
    have pr: "profiles W1 = pu_list now1 uid (activate_profile plan sub) (profiles db)"
      by (simp add: W1 try_profile_update_parts db1_def)
    have fdb: "find (\<lambda>s. razorpaySubscriptionId s = Some sid) (subscriptions db) = None"
      using None by (simp add: subscription_findUnique_def)
    have ok: "verify_succeeds e now1 sid sub db \<longleftrightarrow> pu_ok uid (activate_profile plan sub) (profiles db)"
      using None profile_update_ok_iff[of now1 uid "activate_profile plan sub" db1]
      by (simp add: verify_succeeds_def Let_def up plan_def[symmetric] uid_def[symmetric] c1 db1_def)
    show ?thesis
    proof (cases "rzp_id sub = sid")
      case True
      have f1: "subscription_findUnique sid W1 = Some new1"
        by (simp add: subscription_findUnique_def subs1 find_append_cases fdb new1_def True)
      have st: "\<forall>s\<in>set (subscriptions W1). razorpaySubscriptionId s = Some sid \<longrightarrow>
         status s = ''active'' \<and> startDate s = Some now1 \<and>
         endDate s = Some (calculateEndDate_verify (LocalTZA e) now1 (Some plan)) \<and>
         updatedAt s = now1"
        using fdb unfolding subs1 by (auto simp: find_None_iff new1_def)
      show ?thesis by (rule written[OF f1 st pr ok])
    next
      case F: False
      have f1: "subscription_findUnique sid W1 = None"
        using F by (simp add: subscription_findUnique_def subs1 find_append_cases fdb new1_def)
      have taken: "subscription_findUnique (rzp_id sub) W1 \<noteq> None"
        by (auto simp: subscription_findUnique_def subs1 find_append_cases new1_def
            split: option.splits)
      have fail: "\<exists>err. subscription_create t (activate_data e t plan sub) W1 = Inl err" for t
        using taken by (auto simp: subscription_create_cases activate_data_keys)
      have a: "verify_writes e t sid sub W1 = W1" for t
        using fail[of t] by (auto simp: verify_writes_create[OF f1, of e _ sub, folded plan_def uid_def])
      have b: "\<not> verify_succeeds e t sid sub W1" for t
        using fail[of t] f1
        by (auto simp: verify_succeeds_def Let_def subscription_upsert_def plan_def[symmetric])
      show ?thesis by (rule stray[OF F a b f1])
    qed
  qed
qed

lemma verify_writes_same_clock:
  "verify_writes e now sid sub (verify_writes e now sid sub db) = verify_writes e now sid sub db"
proof (cases rule: verify_writes_first[where e = e and sid = sid and sub = sub and db = db
      and ?now1.0 = now])
  case idle
  then show ?thesis by simp
next
  case stray
  then show ?thesis by simp
next
  case (written r1)
  define W1 where "W1 = verify_writes e now sid sub db"
  note w = written[folded W1_def]
  have act: "\<forall>s\<in>set (subscriptions W1). razorpaySubscriptionId s = Some sid \<longrightarrow> status s = ''active''"
    using w(2) by blast
  note s = verify_writes_second[OF w(1) act, of e now sub]
  have "verify_writes e now sid sub W1 = W1"
  proof (rule store_eqI)
    show "profiles (verify_writes e now sid sub W1) = profiles W1"
      unfolding s(2) w(3) by (rule pu_list_same)
    show "subscriptions (verify_writes e now sid sub W1) = subscriptions W1"
      unfolding s(1) using w(2) by (intro rows_same) blast
    show "next_id (verify_writes e now sid sub W1) = next_id W1" by (rule s(3))
  qed
  then show ?thesis unfolding W1_def .
qed

lemma verify_writes_restamps:
  assumes ok: "verify_succeeds e now2 sid sub (verify_writes e now1 sid sub db)"
  shows "verify_writes e now2 sid sub (verify_writes e now1 sid sub db)
           = restamped e now2 sid (or_default (notes_planType sub) ''month'')
               (the (notes_userId sub)) (verify_writes e now1 sid sub db)"
proof (cases rule: verify_writes_first[where e = e and sid = sid and sub = sub and db = db
      and ?now1.0 = now1])
  case idle
  then show ?thesis using ok by simp
next
  case stray
  then show ?thesis using ok by simp
next
  case (written r1)
  define W1 where "W1 = verify_writes e now1 sid sub db"
  define plan where "plan = or_default (notes_planType sub) ''month''"
  define uid where "uid = the (notes_userId sub)"
  note w = written[folded W1_def plan_def uid_def]
  have act: "\<forall>s\<in>set (subscriptions W1). razorpaySubscriptionId s = Some sid \<longrightarrow> status s = ''active''"
    using w(2) by blast
  note s = verify_writes_second[OF w(1) act, of e now2 sub, folded plan_def uid_def]
  have "pu_ok uid (activate_profile plan sub) (profiles W1)"
    using ok s(4) by (simp add: W1_def)
  then have pok: "pu_ok uid (activate_profile plan sub) (profiles db)"
    unfolding w(3) pu_ok_pu_list .
  have "verify_writes e now2 sid sub W1 = restamped e now2 sid plan uid W1"
  proof (rule store_eqI)
    show "profiles (verify_writes e now2 sid sub W1) = profiles (restamped e now2 sid plan uid W1)"
      unfolding s(2) w(3) pu_list_second(1)[OF pok] by (simp add: restamped_def w(3))
    show "subscriptions (verify_writes e now2 sid sub W1)
            = subscriptions (restamped e now2 sid plan uid W1)"
      unfolding s(1) by (simp add: restamped_def)
    show "next_id (verify_writes e now2 sid sub W1) = next_id (restamped e now2 sid plan uid W1)"
      unfolding s(3) by (simp add: restamped_def)
  qed
  then show ?thesis unfolding W1_def plan_def uid_def .
qed

lemma verify_succeeds_again:
  assumes ok: "verify_succeeds e now1 sid sub db" and same: "rzp_id sub = sid"
  shows "verify_succeeds e now2 sid sub (verify_writes e now1 sid sub db)"
proof (cases rule: verify_writes_first[where e = e and sid = sid and sub = sub and db = db
      and ?now1.0 = now1])
  case idle
  then show ?thesis using ok by simp
next
  case stray
  then show ?thesis using same by simp
next
  case (written r1)
  define W1 where "W1 = verify_writes e now1 sid sub db"
  define plan where "plan = or_default (notes_planType sub) ''month''"
  define uid where "uid = the (notes_userId sub)"
  note w = written[folded W1_def plan_def uid_def]
  have act: "\<forall>s\<in>set (subscriptions W1). razorpaySubscriptionId s = Some sid \<longrightarrow> status s = ''active''"
    using w(2) by blast
  note s = verify_writes_second[OF w(1) act, of e now2 sub, folded plan_def uid_def]
  have "pu_ok uid (activate_profile plan sub) (profiles db)" using ok w(4) by simp
  then have "pu_ok uid (activate_profile plan sub) (profiles W1)"
    unfolding w(3) pu_ok_pu_list .
  then show ?thesis unfolding W1_def[symmetric] s(4) .
qed

lemma verify_writes_stamped:
  assumes ok: "verify_succeeds e now1 sid sub db"
  shows "\<forall>s\<in>set (subscriptions (verify_writes e now1 sid sub db)).
     razorpaySubscriptionId s = Some sid \<longrightarrow>
       status s = ''active'' \<and> startDate s = Some now1 \<and>
       endDate s = Some (calculateEndDate_verify (LocalTZA e) now1
                           (Some (or_default (notes_planType sub) ''month''))) \<and>
       updatedAt s = now1"
proof (cases rule: verify_writes_first[where e = e and sid = sid and sub = sub and db = db
      and ?now1.0 = now1])
  case idle
  then show ?thesis using ok by simp
next
  case stray
  then show ?thesis by (auto simp: subscription_findUnique_def find_None_iff)
next
  case (written r1)
  then show ?thesis by blast
qed

text \<open>The same facts for the handler of the redirect flow.\<close>

lemma verify_redirect_stamped:
  assumes "subscriptions_fetch rzp sid = Inr (Some sub)"
    and "resp (verify_redirect e rzp now1 sid db)
           = json (VerifySuccess ''Subscription verified and activated'') 200"
  shows "\<forall>s\<in>set (subscriptions (db_after (verify_redirect e rzp now1 sid db))).
     razorpaySubscriptionId s = Some sid \<longrightarrow>
       status s = ''active'' \<and> startDate s = Some now1 \<and>
       endDate s = Some (calculateEndDate_verify (LocalTZA e) now1
                           (Some (or_default (notes_planType sub) ''month''))) \<and>
       updatedAt s = now1"
proof -
  have "verify_acts sub" "verify_succeeds e now1 sid sub db"
    using assms by (simp_all add: verify_redirect_success)
  then show ?thesis
    using verify_writes_stamped[of e now1 sid sub db] assms(1)
    by (simp add: verify_redirect_db)
qed

lemma verify_redirect_same_clock:
  "db_after (verify_redirect e rzp now sid (db_after (verify_redirect e rzp now sid db)))
     = db_after (verify_redirect e rzp now sid db)"
  by (simp add: verify_redirect_db verify_writes_same_clock split: sum.splits option.splits)

lemma verify_redirect_restamps:
  assumes "subscriptions_fetch rzp sid = Inr (Some sub)"
    and "resp (verify_redirect e rzp now2 sid (db_after (verify_redirect e rzp now1 sid db)))
           = json (VerifySuccess ''Subscription verified and activated'') 200"
  shows "db_after (verify_redirect e rzp now2 sid (db_after (verify_redirect e rzp now1 sid db)))
           = restamped e now2 sid (or_default (notes_planType sub) ''month'')
               (the (notes_userId sub)) (db_after (verify_redirect e rzp now1 sid db))"
  using assms
  by (auto simp: verify_redirect_db verify_redirect_success verify_writes_restamps)

lemma verify_redirect_again:
  assumes "subscriptions_fetch rzp sid = Inr (Some sub)" "rzp_id sub = sid"
    and "resp (verify_redirect e rzp now1 sid db)
           = json (VerifySuccess ''Subscription verified and activated'') 200"
  shows "resp (verify_redirect e rzp now2 sid (db_after (verify_redirect e rzp now1 sid db)))
           = json (VerifySuccess ''Subscription verified and activated'') 200"
  using assms
  by (auto simp: verify_redirect_db verify_redirect_success verify_succeeds_again)

section \<open>The claims\<close>

text \<open>
  C9. Profile provisioning is idempotent. For an identity whose first email address is
  not empty, and a Profile table in which the identity key is unique: after two calls
  there is exactly one Profile row for the identity; the second call changes nothing
  and answers ``Profile already exists.'' with status 200; the first call, when the
  identity had no row, appends one row with the subscription-inactive defaults and
  answers ``Profile created successfully.'' with status 201, and otherwise changes
  nothing and answers ``Profile already exists.''.
\<close>

theorem ensureProfile_idempotent:
  assumes mail: "emailAddresses u = a # rest" "a \<noteq> []"
    and uniq: "distinct (map profile_userId (profiles db))"
  shows "(case create_profile_POST now1 (Some u) db of (r1, db1) \<Rightarrow>
          case create_profile_POST now2 (Some u) db1 of (r2, db2) \<Rightarrow>
            db2 = db1 \<and>
            r2 = json (ProfileMessage ''Profile already exists.'') 200 \<and>
            length (filter (\<lambda>p. profile_userId p = clerk_id u) (profiles db2)) = 1 \<and>
            (if profile_findUnique db (clerk_id u) = None
             then r1 = json (ProfileMessage ''Profile created successfully.'') 201 \<and>
                  db1 = db\<lparr>profiles := profiles db @
                            [\<lparr>profile_id = next_id db, profile_userId = clerk_id u, email = a,
                              subscriptionTier = None, subscriptionActive = False,
                              stripeSubscriptionId = None,
                              profile_createdAt = now1, profile_updatedAt = now1\<rparr>],
                            next_id := Suc (next_id db)\<rparr>
             else r1 = json (ProfileMessage ''Profile already exists.'') 200 \<and> db1 = db))"
proof (cases "profile_findUnique db (clerk_id u)")
  case None
  define row where "row = \<lparr>profile_id = next_id db, profile_userId = clerk_id u, email = a,
                              subscriptionTier = None, subscriptionActive = False,
                              stripeSubscriptionId = None,
                              profile_createdAt = now1, profile_updatedAt = now1\<rparr>"
  define db1 where "db1 = db\<lparr>profiles := profiles db @ [row], next_id := Suc (next_id db)\<rparr>"
  have first: "create_profile_POST now1 (Some u) db
                 = (json (ProfileMessage ''Profile created successfully.'') 201, db1)"
    using None mail by (simp add: create_profile_POST_def profile_create_absent db1_def row_def)
  have found: "profile_findUnique db1 (clerk_id u) = Some row"
    using None by (simp add: profile_findUnique_def db1_def find_append_cases row_def)
  have second: "create_profile_POST now2 (Some u) db1
                 = (json (ProfileMessage ''Profile already exists.'') 200, db1)"
    using found mail by (simp add: create_profile_POST_def)
  have one: "length (filter (\<lambda>p. profile_userId p = clerk_id u) (profiles db1)) = 1"
    using count_user_absent[OF None] by (simp add: db1_def row_def)
  show ?thesis using None first second one by (simp add: db1_def row_def)
next
  case (Some p)
  have first: "create_profile_POST now1 (Some u) db
                 = (json (ProfileMessage ''Profile already exists.'') 200, db)"
    using Some mail by (simp add: create_profile_POST_def)
  have second: "create_profile_POST now2 (Some u) db
                 = (json (ProfileMessage ''Profile already exists.'') 200, db)"
    using Some mail by (simp add: create_profile_POST_def)
  show ?thesis using Some first second count_user_present[OF uniq Some] by simp
qed

theorem ensureProfile_idempotent_witness:
  "emailAddresses user_alice = ''alice@example.com'' # [] \<and> ''alice@example.com'' \<noteq> [] \<and>
   distinct (map profile_userId (profiles empty_store)) \<and>
   create_profile_POST 1000 (Some user_alice) empty_store
     = (json (ProfileMessage ''Profile created successfully.'') 201,
        \<lparr>profiles = [\<lparr>profile_id = 0, profile_userId = ''user_1'', email = ''alice@example.com'',
                      subscriptionTier = None, subscriptionActive = False,
                      stripeSubscriptionId = None,
                      profile_createdAt = 1000, profile_updatedAt = 1000\<rparr>],
         subscriptions = [], next_id = 1\<rparr>) \<and>
   create_profile_POST 2000 (Some user_alice) (snd (create_profile_POST 1000 (Some user_alice) empty_store))
     = (json (ProfileMessage ''Profile already exists.'') 200,
        snd (create_profile_POST 1000 (Some user_alice) empty_store))"
proof -
  have m: "emailAddresses user_alice = ''alice@example.com'' # []" "''alice@example.com'' \<noteq> []"
    by (simp_all add: user_alice_def)
  have d: "distinct (map profile_userId (profiles empty_store))" by (simp add: empty_store_def)
  have n: "profile_findUnique empty_store (clerk_id user_alice) = None"
    by (simp add: profile_findUnique_def empty_store_def)
  show ?thesis
    using ensureProfile_idempotent[OF m d, of 1000 2000] m d n
    by (auto simp: empty_store_def user_alice_def split: prod.splits)
qed
text \<open>
  C8. The computed end date. As stated (the end date is the start date plus exactly
  7 days, 1 calendar month or 1 calendar year) the claim fails for the month and
  year plans on days that the target month does not have: on a host keeping UTC,
  from 2025-01-31 the month plan ends on 2025-03-03, which is not one calendar
  month later.
\<close>

theorem calculateEndDate_month_counterexample:
  "calculateEndDate zone_UTC 1738281600000 ''month'' = 1740960000000 \<and>
   \<not> calendar_months_later 1 (LocalTime zone_UTC 1738281600000)
        (LocalTime zone_UTC (calculateEndDate zone_UTC 1738281600000 ''month''))"
  unfolding calendar_months_later_def by code_simp

text \<open>
  C8, as amended. The helper works on the wall clock of the host, whatever its time
  zone \<open>z\<close> is: it reads the start as the local time \<open>LocalTime z now\<close>, moves that
  reading, and returns the instant \<open>UTC z\<close> gives for the moved reading.

  For the week plan the reading is moved by exactly 7 days (7 * 86400000 ms). For
  the month plan and for every plan type other than week and year, it is moved by
  the length of the start's month; the moved reading is the same day and time of
  day one calendar month later exactly when that day exists in the following month
  (always for days 1 to 28), and otherwise lies past the end of the following
  month. For the year plan it is moved by 365 or 366 days; the moved reading is the
  same day and time one calendar year later exactly when that day exists in that
  month of the next year (all days but February 29).

  In elapsed time, the end date is the start plus that many days of 24 hours
  exactly when the offset the host reads for the moved local time is the offset in
  force at the start: always on a host without daylight saving, and not across a
  daylight-saving change, where the end date is an hour nearer or further. The
  helper of the verification route agrees with the shared one after its own
  defaulting of an absent or empty plan type to month.
\<close>

theorem calculateEndDate_calendar:
  "calculateEndDate z now ''week'' = UTC z (LocalTime z now + 7 * msPerDay) \<and>
   (pt \<noteq> ''week'' \<and> pt \<noteq> ''year'' \<longrightarrow>
      calculateEndDate z now pt
        = UTC z (LocalTime z now
                 + DaysInMonth (InLeapYear (LocalTime z now)) (MonthFromTime (LocalTime z now))
                   * msPerDay) \<and>
      (calendar_months_later 1 (LocalTime z now)
         (LocalTime z now
          + DaysInMonth (InLeapYear (LocalTime z now)) (MonthFromTime (LocalTime z now)) * msPerDay)
         \<longleftrightarrow> DateFromTime (LocalTime z now)
               \<le> DaysInMonthOf (YearFromTime (LocalTime z now)) (MonthFromTime (LocalTime z now) + 1)) \<and>
      (DateFromTime (LocalTime z now) \<le> 28 \<longrightarrow>
         calendar_months_later 1 (LocalTime z now)
           (LocalTime z now
            + DaysInMonth (InLeapYear (LocalTime z now)) (MonthFromTime (LocalTime z now))
              * msPerDay))) \<and>
   calculateEndDate z now ''year''
     = UTC z (LocalTime z now
              + (if MonthFromTime (LocalTime z now) < 2 then DaysInYear (YearFromTime (LocalTime z now))
                 else DaysInYear (YearFromTime (LocalTime z now) + 1)) * msPerDay) \<and>
   (calendar_months_later 12 (LocalTime z now)
      (LocalTime z now
       + (if MonthFromTime (LocalTime z now) < 2 then DaysInYear (YearFromTime (LocalTime z now))
          else DaysInYear (YearFromTime (LocalTime z now) + 1)) * msPerDay)
      \<longleftrightarrow> DateFromTime (LocalTime z now)
            \<le> DaysInMonthOf (YearFromTime (LocalTime z now) + 1) (MonthFromTime (LocalTime z now))) \<and>
   (DateFromTime (LocalTime z now) \<le> 28 \<longrightarrow>
      calendar_months_later 12 (LocalTime z now)
        (LocalTime z now
         + (if MonthFromTime (LocalTime z now) < 2 then DaysInYear (YearFromTime (LocalTime z now))
            else DaysInYear (YearFromTime (LocalTime z now) + 1)) * msPerDay)) \<and>
   (UTC z (LocalTime z now + d * msPerDay) = now + d * msPerDay
      \<longleftrightarrow> z (LocalTime z now + d * msPerDay) False = z now True) \<and>
   calculateEndDate_verify z now p = calculateEndDate z now (or_default p ''month'')"
proof -
  define s where "s = LocalTime z now"
  define ml where "ml = DaysInMonth (InLeapYear s) (MonthFromTime s)"
  define yl where "yl = (if MonthFromTime s < 2 then DaysInYear (YearFromTime s)
                         else DaysInYear (YearFromTime s + 1))"
  have week: "calculateEndDate z now ''week'' = UTC z (s + 7 * msPerDay)"
    by (simp add: calculateEndDate_def setDate_plus s_def)
  have ver: "calculateEndDate_verify z now p = calculateEndDate z now (or_default p ''month'')"
    by (simp add: calculateEndDate_verify_def calculateEndDate_def or_default_def Let_def
        split: option.splits)
  have m28: "DateFromTime s \<le> 28 \<Longrightarrow>
      DateFromTime s \<le> DaysInMonthOf (YearFromTime s) (MonthFromTime s + 1)"
    using DaysInMonthOf_ge_28[of "YearFromTime s" "MonthFromTime s + 1"] by linarith
  have y28: "DateFromTime s \<le> 28 \<Longrightarrow>
      DateFromTime s \<le> DaysInMonthOf (YearFromTime s + 1) (MonthFromTime s)"
    using DaysInMonthOf_ge_28[of "YearFromTime s + 1" "MonthFromTime s"] by linarith
  have msum: "pt \<noteq> ''week'' \<Longrightarrow> pt \<noteq> ''year'' \<Longrightarrow>
      calculateEndDate z now pt = UTC z (s + ml * msPerDay)"
    by (simp add: calculateEndDate_default setMonth_plus s_def ml_def)
  have mcal: "calendar_months_later 1 s (s + ml * msPerDay)
         \<longleftrightarrow> DateFromTime s \<le> DaysInMonthOf (YearFromTime s) (MonthFromTime s + 1)"
    unfolding ml_def by (rule next_month_calendar)
  have ysum: "calculateEndDate z now ''year'' = UTC z (s + yl * msPerDay)"
    by (simp add: calculateEndDate_def setFullYear_plus s_def yl_def)
  have ycal: "calendar_months_later 12 s (s + yl * msPerDay)
      \<longleftrightarrow> DateFromTime s \<le> DaysInMonthOf (YearFromTime s + 1) (MonthFromTime s)"
    unfolding yl_def by (rule next_year_calendar)
  have el: "UTC z (s + d * msPerDay) = now + d * msPerDay
      \<longleftrightarrow> z (s + d * msPerDay) False = z now True"
    unfolding s_def by (rule UTC_LocalTime_plus)
  have "calculateEndDate z now ''week'' = UTC z (s + 7 * msPerDay) \<and>
   (pt \<noteq> ''week'' \<and> pt \<noteq> ''year'' \<longrightarrow>
      calculateEndDate z now pt = UTC z (s + ml * msPerDay) \<and>
      (calendar_months_later 1 s (s + ml * msPerDay)
         \<longleftrightarrow> DateFromTime s \<le> DaysInMonthOf (YearFromTime s) (MonthFromTime s + 1)) \<and>
      (DateFromTime s \<le> 28 \<longrightarrow> calendar_months_later 1 s (s + ml * msPerDay))) \<and>
   calculateEndDate z now ''year'' = UTC z (s + yl * msPerDay) \<and>
   (calendar_months_later 12 s (s + yl * msPerDay)
      \<longleftrightarrow> DateFromTime s \<le> DaysInMonthOf (YearFromTime s + 1) (MonthFromTime s)) \<and>
   (DateFromTime s \<le> 28 \<longrightarrow> calendar_months_later 12 s (s + yl * msPerDay)) \<and>
   (UTC z (s + d * msPerDay) = now + d * msPerDay
      \<longleftrightarrow> z (s + d * msPerDay) False = z now True) \<and>
   calculateEndDate_verify z now p = calculateEndDate z now (or_default p ''month'')"
    using week ver m28 y28 msum mcal ysum ycal el by blast
  then show ?thesis unfolding s_def ml_def yl_def .
qed

text \<open>
  A host in New York, at noon on 2025-03-05 (17:00Z), four days before the clocks
  go forward. The week plan ends at noon on 2025-03-12, which is 16:00Z: 7 days
  less one hour after the start. The month plan ends at noon on 2025-04-05 and the
  year plan at noon on 2026-03-05, both one calendar month or year later on the
  wall clock.
\<close>

theorem calculateEndDate_calendar_witness:
  "''month'' \<noteq> ''week'' \<and> ''month'' \<noteq> ''year'' \<and>
   LocalTime zone_New_York 1741194000000 = 1741176000000 \<and>
   DateFromTime 1741176000000 = 5 \<and> MonthFromTime 1741176000000 = 2 \<and>
   calculateEndDate zone_New_York 1741194000000 ''week'' = UTC zone_New_York 1741780800000 \<and>
   UTC zone_New_York 1741780800000 = 1741795200000 \<and>
   zone_New_York 1741780800000 False \<noteq> zone_New_York 1741194000000 True \<and>
   1741795200000 \<noteq> 1741194000000 + 7 * msPerDay \<and>
   calculateEndDate zone_New_York 1741194000000 ''month'' = 1743868800000 \<and>
   calendar_months_later 1 1741176000000 1743854400000 \<and>
   calculateEndDate zone_New_York 1741194000000 ''year'' = 1772730000000 \<and>
   calendar_months_later 12 1741176000000 1772712000000"
proof -
  have ne: "''month'' \<noteq> ''week''" "''month'' \<noteq> ''year''" by simp_all
  have s: "LocalTime zone_New_York 1741194000000 = 1741176000000" by code_simp
  have f: "DateFromTime 1741176000000 = 5" "MonthFromTime 1741176000000 = 2"
    "InLeapYear 1741176000000 = 0" "YearFromTime 1741176000000 = 2025"
    by code_simp+
  have l: "DaysInMonth 0 2 = 31" "DaysInYear 2026 = 365" by code_simp+
  have a: "1741176000000 + 7 * msPerDay = 1741780800000"
    "1741176000000 + 31 * msPerDay = 1743854400000"
    "1741176000000 + 365 * msPerDay = 1772712000000"
    by (simp_all add: msPerDay_def)
  have u: "UTC zone_New_York 1741780800000 = 1741795200000"
    "UTC zone_New_York 1743854400000 = 1743868800000"
    "UTC zone_New_York 1772712000000 = 1772730000000"
    by code_simp+
  have o: "zone_New_York 1741780800000 False \<noteq> zone_New_York 1741194000000 True"
    by (simp add: zone_New_York_def)
  have d: "DateFromTime (LocalTime zone_New_York 1741194000000) \<le> 28"
    unfolding s f by simp
  note T = calculateEndDate_calendar[of zone_New_York 1741194000000 "''month''" 7 None]
  from T have w: "calculateEndDate zone_New_York 1741194000000 ''week''
      = UTC zone_New_York (LocalTime zone_New_York 1741194000000 + 7 * msPerDay)"
    by blast
  from T ne have m: "calculateEndDate zone_New_York 1741194000000 ''month''
      = UTC zone_New_York (LocalTime zone_New_York 1741194000000
          + DaysInMonth (InLeapYear (LocalTime zone_New_York 1741194000000))
              (MonthFromTime (LocalTime zone_New_York 1741194000000)) * msPerDay)"
    by blast
  from T ne d have mc: "calendar_months_later 1 (LocalTime zone_New_York 1741194000000)
      (LocalTime zone_New_York 1741194000000
          + DaysInMonth (InLeapYear (LocalTime zone_New_York 1741194000000))
              (MonthFromTime (LocalTime zone_New_York 1741194000000)) * msPerDay)"
    by blast
  from T have y: "calculateEndDate zone_New_York 1741194000000 ''year''
      = UTC zone_New_York (LocalTime zone_New_York 1741194000000
          + (if MonthFromTime (LocalTime zone_New_York 1741194000000) < 2
             then DaysInYear (YearFromTime (LocalTime zone_New_York 1741194000000))
             else DaysInYear (YearFromTime (LocalTime zone_New_York 1741194000000) + 1)) * msPerDay)"
    by blast
  from T d have yc: "calendar_months_later 12 (LocalTime zone_New_York 1741194000000)
      (LocalTime zone_New_York 1741194000000
          + (if MonthFromTime (LocalTime zone_New_York 1741194000000) < 2
             then DaysInYear (YearFromTime (LocalTime zone_New_York 1741194000000))
             else DaysInYear (YearFromTime (LocalTime zone_New_York 1741194000000) + 1)) * msPerDay)"
    by blast
  from T have el: "UTC zone_New_York (LocalTime zone_New_York 1741194000000 + 7 * msPerDay)
        = 1741194000000 + 7 * msPerDay
      \<longleftrightarrow> zone_New_York (LocalTime zone_New_York 1741194000000 + 7 * msPerDay) False
            = zone_New_York 1741194000000 True"
    by blast
  have w': "calculateEndDate zone_New_York 1741194000000 ''week'' = UTC zone_New_York 1741780800000"
    using w unfolding s a .
  have neq: "1741795200000 \<noteq> 1741194000000 + 7 * msPerDay"
    using el o unfolding s a u by simp
  have m': "calculateEndDate zone_New_York 1741194000000 ''month'' = 1743868800000"
    using m unfolding s f l a u .
  have mc': "calendar_months_later 1 1741176000000 1743854400000"
    using mc unfolding s f l a .
  have y': "calculateEndDate zone_New_York 1741194000000 ''year'' = 1772730000000"
    using y unfolding s f by (simp add: l a u)
  have yc': "calendar_months_later 12 1741176000000 1772712000000"
    using yc unfolding s f by (simp add: l a)
  show ?thesis
    using ne s f(1,2) w' u(1) o neq m' mc' y' yc' by blast
qed

text \<open>
  C3. The status query, for a request that names a user. It answers with status 200
  and never with the error body, by this precedence. (1) If the user has a row with
  status active or completed and an end date not before now, the newest such row is
  reported as active, with its tier, external reference and end date; nothing is
  written. (2) Otherwise, if the user has no row with status created, authenticated
  or pending, the answer is inactive; in particular for a user with no rows. (3)
  Otherwise the newest such row is re-fetched from the provider. When the provider
  reports active or completed (and the user's Profile exists), the row becomes
  active with start date now and the computed end date, the Profile becomes active
  with the row's tier, and the answer is active. When the provider reports created,
  authenticated or pending, the answer is pending with the row's external reference
  and nothing is written. When it reports anything else, the row takes the
  provider's status and the answer is inactive. When the fetch throws or yields
  nothing, nothing is written and the answer is inactive.
\<close>

theorem getStatus_precedence:
  assumes uid: "uid \<noteq> []"
  shows
   "(subscription_findFirst_desc (is_active_row uid now) db = Some a \<longrightarrow>
       check_subscription_GET e rzp now (Some uid) db
         = outcome (json (StatusActive (planType a) (razorpaySubscriptionId a) (endDate a) False) 200) db []
       \<and> a \<in> set (subscriptions db) \<and> is_active_row uid now a
       \<and> (\<forall>s\<in>set (subscriptions db). is_active_row uid now s \<longrightarrow> createdAt s \<le> createdAt a)) \<and>
    (subscription_findFirst_desc (is_active_row uid now) db = None
       \<longleftrightarrow> (\<forall>s\<in>set (subscriptions db). \<not> is_active_row uid now s)) \<and>
    (subscription_findFirst_desc (is_pending_row uid) db = None
       \<longleftrightarrow> (\<forall>s\<in>set (subscriptions db). \<not> is_pending_row uid s)) \<and>
    (subscription_findFirst_desc (is_active_row uid now) db = None \<and>
     subscription_findFirst_desc (is_pending_row uid) db = None \<longrightarrow>
       check_subscription_GET e rzp now (Some uid) db = outcome (json StatusInactive 200) db []) \<and>
    (subscription_findFirst_desc (is_active_row uid now) db = None \<and>
     subscription_findFirst_desc (is_pending_row uid) db = Some p \<longrightarrow>
       p \<in> set (subscriptions db) \<and> is_pending_row uid p \<and>
       (\<forall>s\<in>set (subscriptions db). is_pending_row uid s \<longrightarrow> createdAt s \<le> createdAt p) \<and>
       (subscriptions_fetch rzp (or_default (razorpaySubscriptionId p) []) = Inr (Some r) \<and>
        (rzp_status r = ''active'' \<or> rzp_status r = ''completed'') \<and>
        profile_findUnique db uid = Some pr \<longrightarrow>
          check_subscription_GET e rzp now (Some uid) db
            = outcome (json (StatusActive (planType p) (razorpaySubscriptionId p) None
                               (isRecurring p)) 200)
                (promoted e now uid p pr db) [Fetch (or_default (razorpaySubscriptionId p) [])]) \<and>
       (subscriptions_fetch rzp (or_default (razorpaySubscriptionId p) []) = Inr (Some r) \<and>
        rzp_status r \<in> set pending_family \<longrightarrow>
          check_subscription_GET e rzp now (Some uid) db
            = outcome (json (StatusPending (razorpaySubscriptionId p) (planType p)) 200) db
                [Fetch (or_default (razorpaySubscriptionId p) [])]) \<and>
       (subscriptions_fetch rzp (or_default (razorpaySubscriptionId p) []) = Inr (Some r) \<and>
        rzp_status r \<noteq> ''active'' \<and> rzp_status r \<noteq> ''completed'' \<and>
        rzp_status r \<notin> set pending_family \<longrightarrow>
          check_subscription_GET e rzp now (Some uid) db
            = outcome (json StatusInactive 200)
                (db\<lparr>subscriptions :=
                      map (\<lambda>s. if sub_id s = sub_id p
                                then s\<lparr>status := rzp_status r, updatedAt := now\<rparr> else s)
                          (subscriptions db)\<rparr>)
                [Fetch (or_default (razorpaySubscriptionId p) [])]) \<and>
       (subscriptions_fetch rzp (or_default (razorpaySubscriptionId p) []) = Inl err \<or>
        subscriptions_fetch rzp (or_default (razorpaySubscriptionId p) []) = Inr None \<longrightarrow>
          check_subscription_GET e rzp now (Some uid) db
            = outcome (json StatusInactive 200) db
                [Fetch (or_default (razorpaySubscriptionId p) [])])) \<and>
    http_status (resp (check_subscription_GET e rzp now (Some uid) db)) = 200 \<and>
    body (resp (check_subscription_GET e rzp now (Some uid) db)) \<noteq> StatusError m"
proof -
  let ?A = "subscription_findFirst_desc (is_active_row uid now) db"
  let ?P = "subscription_findFirst_desc (is_pending_row uid) db"
  have c1: "?A = Some a \<Longrightarrow>
       check_subscription_GET e rzp now (Some uid) db
         = outcome (json (StatusActive (planType a) (razorpaySubscriptionId a) (endDate a) False) 200) db []"
    using check_subscription_active[OF uid] by simp
  have c1': "?A = Some a \<Longrightarrow> a \<in> set (subscriptions db) \<and> is_active_row uid now a
       \<and> (\<forall>s\<in>set (subscriptions db). is_active_row uid now s \<longrightarrow> createdAt s \<le> createdAt a)"
    by (rule findFirst_desc_Some)
  have c2: "?A = None \<and> ?P = None \<Longrightarrow>
       check_subscription_GET e rzp now (Some uid) db = outcome (json StatusInactive 200) db []"
    using check_subscription_none[OF uid] by simp
  have c3: "?P = Some p \<Longrightarrow> p \<in> set (subscriptions db) \<and> is_pending_row uid p \<and>
       (\<forall>s\<in>set (subscriptions db). is_pending_row uid s \<longrightarrow> createdAt s \<le> createdAt p)"
    by (rule findFirst_desc_Some)
  have c4: "?A = None \<Longrightarrow> ?P = Some p \<Longrightarrow>
        subscriptions_fetch rzp (or_default (razorpaySubscriptionId p) []) = Inr (Some r) \<Longrightarrow>
        (rzp_status r = ''active'' \<or> rzp_status r = ''completed'') \<Longrightarrow>
        profile_findUnique db uid = Some pr \<Longrightarrow>
          check_subscription_GET e rzp now (Some uid) db
            = outcome (json (StatusActive (planType p) (razorpaySubscriptionId p) None
                               (isRecurring p)) 200)
                (promoted e now uid p pr db) [Fetch (or_default (razorpaySubscriptionId p) [])]"
    using c3 by (simp add: check_subscription_pending_row[OF uid] check_pending_promote)
  have c5: "?A = None \<Longrightarrow> ?P = Some p \<Longrightarrow>
        subscriptions_fetch rzp (or_default (razorpaySubscriptionId p) []) = Inr (Some r) \<Longrightarrow>
        rzp_status r \<in> set pending_family \<Longrightarrow>
          check_subscription_GET e rzp now (Some uid) db
            = outcome (json (StatusPending (razorpaySubscriptionId p) (planType p)) 200) db
                [Fetch (or_default (razorpaySubscriptionId p) [])]"
    by (simp add: check_subscription_pending_row[OF uid] check_pending_pending)
  have c6: "?A = None \<Longrightarrow> ?P = Some p \<Longrightarrow>
        subscriptions_fetch rzp (or_default (razorpaySubscriptionId p) []) = Inr (Some r) \<Longrightarrow>
        rzp_status r \<noteq> ''active'' \<Longrightarrow> rzp_status r \<noteq> ''completed'' \<Longrightarrow>
        rzp_status r \<notin> set pending_family \<Longrightarrow>
          check_subscription_GET e rzp now (Some uid) db
            = outcome (json StatusInactive 200)
                (db\<lparr>subscriptions :=
                      map (\<lambda>s. if sub_id s = sub_id p
                                then s\<lparr>status := rzp_status r, updatedAt := now\<rparr> else s)
                          (subscriptions db)\<rparr>)
                [Fetch (or_default (razorpaySubscriptionId p) [])]"
    using c3 by (simp add: check_subscription_pending_row[OF uid] check_pending_other)
  have c7: "?A = None \<Longrightarrow> ?P = Some p \<Longrightarrow>
        subscriptions_fetch rzp (or_default (razorpaySubscriptionId p) []) = Inl err \<or>
        subscriptions_fetch rzp (or_default (razorpaySubscriptionId p) []) = Inr None \<Longrightarrow>
          check_subscription_GET e rzp now (Some uid) db
            = outcome (json StatusInactive 200) db
                [Fetch (or_default (razorpaySubscriptionId p) [])]"
    by (auto simp add: check_subscription_pending_row[OF uid] check_pending_def Let_def)
  have c8: "http_status (resp (check_subscription_GET e rzp now (Some uid) db)) = 200 \<and>
    body (resp (check_subscription_GET e rzp now (Some uid) db)) \<noteq> StatusError m"
    using check_subscription_shapes[OF uid] by simp
  show ?thesis
    using c1 c1' c2 c3 c4 c5 c6 c7 c8
      findFirst_desc_None[of "is_active_row uid now" db] findFirst_desc_None[of "is_pending_row uid" db]
    by blast
qed

theorem getStatus_precedence_witness:
  "''user_1'' \<noteq> [] \<and>
   check_subscription_GET env0 rzp_down 5000 (Some ''user_1'') (store_alice ''active'' (Some 9000))
     = outcome (json (StatusActive ''month'' (Some ''sub_1'') (Some 9000) False) 200)
         (store_alice ''active'' (Some 9000)) [] \<and>
   check_subscription_GET env0 rzp_down 5000 (Some ''user_1'') empty_store
     = outcome (json StatusInactive 200) empty_store [] \<and>
   check_subscription_GET env0 (rzp_reports ''active'') 1736942400000 (Some ''user_1'')
       (store_alice ''pending'' None)
     = outcome (json (StatusActive ''month'' (Some ''sub_1'') None False) 200)
         \<lparr>profiles = [profile_alice\<lparr>subscriptionActive := True, subscriptionTier := Some ''month'',
                                    profile_updatedAt := 1736942400000\<rparr>],
          subscriptions = [(row_alice ''active'' (Some 1739620800000))
                             \<lparr>startDate := Some 1736942400000, updatedAt := 1736942400000\<rparr>],
          next_id = 2\<rparr>
         [Fetch ''sub_1''] \<and>
   check_subscription_GET env0 (rzp_reports ''authenticated'') 5000 (Some ''user_1'')
       (store_alice ''pending'' None)
     = outcome (json (StatusPending (Some ''sub_1'') ''month'') 200) (store_alice ''pending'' None)
         [Fetch ''sub_1''] \<and>
   check_subscription_GET env0 (rzp_reports ''expired'') 5000 (Some ''user_1'')
       (store_alice ''pending'' None)
     = outcome (json StatusInactive 200)
         \<lparr>profiles = [profile_alice],
          subscriptions = [(row_alice ''expired'' None)\<lparr>updatedAt := 5000\<rparr>], next_id = 2\<rparr>
         [Fetch ''sub_1''] \<and>
   check_subscription_GET env0 rzp_down 5000 (Some ''user_1'') (store_alice ''pending'' None)
     = outcome (json StatusInactive 200) (store_alice ''pending'' None) [Fetch ''sub_1'']"
proof -
  have u: "''user_1'' \<noteq> []" by simp
  have A1: "subscription_findFirst_desc (is_active_row ''user_1'' 5000) (store_alice ''active'' (Some 9000))
              = Some (row_alice ''active'' (Some 9000))"
    by (simp add: subscription_findFirst_desc_def is_active_row_def store_alice_def row_alice_def
        end_not_before_def)
  have A0: "subscription_findFirst_desc (is_active_row ''user_1'' 5000) empty_store = None"
       "subscription_findFirst_desc (is_pending_row ''user_1'') empty_store = None"
    by (simp_all add: subscription_findFirst_desc_def empty_store_def)
  have AP: "subscription_findFirst_desc (is_active_row ''user_1'' t) (store_alice ''pending'' None) = None"
       "subscription_findFirst_desc (is_pending_row ''user_1'') (store_alice ''pending'' None)
          = Some (row_alice ''pending'' None)" for t
    by (simp_all add: subscription_findFirst_desc_def is_active_row_def is_pending_row_def
        store_alice_def row_alice_def end_not_before_def pending_family_def)
  have rid: "or_default (razorpaySubscriptionId (row_alice ''pending'' None)) [] = ''sub_1''"
    by (simp add: or_default_def row_alice_def)
  have F: "subscriptions_fetch (rzp_reports st)
             (or_default (razorpaySubscriptionId (row_alice ''pending'' None)) [])
           = Inr (Some (rzp_sub ''sub_1'' st))" for st
    by (simp add: rzp_reports_def rid)
  have FD: "subscriptions_fetch rzp_down
              (or_default (razorpaySubscriptionId (row_alice ''pending'' None)) [])
            = Inl (Error ''ECONNRESET'')"
    by (simp add: rzp_down_def)
  have st_active: "rzp_status (rzp_sub ''sub_1'' ''active'') = ''active''
                   \<or> rzp_status (rzp_sub ''sub_1'' ''active'') = ''completed''"
    by (simp add: rzp_sub_def)
  have st_auth: "rzp_status (rzp_sub ''sub_1'' ''authenticated'') \<in> set pending_family"
    by (simp add: rzp_sub_def pending_family_def)
  have st_exp: "rzp_status (rzp_sub ''sub_1'' ''expired'') \<noteq> ''active''"
    "rzp_status (rzp_sub ''sub_1'' ''expired'') \<noteq> ''completed''"
    "rzp_status (rzp_sub ''sub_1'' ''expired'') \<notin> set pending_family"
    by (simp_all add: rzp_sub_def pending_family_def)
  have PR: "profile_findUnique (store_alice ''pending'' None) ''user_1'' = Some profile_alice"
    by (simp add: profile_findUnique_def store_alice_def profile_alice_def)
  have flds: "planType (row_alice x y) = ''month''" "razorpaySubscriptionId (row_alice x y) = Some ''sub_1''"
    "endDate (row_alice x y) = y" "isRecurring (row_alice x y) = False" "sub_id (row_alice x y) = 1" for x y
    by (simp_all add: row_alice_def)
  from getStatus_precedence[OF u, of 5000 "store_alice ''active'' (Some 9000)"
        "row_alice ''active'' (Some 9000)" env0 rzp_down] A1
  have "check_subscription_GET env0 rzp_down 5000 (Some ''user_1'') (store_alice ''active'' (Some 9000))
     = outcome (json (StatusActive (planType (row_alice ''active'' (Some 9000)))
                        (razorpaySubscriptionId (row_alice ''active'' (Some 9000)))
                        (endDate (row_alice ''active'' (Some 9000))) False) 200)
         (store_alice ''active'' (Some 9000)) []"
    by blast
  then have w1: "check_subscription_GET env0 rzp_down 5000 (Some ''user_1'') (store_alice ''active'' (Some 9000))
     = outcome (json (StatusActive ''month'' (Some ''sub_1'') (Some 9000) False) 200)
         (store_alice ''active'' (Some 9000)) []"
    by (simp only: flds)
  have w2: "check_subscription_GET env0 rzp_down 5000 (Some ''user_1'') empty_store
     = outcome (json StatusInactive 200) empty_store []"
    using getStatus_precedence[OF u, of 5000 empty_store _ env0 rzp_down] A0 by blast
  have prom: "promoted env0 1736942400000 ''user_1'' (row_alice ''pending'' None) profile_alice
                (store_alice ''pending'' None)
      = \<lparr>profiles = [profile_alice\<lparr>subscriptionActive := True, subscriptionTier := Some ''month'',
                                    profile_updatedAt := 1736942400000\<rparr>],
          subscriptions = [(row_alice ''active'' (Some 1739620800000))
                             \<lparr>startDate := Some 1736942400000, updatedAt := 1736942400000\<rparr>],
          next_id = 2\<rparr>"
    by (simp add: promoted_def store_alice_def row_alice_def profile_alice_def env0_def
        calc_month_example)
  from getStatus_precedence[OF u, of 1736942400000 "store_alice ''pending'' None" _
        env0 "rzp_reports ''active''" "row_alice ''pending'' None" "rzp_sub ''sub_1'' ''active''"
        profile_alice] AP F[of "''active''"] PR st_active
  have "check_subscription_GET env0 (rzp_reports ''active'') 1736942400000 (Some ''user_1'')
       (store_alice ''pending'' None)
     = outcome (json (StatusActive (planType (row_alice ''pending'' None))
                        (razorpaySubscriptionId (row_alice ''pending'' None)) None
                        (isRecurring (row_alice ''pending'' None))) 200)
         (promoted env0 1736942400000 ''user_1'' (row_alice ''pending'' None) profile_alice
                (store_alice ''pending'' None))
         [Fetch (or_default (razorpaySubscriptionId (row_alice ''pending'' None)) [])]"
    by blast
  then have w3: "check_subscription_GET env0 (rzp_reports ''active'') 1736942400000 (Some ''user_1'')
       (store_alice ''pending'' None)
     = outcome (json (StatusActive ''month'' (Some ''sub_1'') None False) 200)
         (promoted env0 1736942400000 ''user_1'' (row_alice ''pending'' None) profile_alice
                (store_alice ''pending'' None))
         [Fetch ''sub_1'']"
    by (simp add: flds or_default_def)
  from getStatus_precedence[OF u, of 5000 "store_alice ''pending'' None" _
        env0 "rzp_reports ''authenticated''" "row_alice ''pending'' None"
        "rzp_sub ''sub_1'' ''authenticated''"] AP F[of "''authenticated''"] st_auth
  have "check_subscription_GET env0 (rzp_reports ''authenticated'') 5000 (Some ''user_1'')
       (store_alice ''pending'' None)
     = outcome (json (StatusPending (razorpaySubscriptionId (row_alice ''pending'' None))
                        (planType (row_alice ''pending'' None))) 200) (store_alice ''pending'' None)
         [Fetch (or_default (razorpaySubscriptionId (row_alice ''pending'' None)) [])]"
    by blast
  then have w4: "check_subscription_GET env0 (rzp_reports ''authenticated'') 5000 (Some ''user_1'')
       (store_alice ''pending'' None)
     = outcome (json (StatusPending (Some ''sub_1'') ''month'') 200) (store_alice ''pending'' None)
         [Fetch ''sub_1'']"
    by (simp add: flds or_default_def)
  have over: "store_alice ''pending'' None
        \<lparr>subscriptions :=
           map (\<lambda>s. if sub_id s = sub_id (row_alice ''pending'' None)
                     then s\<lparr>status := rzp_status (rzp_sub ''sub_1'' ''expired''), updatedAt := 5000\<rparr>
                     else s)
               (subscriptions (store_alice ''pending'' None))\<rparr>
      = \<lparr>profiles = [profile_alice],
          subscriptions = [(row_alice ''expired'' None)\<lparr>updatedAt := 5000\<rparr>], next_id = 2\<rparr>"
    by (simp add: store_alice_def row_alice_def rzp_sub_def)
  from getStatus_precedence[OF u, of 5000 "store_alice ''pending'' None" _
        env0 "rzp_reports ''expired''" "row_alice ''pending'' None"
        "rzp_sub ''sub_1'' ''expired''"] AP F[of "''expired''"] st_exp
  have "check_subscription_GET env0 (rzp_reports ''expired'') 5000 (Some ''user_1'')
       (store_alice ''pending'' None)
     = outcome (json StatusInactive 200)
         (store_alice ''pending'' None
            \<lparr>subscriptions :=
               map (\<lambda>s. if sub_id s = sub_id (row_alice ''pending'' None)
                     then s\<lparr>status := rzp_status (rzp_sub ''sub_1'' ''expired''), updatedAt := 5000\<rparr>
                     else s)
               (subscriptions (store_alice ''pending'' None))\<rparr>)
         [Fetch (or_default (razorpaySubscriptionId (row_alice ''pending'' None)) [])]"
    by blast
  then have w5: "check_subscription_GET env0 (rzp_reports ''expired'') 5000 (Some ''user_1'')
       (store_alice ''pending'' None)
     = outcome (json StatusInactive 200)
         \<lparr>profiles = [profile_alice],
          subscriptions = [(row_alice ''expired'' None)\<lparr>updatedAt := 5000\<rparr>], next_id = 2\<rparr>
         [Fetch ''sub_1'']"
    unfolding over by (simp add: flds or_default_def)
  from getStatus_precedence[OF u, of 5000 "store_alice ''pending'' None" _
        env0 rzp_down "row_alice ''pending'' None" _ _ "Error ''ECONNRESET''"] AP FD
  have "check_subscription_GET env0 rzp_down 5000 (Some ''user_1'') (store_alice ''pending'' None)
     = outcome (json StatusInactive 200) (store_alice ''pending'' None)
         [Fetch (or_default (razorpaySubscriptionId (row_alice ''pending'' None)) [])]"
    by blast
  then have w6: "check_subscription_GET env0 rzp_down 5000 (Some ''user_1'') (store_alice ''pending'' None)
     = outcome (json StatusInactive 200) (store_alice ''pending'' None) [Fetch ''sub_1'']"
    by (simp add: flds or_default_def)
  show ?thesis using u w1 w2 w3 w4 w5 w6 unfolding prom by blast
qed

text \<open>
  C6. A provider fetch that throws during the status query. As stated (the handler
  falls through to return the last known local state) the claim fails: with a local
  row in state pending and the provider down, the answer is the inactive shape, not
  the pending shape of the local row.
\<close>

theorem getStatus_fetch_fails_counterexample:
  "subscription_findFirst_desc (is_pending_row ''user_1'') (store_alice ''pending'' None)
     = Some (row_alice ''pending'' None) \<and>
   subscriptions_fetch rzp_down ''sub_1'' = Inl (Error ''ECONNRESET'') \<and>
   resp (check_subscription_GET env0 rzp_down 5000 (Some ''user_1'') (store_alice ''pending'' None))
     = json StatusInactive 200 \<and>
   resp (check_subscription_GET env0 rzp_down 5000 (Some ''user_1'') (store_alice ''pending'' None))
     \<noteq> json (StatusPending (Some ''sub_1'') ''month'') 200"
  by (simp add: check_subscription_GET_def check_pending_def subscription_findFirst_desc_def
      is_active_row_def is_pending_row_def store_alice_def row_alice_def end_not_before_def
      pending_family_def truthy_def or_default_def rzp_down_def outcome_def json_def Let_def)

text \<open>
  C6, as amended. When the user has no active row, the newest row of the pending
  family is re-fetched and the fetch throws, the error is swallowed: the answer is
  the inactive shape with status 200, not an error response, and the store is left
  exactly as it was.
\<close>

theorem getStatus_fetch_fails:
  assumes "uid \<noteq> []"
    and "subscription_findFirst_desc (is_active_row uid now) db = None"
    and "subscription_findFirst_desc (is_pending_row uid) db = Some p"
    and "subscriptions_fetch rzp (or_default (razorpaySubscriptionId p) []) = Inl err"
  shows "check_subscription_GET e rzp now (Some uid) db
           = outcome (json StatusInactive 200) db [Fetch (or_default (razorpaySubscriptionId p) [])]"
  using assms(4)
  by (simp add: check_subscription_pending_row[OF assms(1-3)] check_pending_throws)

theorem getStatus_fetch_fails_witness:
  "''user_1'' \<noteq> [] \<and>
   subscription_findFirst_desc (is_active_row ''user_1'' 5000) (store_alice ''pending'' None) = None \<and>
   subscription_findFirst_desc (is_pending_row ''user_1'') (store_alice ''pending'' None)
     = Some (row_alice ''pending'' None) \<and>
   subscriptions_fetch rzp_down (or_default (razorpaySubscriptionId (row_alice ''pending'' None)) [])
     = Inl (Error ''ECONNRESET'') \<and>
   check_subscription_GET env0 rzp_down 5000 (Some ''user_1'') (store_alice ''pending'' None)
     = outcome (json StatusInactive 200) (store_alice ''pending'' None) [Fetch ''sub_1'']"
proof -
  have u: "''user_1'' \<noteq> []" by simp
  have a: "subscription_findFirst_desc (is_active_row ''user_1'' 5000) (store_alice ''pending'' None) = None"
    by (simp add: subscription_findFirst_desc_def is_active_row_def store_alice_def row_alice_def
        end_not_before_def)
  have p: "subscription_findFirst_desc (is_pending_row ''user_1'') (store_alice ''pending'' None)
     = Some (row_alice ''pending'' None)"
    by (simp add: subscription_findFirst_desc_def is_pending_row_def store_alice_def row_alice_def
        pending_family_def)
  have f: "subscriptions_fetch rzp_down (or_default (razorpaySubscriptionId (row_alice ''pending'' None)) [])
     = Inl (Error ''ECONNRESET'')"
    by (simp add: rzp_down_def)
  have r: "or_default (razorpaySubscriptionId (row_alice ''pending'' None)) [] = ''sub_1''"
    by (simp add: or_default_def row_alice_def)
  show ?thesis
    using getStatus_fetch_fails[OF u a p f, of env0] u a p f unfolding r by simp
qed


text \<open>
  C1. Cancelling a subscription that the provider reports as completed. The claim
  (local status cancelled, Profile unchanged, access kept until the end date) is
  what the handler announces and what its sibling branch does, but not what the
  completed branch does. With Alice subscribed and the provider reporting
  completed, the handler answers ``Subscription is completed. Your access will
  remain until the end date.'' and has set the Profile inactive, with tier and
  external reference cleared. When instead the provider's cancel call throws with
  a message containing ``completed'', the same answer is given and the Profile is
  left as it was.
\<close>

theorem cancel_completed_revokes_access:
  "cancel_subscription_POST (rzp_reports ''completed'') 5000 cancel_alice store_subscribed
     = outcome (json (CancelSuccess ''Subscription is completed. Your access will remain until the end date.'') 200)
         \<lparr>profiles = [profile_alice\<lparr>profile_updatedAt := 5000\<rparr>],
          subscriptions = [(row_alice ''cancelled'' (Some 9000000))\<lparr>updatedAt := 5000\<rparr>],
          next_id = 2\<rparr>
         [Fetch ''sub_1''] \<and>
   map subscriptionActive (profiles store_subscribed) = [True] \<and>
   map subscriptionActive
     (profiles (db_after (cancel_subscription_POST (rzp_reports ''completed'') 5000 cancel_alice
                            store_subscribed))) = [False] \<and>
   cancel_subscription_POST rzp_finalized 5000 cancel_alice store_subscribed
     = outcome (json (CancelSuccess ''Subscription is completed. Your access will remain until the end date.'') 200)
         \<lparr>profiles = [profile_alice_active],
          subscriptions = [(row_alice ''cancelled'' (Some 9000000))\<lparr>updatedAt := 5000\<rparr>],
          next_id = 2\<rparr>
         [Fetch ''sub_1'', Cancel ''sub_1'']"
proof -
  have req: "truthy (cr_subscriptionId cancel_alice)" "truthy (cr_userId cancel_alice)"
    "the (cr_subscriptionId cancel_alice) = ''sub_1''" "the (cr_userId cancel_alice) = ''user_1''"
    by (simp_all add: cancel_alice_def truthy_def)
  have first: "cancel_check_completed (rzp_reports ''completed'') 5000 ''sub_1'' ''user_1''
                 (row_alice ''active'' (Some 9000000)) store_subscribed
      = Inr (json (CancelSuccess completed_message) 200,
             \<lparr>profiles = [profile_alice\<lparr>profile_updatedAt := 5000\<rparr>],
              subscriptions = [(row_alice ''cancelled'' (Some 9000000))\<lparr>updatedAt := 5000\<rparr>],
              next_id = 2\<rparr>)"
    by (simp add: cancel_check_completed_def rzp_reports_def rzp_sub_def subscription_update_def
        profile_update_def profile_findUnique_def deactivate_def store_subscribed_def row_alice_def
        profile_alice_active_def profile_alice_def Let_def)
  have c1: "cancel_subscription_POST (rzp_reports ''completed'') 5000 cancel_alice store_subscribed
     = outcome (json (CancelSuccess completed_message) 200)
         \<lparr>profiles = [profile_alice\<lparr>profile_updatedAt := 5000\<rparr>],
          subscriptions = [(row_alice ''cancelled'' (Some 9000000))\<lparr>updatedAt := 5000\<rparr>],
          next_id = 2\<rparr>
         [Fetch ''sub_1'']"
    by (simp add: cancel_subscription_POST_def req found_alice first Let_def)
  have second: "cancel_check_completed rzp_finalized 5000 ''sub_1'' ''user_1''
                 (row_alice ''active'' (Some 9000000)) store_subscribed = Inl store_subscribed"
    by (simp add: cancel_check_completed_def rzp_finalized_def rzp_sub_def)
  have inc: "string_includes ''Subscription cannot be cancelled: it is completed'' ''completed''"
    by simp
  have third: "cancel_at_provider rzp_finalized 5000 ''sub_1'' ''user_1''
                 (row_alice ''active'' (Some 9000000)) store_subscribed
      = (json (CancelSuccess completed_message) 200,
         \<lparr>profiles = [profile_alice_active],
          subscriptions = [(row_alice ''cancelled'' (Some 9000000))\<lparr>updatedAt := 5000\<rparr>],
          next_id = 2\<rparr>)"
    by (simp add: cancel_at_provider_def cancel_catch_def rzp_finalized_def inc
        subscription_update_def store_subscribed_def row_alice_def del: string_includes.simps)
  have c2: "cancel_subscription_POST rzp_finalized 5000 cancel_alice store_subscribed
     = outcome (json (CancelSuccess completed_message) 200)
         \<lparr>profiles = [profile_alice_active],
          subscriptions = [(row_alice ''cancelled'' (Some 9000000))\<lparr>updatedAt := 5000\<rparr>],
          next_id = 2\<rparr>
         [Fetch ''sub_1'', Cancel ''sub_1'']"
    by (simp add: cancel_subscription_POST_def req found_alice second third Let_def)
  have a0: "map subscriptionActive (profiles store_subscribed) = [True]"
    by (simp add: store_subscribed_def profile_alice_active_def)
  have a1: "map subscriptionActive
     (profiles (db_after (cancel_subscription_POST (rzp_reports ''completed'') 5000 cancel_alice
                            store_subscribed))) = [False]"
    by (simp add: c1 outcome_def profile_alice_def)
  show ?thesis using c1 c2 a0 a1 by (simp add: completed_message_def)
qed

theorem cancel_completed_revokes_access_witness:
  "truthy (cr_subscriptionId cancel_alice) \<and> truthy (cr_userId cancel_alice) \<and>
   subscriptions_fetch (rzp_reports ''completed'') ''sub_1'' = Inr (Some (rzp_sub ''sub_1'' ''completed'')) \<and>
   map subscriptionActive
     (profiles (db_after (cancel_subscription_POST (rzp_reports ''completed'') 5000 cancel_alice
                            store_subscribed))) = [False] \<and>
   map subscriptionActive
     (profiles (db_after (cancel_subscription_POST rzp_finalized 5000 cancel_alice
                            store_subscribed))) = [True]"
proof -
  have g: "truthy (cr_subscriptionId cancel_alice)" "truthy (cr_userId cancel_alice)"
    "subscriptions_fetch (rzp_reports ''completed'') ''sub_1'' = Inr (Some (rzp_sub ''sub_1'' ''completed''))"
    by (simp_all add: cancel_alice_def truthy_def rzp_reports_def)
  have a: "map subscriptionActive
     (profiles (db_after (cancel_subscription_POST (rzp_reports ''completed'') 5000 cancel_alice
                            store_subscribed))) = [False]"
    using cancel_completed_revokes_access by blast
  have "cancel_subscription_POST rzp_finalized 5000 cancel_alice store_subscribed
     = outcome (json (CancelSuccess ''Subscription is completed. Your access will remain until the end date.'') 200)
         \<lparr>profiles = [profile_alice_active],
          subscriptions = [(row_alice ''cancelled'' (Some 9000000))\<lparr>updatedAt := 5000\<rparr>],
          next_id = 2\<rparr>
         [Fetch ''sub_1'', Cancel ''sub_1'']"
    using cancel_completed_revokes_access by blast
  then have b: "map subscriptionActive
     (profiles (db_after (cancel_subscription_POST rzp_finalized 5000 cancel_alice
                            store_subscribed))) = [True]"
    by (simp add: outcome_def profile_alice_active_def)
  show ?thesis using g a b by blast
qed

text \<open>
  C2. Rejection of a wrong signature. As stated (both handlers reject with the
  unauthorized status) the claim fails for the verification route: a forged
  signature is answered with status 400, not 401.
\<close>

theorem webhook_signature_counterexample:
  "Some (createHmac env0 (or_default (RAZORPAY_KEY_SECRET env0) [])
           (String_of (razorpay_payment_id forged_verify) @ ''|''
              @ String_of (razorpay_subscription_id forged_verify)))
     \<noteq> razorpay_signature forged_verify \<and>
   http_status (resp (verify_payment_POST env0 (rzp_reports ''active'') 5000 forged_verify
                        (store_alice ''created'' None))) = 400 \<and>
   http_status (resp (verify_payment_POST env0 (rzp_reports ''active'') 5000 forged_verify
                        (store_alice ''created'' None))) \<noteq> 401"
  by (simp add: verify_payment_POST_def verify_signature_def forged_verify_def env0_def
      or_default_def String_of_def truthy_def outcome_def json_def Let_def)

text \<open>
  C2, as amended. The webhook receiver, in both of its copies, computes the keyed
  digest of the raw body under the webhook secret and, when it differs from the
  signature header, answers
  ``Invalid signature'' with status 401 and leaves the store unchanged, whatever
  parsing the body would have given. The verification route checks a signature only
  when the parsed body has neither sessionId nor subscriptionId; it then computes
  the keyed digest of \<open>payment_id|subscription_id\<close> under the key secret and,
  when it differs from the signature field of the body, answers ``Invalid
  signature'' with status 400, calls no provider and leaves the store unchanged.
\<close>

theorem webhook_signature_rejected:
  "(createHmac e (or_default (RAZORPAY_WEBHOOK_SECRET e) []) raw \<noteq> or_default signature_header []
      \<longrightarrow> razorpay_webhook_POST e parse now raw signature_header db
            = (json (WebhookError ''Invalid signature'') 401, db) \<and>
          razorpay_webhook_POST_2 e parse now raw signature_header db
            = (json (WebhookError ''Invalid signature'') 401, db)) \<and>
   (\<not> truthy (vr_sessionId req) \<and> \<not> truthy (vr_subscriptionId req) \<and>
    Some (createHmac e (or_default (RAZORPAY_KEY_SECRET e) [])
            (String_of (razorpay_payment_id req) @ ''|'' @ String_of (razorpay_subscription_id req)))
      \<noteq> razorpay_signature req
      \<longrightarrow> verify_payment_POST e rzp now req db
            = outcome (json (VerifyError ''Invalid signature'') 400) db [])"
  by (simp add: razorpay_webhook_POST_def razorpay_webhook_POST_2_def verify_payment_POST_def
      verify_signature_def Let_def)

theorem webhook_signature_rejected_witness:
  "createHmac env0 (or_default (RAZORPAY_WEBHOOK_SECRET env0) []) ''{}'' \<noteq> or_default (Some ''forged'') [] \<and>
   razorpay_webhook_POST env0 (\<lambda>raw. Inl (Error ''unexpected token'')) 5000 ''{}'' (Some ''forged'')
       (store_alice ''created'' None)
     = (json (WebhookError ''Invalid signature'') 401, store_alice ''created'' None) \<and>
   razorpay_webhook_POST_2 env0 (\<lambda>raw. Inl (Error ''unexpected token'')) 5000 ''{}'' (Some ''forged'')
       (store_alice ''created'' None)
     = (json (WebhookError ''Invalid signature'') 401, store_alice ''created'' None) \<and>
   \<not> truthy (vr_sessionId forged_verify) \<and> \<not> truthy (vr_subscriptionId forged_verify) \<and>
   Some (createHmac env0 (or_default (RAZORPAY_KEY_SECRET env0) [])
           (String_of (razorpay_payment_id forged_verify) @ ''|''
              @ String_of (razorpay_subscription_id forged_verify)))
     \<noteq> razorpay_signature forged_verify \<and>
   verify_payment_POST env0 (rzp_reports ''active'') 5000 forged_verify (store_alice ''created'' None)
     = outcome (json (VerifyError ''Invalid signature'') 400) (store_alice ''created'' None) []"
proof -
  have h1: "createHmac env0 (or_default (RAZORPAY_WEBHOOK_SECRET env0) []) ''{}''
              \<noteq> or_default (Some ''forged'') []"
    by (simp add: env0_def or_default_def)
  have h2: "\<not> truthy (vr_sessionId forged_verify)" "\<not> truthy (vr_subscriptionId forged_verify)"
    by (simp_all add: forged_verify_def truthy_def)
  have h3: "Some (createHmac env0 (or_default (RAZORPAY_KEY_SECRET env0) [])
           (String_of (razorpay_payment_id forged_verify) @ ''|''
              @ String_of (razorpay_subscription_id forged_verify)))
     \<noteq> razorpay_signature forged_verify"
    by (simp add: forged_verify_def env0_def or_default_def String_of_def)
  note T = webhook_signature_rejected[where e = env0 and raw = "''{}''"
      and signature_header = "Some ''forged''" and parse = "\<lambda>raw. Inl (Error ''unexpected token'')"
      and now = 5000 and db = "store_alice ''created'' None" and req = forged_verify
      and rzp = "rzp_reports ''active''"]
  show ?thesis using T h1 h2 h3 by blast
qed
text \<open>
  C4. Subscription creation. As stated (in every call without an active paid period,
  a provider subscription is created, a local row is persisted and the checkout URL
  is returned) the claim fails: the route never checks that the user has a Profile,
  and the Subscription table refers to it. For a user without a Profile the
  provider subscription is created, the insert is refused, nothing is persisted and
  the answer has status 500.
\<close>

theorem createSubscription_no_profile_counterexample:
  "subscription_findFirst
     (\<lambda>s. userId s = ''user_1'' \<and> status s = ''active'' \<and> end_not_before 5000 s) empty_store = None \<and>
   checkout_POST env0 (rzp_reports ''active'') 5000 checkout_alice empty_store
     = outcome (json (CheckoutError ''Failed to create subscription session'') 500) empty_store
         [Create \<lparr>cp_plan_id = ''plan_m'', cp_total_count = 1, cp_customer_notify = 1,
                  cp_notes = notes_alice\<rparr>]"
  by (simp add: checkout_POST_def Let_def truthy_def checkout_alice_def getPriceIdFromType_def
      env0_def subscription_findFirst_def empty_store_def rzp_reports_def
      subscription_create_def profile_findUnique_def notes_alice_def)

text \<open>
  C4, as amended. A request that lacks the plan type, the user or the email, or
  whose plan type is not week, month or year, or whose price does not resolve, is
  answered with status 400, with no provider call and no write. If the user named in
  the request has a row with status active and an end date not before now, the
  answer has status 400, the store is unchanged and no provider call is made; for a
  request that passes validation the body names the current plan and its end date.

  Otherwise, for a request that passes validation, the one provider call is a
  create with total_count 1 for the resolved price, and what follows depends on it
  and on the store. If the call returns, the user has a Profile and the provider's
  identifier is not yet stored, one row is appended that mirrors the provider's
  status with no dates and not recurring, and the answer carries the provider's
  short URL and a callback URL ending in the provider's subscription identifier. If
  the call returns but the user has no Profile or the identifier is already stored,
  the answer has status 500 and nothing is persisted, although the provider
  subscription exists. If the call throws, the answer has status 500 and nothing
  is persisted.
\<close>

theorem createSubscription_outcomes:
  "(\<not> truthy (co_planType req) \<or> \<not> truthy (co_userId req) \<or> \<not> truthy (co_email req)
      \<or> the (co_planType req) \<notin> {''week'', ''month'', ''year''}
      \<or> \<not> truthy (getPriceIdFromType e (the (co_planType req)))
      \<longrightarrow> http_status (resp (checkout_POST e rzp now req db)) = 400 \<and>
          db_after (checkout_POST e rzp now req db) = db \<and>
          calls (checkout_POST e rzp now req db) = []) \<and>
   (co_userId req = Some uid \<and>
    subscription_findFirst
      (\<lambda>s. userId s = uid \<and> status s = ''active'' \<and> end_not_before now s) db = Some a
      \<longrightarrow> http_status (resp (checkout_POST e rzp now req db)) = 400 \<and>
          db_after (checkout_POST e rzp now req db) = db \<and>
          calls (checkout_POST e rzp now req db) = []) \<and>
   (co_userId req = Some uid \<and> uid \<noteq> [] \<and> co_planType req = Some pt \<and>
    pt \<in> {''week'', ''month'', ''year''} \<and> getPriceIdFromType e pt = Some priceId \<and> priceId \<noteq> [] \<and>
    co_email req = Some mail \<and> mail \<noteq> [] \<and>
    subscription_findFirst
      (\<lambda>s. userId s = uid \<and> status s = ''active'' \<and> end_not_before now s) db = Some a
      \<longrightarrow> checkout_POST e rzp now req db =
            outcome (json (CheckoutAlreadyActive already_active_message (planType a) (endDate a)) 400)
              db []) \<and>
   (co_userId req = Some uid \<and> uid \<noteq> [] \<and> co_planType req = Some pt \<and>
    pt \<in> {''week'', ''month'', ''year''} \<and> getPriceIdFromType e pt = Some priceId \<and> priceId \<noteq> [] \<and>
    co_email req = Some mail \<and> mail \<noteq> [] \<and>
    subscription_findFirst
      (\<lambda>s. userId s = uid \<and> status s = ''active'' \<and> end_not_before now s) db = None
      \<longrightarrow> calls (checkout_POST e rzp now req db)
            = [Create \<lparr>cp_plan_id = priceId, cp_total_count = 1, cp_customer_notify = 1,
                       cp_notes = \<lparr>n_userId = Some uid, n_planType = Some pt,
                                   n_email = Some mail\<rparr>\<rparr>] \<and>
          (case subscriptions_create rzp
                  \<lparr>cp_plan_id = priceId, cp_total_count = 1, cp_customer_notify = 1,
                   cp_notes = \<lparr>n_userId = Some uid, n_planType = Some pt,
                               n_email = Some mail\<rparr>\<rparr> of
             Inl err \<Rightarrow>
               resp (checkout_POST e rzp now req db)
                 = json (CheckoutError ''Failed to create subscription session'') 500 \<and>
               db_after (checkout_POST e rzp now req db) = db
           | Inr sub \<Rightarrow>
               if profile_findUnique db uid \<noteq> None \<and> subscription_findUnique (rzp_id sub) db = None
               then
                 resp (checkout_POST e rzp now req db)
                   = json (CheckoutCreated (rzp_id sub) (plan_id sub) (rzp_status sub) (short_url sub)
                             (callback_url (request_origin e (co_origin req)) (rzp_id sub))) 200 \<and>
                 db_after (checkout_POST e rzp now req db)
                   = db\<lparr>subscriptions := subscriptions db @
                          [\<lparr>sub_id = next_id db, userId = uid, planId = plan_id sub,
                            razorpaySubscriptionId = Some (rzp_id sub), razorpayPaymentId = None,
                            status = rzp_status sub, planType = pt,
                            startDate = None, endDate = None, isRecurring = False,
                            createdAt = now, updatedAt = now\<rparr>],
                        next_id := Suc (next_id db)\<rparr>
               else
                 resp (checkout_POST e rzp now req db)
                   = json (CheckoutError ''Failed to create subscription session'') 500 \<and>
                 db_after (checkout_POST e rzp now req db) = db))"
proof (intro conjI impI)
  assume "\<not> truthy (co_planType req) \<or> \<not> truthy (co_userId req) \<or> \<not> truthy (co_email req)
      \<or> the (co_planType req) \<notin> {''week'', ''month'', ''year''}
      \<or> \<not> truthy (getPriceIdFromType e (the (co_planType req)))"
  then show "http_status (resp (checkout_POST e rzp now req db)) = 400"
    "db_after (checkout_POST e rzp now req db) = db"
    "calls (checkout_POST e rzp now req db) = []"
    using checkout_invalid[of req e rzp now db] by simp_all
next
  assume "co_userId req = Some uid \<and>
    subscription_findFirst
      (\<lambda>s. userId s = uid \<and> status s = ''active'' \<and> end_not_before now s) db = Some a"
  then show "http_status (resp (checkout_POST e rzp now req db)) = 400"
    "db_after (checkout_POST e rzp now req db) = db"
    "calls (checkout_POST e rzp now req db) = []"
    using checkout_rejects_active[of req uid now db a e rzp] by simp_all
next
  assume "co_userId req = Some uid \<and> uid \<noteq> [] \<and> co_planType req = Some pt \<and>
    pt \<in> {''week'', ''month'', ''year''} \<and> getPriceIdFromType e pt = Some priceId \<and> priceId \<noteq> [] \<and>
    co_email req = Some mail \<and> mail \<noteq> [] \<and>
    subscription_findFirst
      (\<lambda>s. userId s = uid \<and> status s = ''active'' \<and> end_not_before now s) db = Some a"
  then show "checkout_POST e rzp now req db =
            outcome (json (CheckoutAlreadyActive already_active_message (planType a) (endDate a)) 400)
              db []"
    by (intro checkout_rejects_active_body[of req uid pt e now db a]) (simp_all add: truthy_def)
next
  assume h: "co_userId req = Some uid \<and> uid \<noteq> [] \<and> co_planType req = Some pt \<and>
    pt \<in> {''week'', ''month'', ''year''} \<and> getPriceIdFromType e pt = Some priceId \<and> priceId \<noteq> [] \<and>
    co_email req = Some mail \<and> mail \<noteq> [] \<and>
    subscription_findFirst
      (\<lambda>s. userId s = uid \<and> status s = ''active'' \<and> end_not_before now s) db = None"
  define params where "params = \<lparr>cp_plan_id = priceId, cp_total_count = 1, cp_customer_notify = 1,
      cp_notes = \<lparr>n_userId = Some uid, n_planType = Some pt, n_email = Some mail\<rparr>\<rparr>"
  note thr = checkout_provider_throws[of req uid pt e priceId mail now db rzp, folded params_def]
  note ref = checkout_insert_refused[of req uid pt e priceId mail now db rzp, folded params_def]
  note cre = checkout_creates[of req uid pt e priceId mail now db rzp, folded params_def]
  have b: "calls (checkout_POST e rzp now req db) = [Create params] \<and>
          (case subscriptions_create rzp params of
             Inl err \<Rightarrow>
               resp (checkout_POST e rzp now req db)
                 = json (CheckoutError ''Failed to create subscription session'') 500 \<and>
               db_after (checkout_POST e rzp now req db) = db
           | Inr sub \<Rightarrow>
               if profile_findUnique db uid \<noteq> None \<and> subscription_findUnique (rzp_id sub) db = None
               then
                 resp (checkout_POST e rzp now req db)
                   = json (CheckoutCreated (rzp_id sub) (plan_id sub) (rzp_status sub) (short_url sub)
                             (callback_url (request_origin e (co_origin req)) (rzp_id sub))) 200 \<and>
                 db_after (checkout_POST e rzp now req db)
                   = db\<lparr>subscriptions := subscriptions db @
                          [\<lparr>sub_id = next_id db, userId = uid, planId = plan_id sub,
                            razorpaySubscriptionId = Some (rzp_id sub), razorpayPaymentId = None,
                            status = rzp_status sub, planType = pt,
                            startDate = None, endDate = None, isRecurring = False,
                            createdAt = now, updatedAt = now\<rparr>],
                        next_id := Suc (next_id db)\<rparr>
               else
                 resp (checkout_POST e rzp now req db)
                   = json (CheckoutError ''Failed to create subscription session'') 500 \<and>
                 db_after (checkout_POST e rzp now req db) = db)"
  proof (cases "subscriptions_create rzp params")
    case (Inl err)
    have "checkout_POST e rzp now req db =
            outcome (json (CheckoutError ''Failed to create subscription session'') 500) db
              [Create params]"
      by (rule thr[where err = err]) (use h Inl in simp_all)
    then show ?thesis by (simp add: Inl outcome_def)
  next
    case (Inr sub)
    show ?thesis
    proof (cases "profile_findUnique db uid \<noteq> None \<and> subscription_findUnique (rzp_id sub) db = None")
      case True
      then obtain pr where pr: "profile_findUnique db uid = Some pr" by auto
      have "checkout_POST e rzp now req db =
            outcome (json (CheckoutCreated (rzp_id sub) (plan_id sub) (rzp_status sub) (short_url sub)
                             (callback_url (request_origin e (co_origin req)) (rzp_id sub))) 200)
              (db\<lparr>subscriptions := subscriptions db @
                   [\<lparr>sub_id = next_id db, userId = uid, planId = plan_id sub,
                     razorpaySubscriptionId = Some (rzp_id sub), razorpayPaymentId = None,
                     status = rzp_status sub, planType = pt,
                     startDate = None, endDate = None, isRecurring = False,
                     createdAt = now, updatedAt = now\<rparr>],
                 next_id := Suc (next_id db)\<rparr>)
              [Create params]"
        by (rule cre[where sub = sub and pr = pr]) (use h Inr pr True in simp_all)
      then show ?thesis using True by (simp add: Inr outcome_def)
    next
      case False
      have "checkout_POST e rzp now req db =
            outcome (json (CheckoutError ''Failed to create subscription session'') 500) db
              [Create params]"
        by (rule ref[where sub = sub]) (use h Inr False in auto)
      moreover have "\<not> (profile_findUnique db uid \<noteq> None
                      \<and> subscription_findUnique (rzp_id sub) db = None)"
        using False .
      ultimately show ?thesis unfolding Inr by (simp only: if_False sum.case outcome_def) simp
    qed
  qed
  from b show "calls (checkout_POST e rzp now req db)
            = [Create \<lparr>cp_plan_id = priceId, cp_total_count = 1, cp_customer_notify = 1,
                       cp_notes = \<lparr>n_userId = Some uid, n_planType = Some pt,
                                   n_email = Some mail\<rparr>\<rparr>]"
    unfolding params_def by (rule conjunct1)
  from b show "(case subscriptions_create rzp
                  \<lparr>cp_plan_id = priceId, cp_total_count = 1, cp_customer_notify = 1,
                   cp_notes = \<lparr>n_userId = Some uid, n_planType = Some pt,
                               n_email = Some mail\<rparr>\<rparr> of
             Inl err \<Rightarrow>
               resp (checkout_POST e rzp now req db)
                 = json (CheckoutError ''Failed to create subscription session'') 500 \<and>
               db_after (checkout_POST e rzp now req db) = db
           | Inr sub \<Rightarrow>
               if profile_findUnique db uid \<noteq> None \<and> subscription_findUnique (rzp_id sub) db = None
               then
                 resp (checkout_POST e rzp now req db)
                   = json (CheckoutCreated (rzp_id sub) (plan_id sub) (rzp_status sub) (short_url sub)
                             (callback_url (request_origin e (co_origin req)) (rzp_id sub))) 200 \<and>
                 db_after (checkout_POST e rzp now req db)
                   = db\<lparr>subscriptions := subscriptions db @
                          [\<lparr>sub_id = next_id db, userId = uid, planId = plan_id sub,
                            razorpaySubscriptionId = Some (rzp_id sub), razorpayPaymentId = None,
                            status = rzp_status sub, planType = pt,
                            startDate = None, endDate = None, isRecurring = False,
                            createdAt = now, updatedAt = now\<rparr>],
                        next_id := Suc (next_id db)\<rparr>
               else
                 resp (checkout_POST e rzp now req db)
                   = json (CheckoutError ''Failed to create subscription session'') 500 \<and>
                 db_after (checkout_POST e rzp now req db) = db)"
    unfolding params_def by (rule conjunct2)
qed

text \<open>
  Alice asks for the monthly plan three times: while her paid month lasts, with a
  Profile and no subscription, and before her Profile exists.
\<close>

theorem createSubscription_outcomes_witness:
  "checkout_POST env0 (rzp_reports ''active'') 5000 checkout_alice store_subscribed
     = outcome (json (CheckoutAlreadyActive already_active_message ''month'' (Some 9000000)) 400)
         store_subscribed [] \<and>
   calls (checkout_POST env0 (rzp_reports ''active'') 5000 checkout_alice store_profile_only)
     = [Create \<lparr>cp_plan_id = ''plan_m'', cp_total_count = 1, cp_customer_notify = 1,
                cp_notes = notes_alice\<rparr>] \<and>
   resp (checkout_POST env0 (rzp_reports ''active'') 5000 checkout_alice store_profile_only)
     = json (CheckoutCreated ''sub_2'' ''plan_m'' ''created'' (Some ''https://rzp.io/i/abc'')
               ''https://meals.example/subscribe?sessionId=sub_2'') 200 \<and>
   db_after (checkout_POST env0 (rzp_reports ''active'') 5000 checkout_alice store_profile_only)
     = \<lparr>profiles = [profile_alice],
        subscriptions = [\<lparr>sub_id = 1, userId = ''user_1'', planId = ''plan_m'',
                          razorpaySubscriptionId = Some ''sub_2'', razorpayPaymentId = None,
                          status = ''created'', planType = ''month'',
                          startDate = None, endDate = None, isRecurring = False,
                          createdAt = 5000, updatedAt = 5000\<rparr>],
        next_id = 2\<rparr> \<and>
   calls (checkout_POST env0 (rzp_reports ''active'') 5000 checkout_alice empty_store)
     = [Create \<lparr>cp_plan_id = ''plan_m'', cp_total_count = 1, cp_customer_notify = 1,
                cp_notes = notes_alice\<rparr>] \<and>
   resp (checkout_POST env0 (rzp_reports ''active'') 5000 checkout_alice empty_store)
     = json (CheckoutError ''Failed to create subscription session'') 500 \<and>
   db_after (checkout_POST env0 (rzp_reports ''active'') 5000 checkout_alice empty_store) = empty_store"
proof -
  have r: "co_userId checkout_alice = Some ''user_1''" "''user_1'' \<noteq> []"
    "co_planType checkout_alice = Some ''month''" "''month'' \<in> {''week'', ''month'', ''year''}"
    "getPriceIdFromType env0 ''month'' = Some ''plan_m''" "''plan_m'' \<noteq> []"
    "co_email checkout_alice = Some ''alice@example.com''" "''alice@example.com'' \<noteq> []"
    by (simp_all add: checkout_alice_def getPriceIdFromType_def env0_def)
  have a: "subscription_findFirst
      (\<lambda>s. userId s = ''user_1'' \<and> status s = ''active'' \<and> end_not_before 5000 s) store_subscribed
        = Some (row_alice ''active'' (Some 9000000))"
    by (simp add: subscription_findFirst_def store_subscribed_def row_alice_def end_not_before_def)
  have n: "subscription_findFirst
      (\<lambda>s. userId s = ''user_1'' \<and> status s = ''active'' \<and> end_not_before 5000 s) store_profile_only
        = None"
    by (simp add: subscription_findFirst_def store_profile_only_def)
  have n0: "subscription_findFirst
      (\<lambda>s. userId s = ''user_1'' \<and> status s = ''active'' \<and> end_not_before 5000 s) empty_store
        = None"
    by (simp add: subscription_findFirst_def empty_store_def)
  have c: "subscriptions_create (rzp_reports ''active'')
      \<lparr>cp_plan_id = ''plan_m'', cp_total_count = 1, cp_customer_notify = 1,
       cp_notes = \<lparr>n_userId = Some ''user_1'', n_planType = Some ''month'',
                   n_email = Some ''alice@example.com''\<rparr>\<rparr> = Inr (rzp_sub ''sub_2'' ''created'')"
    by (simp add: rzp_reports_def)
  have p: "profile_findUnique store_profile_only ''user_1'' \<noteq> None"
    by (simp add: profile_findUnique_def store_profile_only_def profile_alice_def)
  have p0: "profile_findUnique empty_store ''user_1'' = None"
    by (simp add: profile_findUnique_def empty_store_def)
  have f: "subscription_findUnique (rzp_id (rzp_sub ''sub_2'' ''created'')) store_profile_only = None"
    by (simp add: subscription_findUnique_def store_profile_only_def)
  note T1 = createSubscription_outcomes[where req = checkout_alice and uid = "''user_1''"
      and pt = "''month''" and e = env0 and priceId = "''plan_m''" and mail = "''alice@example.com''"
      and now = 5000 and db = store_subscribed and a = "row_alice ''active'' (Some 9000000)"
      and rzp = "rzp_reports ''active''"]
  from T1 r a have w1: "checkout_POST env0 (rzp_reports ''active'') 5000 checkout_alice store_subscribed
     = outcome (json (CheckoutAlreadyActive already_active_message
                        (planType (row_alice ''active'' (Some 9000000)))
                        (endDate (row_alice ''active'' (Some 9000000)))) 400) store_subscribed []"
    by blast
  note T2 = createSubscription_outcomes[where req = checkout_alice and uid = "''user_1''"
      and pt = "''month''" and e = env0 and priceId = "''plan_m''" and mail = "''alice@example.com''"
      and now = 5000 and db = store_profile_only and rzp = "rzp_reports ''active''"]
  from T2 r n have w2: "calls (checkout_POST env0 (rzp_reports ''active'') 5000 checkout_alice store_profile_only)
            = [Create \<lparr>cp_plan_id = ''plan_m'', cp_total_count = 1, cp_customer_notify = 1,
                       cp_notes = \<lparr>n_userId = Some ''user_1'', n_planType = Some ''month'',
                                   n_email = Some ''alice@example.com''\<rparr>\<rparr>] \<and>
          (case subscriptions_create (rzp_reports ''active'')
                  \<lparr>cp_plan_id = ''plan_m'', cp_total_count = 1, cp_customer_notify = 1,
                   cp_notes = \<lparr>n_userId = Some ''user_1'', n_planType = Some ''month'',
                               n_email = Some ''alice@example.com''\<rparr>\<rparr> of
             Inl err \<Rightarrow>
               resp (checkout_POST env0 (rzp_reports ''active'') 5000 checkout_alice store_profile_only)
                 = json (CheckoutError ''Failed to create subscription session'') 500 \<and>
               db_after (checkout_POST env0 (rzp_reports ''active'') 5000 checkout_alice store_profile_only)
                 = store_profile_only
           | Inr sub \<Rightarrow>
               if profile_findUnique store_profile_only ''user_1'' \<noteq> None
                  \<and> subscription_findUnique (rzp_id sub) store_profile_only = None
               then
                 resp (checkout_POST env0 (rzp_reports ''active'') 5000 checkout_alice store_profile_only)
                   = json (CheckoutCreated (rzp_id sub) (plan_id sub) (rzp_status sub) (short_url sub)
                             (callback_url (request_origin env0 (co_origin checkout_alice)) (rzp_id sub))) 200 \<and>
                 db_after (checkout_POST env0 (rzp_reports ''active'') 5000 checkout_alice store_profile_only)
                   = store_profile_only\<lparr>subscriptions := subscriptions store_profile_only @
                          [\<lparr>sub_id = next_id store_profile_only, userId = ''user_1'', planId = plan_id sub,
                            razorpaySubscriptionId = Some (rzp_id sub), razorpayPaymentId = None,
                            status = rzp_status sub, planType = ''month'',
                            startDate = None, endDate = None, isRecurring = False,
                            createdAt = 5000, updatedAt = 5000\<rparr>],
                        next_id := Suc (next_id store_profile_only)\<rparr>
               else
                 resp (checkout_POST env0 (rzp_reports ''active'') 5000 checkout_alice store_profile_only)
                   = json (CheckoutError ''Failed to create subscription session'') 500 \<and>
                 db_after (checkout_POST env0 (rzp_reports ''active'') 5000 checkout_alice store_profile_only)
                   = store_profile_only)"
    by blast
  note T3 = createSubscription_outcomes[where req = checkout_alice and uid = "''user_1''"
      and pt = "''month''" and e = env0 and priceId = "''plan_m''" and mail = "''alice@example.com''"
      and now = 5000 and db = empty_store and rzp = "rzp_reports ''active''"]
  from T3 r n0 have w3: "calls (checkout_POST env0 (rzp_reports ''active'') 5000 checkout_alice empty_store)
            = [Create \<lparr>cp_plan_id = ''plan_m'', cp_total_count = 1, cp_customer_notify = 1,
                       cp_notes = \<lparr>n_userId = Some ''user_1'', n_planType = Some ''month'',
                                   n_email = Some ''alice@example.com''\<rparr>\<rparr>] \<and>
          (case subscriptions_create (rzp_reports ''active'')
                  \<lparr>cp_plan_id = ''plan_m'', cp_total_count = 1, cp_customer_notify = 1,
                   cp_notes = \<lparr>n_userId = Some ''user_1'', n_planType = Some ''month'',
                               n_email = Some ''alice@example.com''\<rparr>\<rparr> of
             Inl err \<Rightarrow>
               resp (checkout_POST env0 (rzp_reports ''active'') 5000 checkout_alice empty_store)
                 = json (CheckoutError ''Failed to create subscription session'') 500 \<and>
               db_after (checkout_POST env0 (rzp_reports ''active'') 5000 checkout_alice empty_store)
                 = empty_store
           | Inr sub \<Rightarrow>
               if profile_findUnique empty_store ''user_1'' \<noteq> None
                  \<and> subscription_findUnique (rzp_id sub) empty_store = None
               then
                 resp (checkout_POST env0 (rzp_reports ''active'') 5000 checkout_alice empty_store)
                   = json (CheckoutCreated (rzp_id sub) (plan_id sub) (rzp_status sub) (short_url sub)
                             (callback_url (request_origin env0 (co_origin checkout_alice)) (rzp_id sub))) 200 \<and>
                 db_after (checkout_POST env0 (rzp_reports ''active'') 5000 checkout_alice empty_store)
                   = empty_store\<lparr>subscriptions := subscriptions empty_store @
                          [\<lparr>sub_id = next_id empty_store, userId = ''user_1'', planId = plan_id sub,
                            razorpaySubscriptionId = Some (rzp_id sub), razorpayPaymentId = None,
                            status = rzp_status sub, planType = ''month'',
                            startDate = None, endDate = None, isRecurring = False,
                            createdAt = 5000, updatedAt = 5000\<rparr>],
                        next_id := Suc (next_id empty_store)\<rparr>
               else
                 resp (checkout_POST env0 (rzp_reports ''active'') 5000 checkout_alice empty_store)
                   = json (CheckoutError ''Failed to create subscription session'') 500 \<and>
                 db_after (checkout_POST env0 (rzp_reports ''active'') 5000 checkout_alice empty_store)
                   = empty_store)"
    by blast
  have o: "request_origin env0 (co_origin checkout_alice) = ''https://meals.example''"
    by (simp add: request_origin_def checkout_alice_def env0_def or_else_def or_default_def truthy_def)
  have fl: "rzp_id (rzp_sub i st) = i" "plan_id (rzp_sub i st) = ''plan_m''"
    "rzp_status (rzp_sub i st) = st" "short_url (rzp_sub i st) = Some ''https://rzp.io/i/abc''" for i st
    by (simp_all add: rzp_sub_def)
  have rl: "planType (row_alice x y) = ''month''" "endDate (row_alice x y) = y" for x y
    by (simp_all add: row_alice_def)
  have st: "store_profile_only\<lparr>subscriptions := subscriptions store_profile_only @
                   [\<lparr>sub_id = next_id store_profile_only, userId = ''user_1'',
                     planId = ''plan_m'',
                     razorpaySubscriptionId = Some ''sub_2'',
                     razorpayPaymentId = None,
                     status = ''created'', planType = ''month'',
                     startDate = None, endDate = None, isRecurring = False,
                     createdAt = 5000, updatedAt = 5000\<rparr>],
                 next_id := Suc (next_id store_profile_only)\<rparr>
      = \<lparr>profiles = [profile_alice],
          subscriptions = [\<lparr>sub_id = 1, userId = ''user_1'', planId = ''plan_m'',
                            razorpaySubscriptionId = Some ''sub_2'', razorpayPaymentId = None,
                            status = ''created'', planType = ''month'',
                            startDate = None, endDate = None, isRecurring = False,
                            createdAt = 5000, updatedAt = 5000\<rparr>],
          next_id = 2\<rparr>"
    by (simp add: store_profile_only_def)
  have cb: "callback_url ''https://meals.example'' ''sub_2''
              = ''https://meals.example/subscribe?sessionId=sub_2''"
    by (simp add: callback_url_def)
  have na: "\<lparr>n_userId = Some ''user_1'', n_planType = Some ''month'',
             n_email = Some ''alice@example.com''\<rparr> = notes_alice"
    by (simp add: notes_alice_def)
  have w1': "checkout_POST env0 (rzp_reports ''active'') 5000 checkout_alice store_subscribed
     = outcome (json (CheckoutAlreadyActive already_active_message ''month'' (Some 9000000)) 400)
         store_subscribed []"
    using w1 unfolding rl .
  have w2': "calls (checkout_POST env0 (rzp_reports ''active'') 5000 checkout_alice store_profile_only)
     = [Create \<lparr>cp_plan_id = ''plan_m'', cp_total_count = 1, cp_customer_notify = 1,
                cp_notes = notes_alice\<rparr>] \<and>
   resp (checkout_POST env0 (rzp_reports ''active'') 5000 checkout_alice store_profile_only)
     = json (CheckoutCreated ''sub_2'' ''plan_m'' ''created'' (Some ''https://rzp.io/i/abc'')
               ''https://meals.example/subscribe?sessionId=sub_2'') 200 \<and>
   db_after (checkout_POST env0 (rzp_reports ''active'') 5000 checkout_alice store_profile_only)
     = \<lparr>profiles = [profile_alice],
        subscriptions = [\<lparr>sub_id = 1, userId = ''user_1'', planId = ''plan_m'',
                          razorpaySubscriptionId = Some ''sub_2'', razorpayPaymentId = None,
                          status = ''created'', planType = ''month'',
                          startDate = None, endDate = None, isRecurring = False,
                          createdAt = 5000, updatedAt = 5000\<rparr>],
        next_id = 2\<rparr>"
    using w2 p f unfolding c by (simp add: fl o st cb na)
  have w3': "calls (checkout_POST env0 (rzp_reports ''active'') 5000 checkout_alice empty_store)
     = [Create \<lparr>cp_plan_id = ''plan_m'', cp_total_count = 1, cp_customer_notify = 1,
                cp_notes = notes_alice\<rparr>] \<and>
   resp (checkout_POST env0 (rzp_reports ''active'') 5000 checkout_alice empty_store)
     = json (CheckoutError ''Failed to create subscription session'') 500 \<and>
   db_after (checkout_POST env0 (rzp_reports ''active'') 5000 checkout_alice empty_store) = empty_store"
    using w3 p0 unfolding c by (simp add: na)
  show ?thesis
    using w1' w2' w3' by blast
qed



text \<open>
  C7. Applying the provider status active twice through the verification path. As
  stated (the record after two applications is identical to the record after one)
  the claim fails: each application writes the start date from the clock and the
  end date computed from it, so verifying Alice's subscription a second time one
  day later moves both dates by a day.
\<close>

theorem verification_twice_counterexample:
  "db_after (verify_payment_POST env0 (rzp_reports ''active'') 1736942400000 verify_alice
               (store_alice ''created'' None))
     = store_verified 1736942400000 1739620800000 \<and>
   db_after (verify_payment_POST env0 (rzp_reports ''active'') 1737028800000 verify_alice
               (db_after (verify_payment_POST env0 (rzp_reports ''active'') 1736942400000 verify_alice
                            (store_alice ''created'' None))))
     = store_verified 1737028800000 1739707200000 \<and>
   store_verified 1737028800000 1739707200000 \<noteq> store_verified 1736942400000 1739620800000"
  by (simp add: verify_alice_first verify_alice_second outcome_def)
     (simp add: store_verified_def row_alice_def)

text \<open>
  C7, as amended. Take any request of the redirect flow for provider subscription
  \<open>sid\<close>, any provider, any store \<open>db\<close>, and two clock readings \<open>now1\<close> and \<open>now2\<close>; let
  \<open>db1\<close> be the store that the first application, at \<open>now1\<close>, leaves.

  \<^item> The store after the second application equals \<open>db1\<close> in every Subscription row
    and every Profile row, apart from the start date, the end date and the time of
    the last write.
  \<^item> If the second application reads the same clock as the first, it leaves \<open>db1\<close>
    exactly.
  \<^item> Every second application that answers with success re-stamps from its own
    clock: it leaves exactly \<open>db1\<close> with, on the rows of \<open>sid\<close>, the start date set
    to \<open>now2\<close>, the end date set to the end date computed at \<open>now2\<close> for the plan type
    the provider reports (month when it reports none), and the time of the last write
    set to \<open>now2\<close>, and, on the Profile of the user, the time of the last write set to
    \<open>now2\<close>.
  \<^item> The second application does answer with success whenever the first did and
    the provider answers with the subscription asked for.
  \<^item> The first application stamps in the same way: when it answers with success,
    every row of \<open>sid\<close> in \<open>db1\<close> is active, starts at \<open>now1\<close>, ends at the end date
    computed at \<open>now1\<close>, and was last written at \<open>now1\<close>.
\<close>

theorem verification_idempotent_up_to_time:
  fixes e :: env and rzp :: razorpay and req :: verify_request and db :: store
    and now1 now2 :: int and sub :: rzp_subscription
  defines "sid \<equiv> the (or_else (vr_sessionId req) (vr_subscriptionId req))"
    and "db1 \<equiv> db_after (verify_payment_POST e rzp now1 req db)"
  assumes flow: "truthy (vr_sessionId req) \<or> truthy (vr_subscriptionId req)"
  shows "forget_times (db_after (verify_payment_POST e rzp now2 req db1)) = forget_times db1 \<and>
         db_after (verify_payment_POST e rzp now1 req db1) = db1 \<and>
         (subscriptions_fetch rzp sid = Inr (Some sub) \<and>
          resp (verify_payment_POST e rzp now2 req db1)
            = json (VerifySuccess ''Subscription verified and activated'') 200
            \<longrightarrow> db_after (verify_payment_POST e rzp now2 req db1)
                  = restamped e now2 sid (or_default (notes_planType sub) ''month'')
                      (the (notes_userId sub)) db1) \<and>
         (subscriptions_fetch rzp sid = Inr (Some sub) \<and> rzp_id sub = sid \<and>
          resp (verify_payment_POST e rzp now1 req db)
            = json (VerifySuccess ''Subscription verified and activated'') 200
            \<longrightarrow> resp (verify_payment_POST e rzp now2 req db1)
                  = json (VerifySuccess ''Subscription verified and activated'') 200) \<and>
         (subscriptions_fetch rzp sid = Inr (Some sub) \<and>
          resp (verify_payment_POST e rzp now1 req db)
            = json (VerifySuccess ''Subscription verified and activated'') 200
            \<longrightarrow> (\<forall>s\<in>set (subscriptions db1).
                   razorpaySubscriptionId s = Some sid \<longrightarrow>
                     status s = ''active'' \<and> startDate s = Some now1 \<and>
                     endDate s = Some (calculateEndDate_verify (LocalTZA e) now1
                                         (Some (or_default (notes_planType sub) ''month''))) \<and>
                     updatedAt s = now1))"
proof -
  have V: "verify_payment_POST e rzp t req d = verify_redirect e rzp t sid d" for t d
    using flow by (simp add: verify_payment_POST_def sid_def)
  have a: "forget_times (db_after (verify_payment_POST e rzp now2 req db1)) = forget_times db1"
    unfolding db1_def V by (rule verify_redirect_twice)
  have b: "db_after (verify_payment_POST e rzp now1 req db1) = db1"
    unfolding db1_def V by (rule verify_redirect_same_clock)
  have c: "db_after (verify_payment_POST e rzp now2 req db1)
             = restamped e now2 sid (or_default (notes_planType sub) ''month'')
                 (the (notes_userId sub)) db1"
    if "subscriptions_fetch rzp sid = Inr (Some sub)"
      "resp (verify_payment_POST e rzp now2 req db1)
         = json (VerifySuccess ''Subscription verified and activated'') 200"
    using that unfolding db1_def V by (rule verify_redirect_restamps)
  have d: "resp (verify_payment_POST e rzp now2 req db1)
             = json (VerifySuccess ''Subscription verified and activated'') 200"
    if "subscriptions_fetch rzp sid = Inr (Some sub)" "rzp_id sub = sid"
      "resp (verify_payment_POST e rzp now1 req db)
         = json (VerifySuccess ''Subscription verified and activated'') 200"
    using that unfolding db1_def V by (rule verify_redirect_again)
  have f: "\<forall>s\<in>set (subscriptions db1).
             razorpaySubscriptionId s = Some sid \<longrightarrow>
               status s = ''active'' \<and> startDate s = Some now1 \<and>
               endDate s = Some (calculateEndDate_verify (LocalTZA e) now1
                                   (Some (or_default (notes_planType sub) ''month''))) \<and>
               updatedAt s = now1"
    if "subscriptions_fetch rzp sid = Inr (Some sub)"
      "resp (verify_payment_POST e rzp now1 req db)
         = json (VerifySuccess ''Subscription verified and activated'') 200"
    using that unfolding db1_def V by (rule verify_redirect_stamped)
  show ?thesis
    apply (intro conjI impI)
        apply (rule a)
       apply (rule b)
      apply (rule c; simp)
     apply (rule d; simp)
    apply (rule f; simp)
    done
qed

text \<open>
  Alice's subscription is verified on 2025-01-15 at noon and again a day later, on
  a host keeping UTC: the second application moves the start date to 2025-01-16 and
  the end date from 2025-02-15 to 2025-02-16, and changes nothing else.
\<close>

theorem verification_idempotent_up_to_time_witness:
  "(truthy (vr_sessionId verify_alice) \<or> truthy (vr_subscriptionId verify_alice)) \<and>
   the (or_else (vr_sessionId verify_alice) (vr_subscriptionId verify_alice)) = ''sub_1'' \<and>
   subscriptions_fetch (rzp_reports ''active'') ''sub_1'' = Inr (Some (rzp_sub ''sub_1'' ''active'')) \<and>
   rzp_id (rzp_sub ''sub_1'' ''active'') = ''sub_1'' \<and>
   verify_payment_POST env0 (rzp_reports ''active'') 1736942400000 verify_alice
       (store_alice ''created'' None)
     = outcome (json (VerifySuccess ''Subscription verified and activated'') 200)
         (store_verified 1736942400000 1739620800000) [Fetch ''sub_1''] \<and>
   forget_times (db_after (verify_payment_POST env0 (rzp_reports ''active'') 1737028800000
                             verify_alice (store_verified 1736942400000 1739620800000)))
     = forget_times (store_verified 1736942400000 1739620800000) \<and>
   db_after (verify_payment_POST env0 (rzp_reports ''active'') 1736942400000 verify_alice
               (store_verified 1736942400000 1739620800000))
     = store_verified 1736942400000 1739620800000 \<and>
   resp (verify_payment_POST env0 (rzp_reports ''active'') 1737028800000 verify_alice
           (store_verified 1736942400000 1739620800000))
     = json (VerifySuccess ''Subscription verified and activated'') 200 \<and>
   db_after (verify_payment_POST env0 (rzp_reports ''active'') 1737028800000 verify_alice
               (store_verified 1736942400000 1739620800000))
     = restamped env0 1737028800000 ''sub_1'' ''month'' ''user_1''
         (store_verified 1736942400000 1739620800000) \<and>
   restamped env0 1737028800000 ''sub_1'' ''month'' ''user_1''
       (store_verified 1736942400000 1739620800000)
     = store_verified 1737028800000 1739707200000"
proof -
  have h: "truthy (vr_sessionId verify_alice) \<or> truthy (vr_subscriptionId verify_alice)"
    by (simp add: verify_alice_def truthy_def)
  have s: "the (or_else (vr_sessionId verify_alice) (vr_subscriptionId verify_alice)) = ''sub_1''"
    by (simp add: verify_alice_def or_else_def truthy_def)
  have f: "subscriptions_fetch (rzp_reports ''active'') ''sub_1''
             = Inr (Some (rzp_sub ''sub_1'' ''active''))"
    by (simp add: rzp_reports_def)
  have i: "rzp_id (rzp_sub ''sub_1'' ''active'') = ''sub_1''"
    by (simp add: rzp_sub_def)
  have n: "or_default (notes_planType (rzp_sub ''sub_1'' ''active'')) ''month'' = ''month''"
    "the (notes_userId (rzp_sub ''sub_1'' ''active'')) = ''user_1''"
    by (simp_all add: rzp_sub_def notes_alice_def notes_planType_def notes_userId_def or_default_def)
  note first = verify_alice_first
  have d1: "db_after (verify_payment_POST env0 (rzp_reports ''active'') 1736942400000 verify_alice
                        (store_alice ''created'' None))
              = store_verified 1736942400000 1739620800000"
    and r1: "resp (verify_payment_POST env0 (rzp_reports ''active'') 1736942400000 verify_alice
                     (store_alice ''created'' None))
              = json (VerifySuccess ''Subscription verified and activated'') 200"
    by (simp_all add: first outcome_def)
  note T = verification_idempotent_up_to_time[OF h, where e = env0 and rzp = "rzp_reports ''active''"
      and db = "store_alice ''created'' None" and ?now1.0 = 1736942400000
      and ?now2.0 = 1737028800000 and sub = "rzp_sub ''sub_1'' ''active''", unfolded s d1 n]
  have a: "forget_times (db_after (verify_payment_POST env0 (rzp_reports ''active'') 1737028800000
                             verify_alice (store_verified 1736942400000 1739620800000)))
     = forget_times (store_verified 1736942400000 1739620800000)"
    by (rule T[THEN conjunct1])
  have b: "db_after (verify_payment_POST env0 (rzp_reports ''active'') 1736942400000 verify_alice
               (store_verified 1736942400000 1739620800000))
     = store_verified 1736942400000 1739620800000"
    by (rule T[THEN conjunct2, THEN conjunct1])
  have r2: "resp (verify_payment_POST env0 (rzp_reports ''active'') 1737028800000 verify_alice
           (store_verified 1736942400000 1739620800000))
     = json (VerifySuccess ''Subscription verified and activated'') 200"
    using T[THEN conjunct2, THEN conjunct2, THEN conjunct2] f i r1 by blast
  have c: "db_after (verify_payment_POST env0 (rzp_reports ''active'') 1737028800000 verify_alice
               (store_verified 1736942400000 1739620800000))
     = restamped env0 1737028800000 ''sub_1'' ''month'' ''user_1''
         (store_verified 1736942400000 1739620800000)"
    using T[THEN conjunct2, THEN conjunct2, THEN conjunct1] f r2 by blast
  have e: "restamped env0 1737028800000 ''sub_1'' ''month'' ''user_1''
       (store_verified 1736942400000 1739620800000)
     = store_verified 1737028800000 1739707200000"
    by (simp add: restamped_def store_verified_def row_alice_def profile_alice_active_def
        profile_alice_def env0_def calc_verify_examples)
  show ?thesis
    by (intro conjI) (rule h s f i first a b r2 c e)+
qed

end
